(* ===== verification/Prelude.thy ===== *)
theory Prelude
  imports Main "HOL-Library.Word"
begin

text \<open>
  Shared vocabulary of the development of the OP-TEE HMAC example
  (\<^verbatim>\<open>src/hmac/ta/hmac_ta.c\<close> and its host \<^verbatim>\<open>src/mac_sha1/host/main.c\<close>).
  It fixes the machine types the C code uses (\<open>uint8_t\<close> as \<open>byte\<close>,
  \<open>uint32_t\<close> as \<open>u32\<close>), the two C library primitives the handlers are made
  of (\<open>memset\<close> and \<open>memcpy\<close> on a fixed array, modelled as a byte list of the
  array's length), the collections of facts the component theories add to, and
  the list and word lemmas that every component proof shares.
\<close>

unbundle bit_operations_syntax

type_synonym byte = "8 word"
type_synonym u32 = "32 word"

named_theorems buffer_simps
  "equations for the contents of the static buffers after memset/memcpy"
named_theorems handler_defs
  "definitions of the TA command handlers, unfolded together by the dispatcher proofs"

section \<open>The C library primitives on byte arrays\<close>

text \<open>
  \<open>memset(dst, c, n)\<close> writes \<open>n\<close> copies of \<open>c\<close> at the start of the array
  \<open>dst\<close>; \<open>memcpy(dst, src, n)\<close> copies the first \<open>n\<close> bytes of \<open>src\<close> to the
  start of \<open>dst\<close>. An array of the C program is the list of its bytes; the
  caller guarantees \<open>n\<close> bytes on both sides, which the lemmas below take as a
  hypothesis where the result depends on it.
\<close>

definition memset :: "byte list \<Rightarrow> byte \<Rightarrow> nat \<Rightarrow> byte list" where
  "memset dst c n = replicate n c @ drop n dst"

definition memcpy :: "byte list \<Rightarrow> byte list \<Rightarrow> nat \<Rightarrow> byte list" where
  "memcpy dst src n = take n src @ drop n dst"

text \<open>A C string printed with \<open>%s\<close> ends at the first NUL byte of its array.\<close>

definition has_nul :: "byte list \<Rightarrow> bool" where
  "has_nul xs \<longleftrightarrow> (0::byte) \<in> set xs"

text \<open>
  A buffer whose bytes from position \<open>n\<close> on are all zero: the shape that
  \<open>memset\<close> followed by \<open>memcpy\<close> of \<open>n\<close> bytes leaves.
\<close>

definition zero_padded :: "byte list \<Rightarrow> nat \<Rightarrow> bool" where
  "zero_padded xs n \<longleftrightarrow> (\<forall>i. n \<le> i \<and> i < length xs \<longrightarrow> xs ! i = 0)"

section \<open>Buffer lemmas\<close>

lemma length_memset [simp]:
  "n \<le> length dst \<Longrightarrow> length (memset dst c n) = length dst"
  by (simp add: memset_def)

lemma memset_all [buffer_simps]:
  "memset dst c (length dst) = replicate (length dst) c"
  by (simp add: memset_def)

lemma length_memcpy [simp]:
  "n \<le> length src \<Longrightarrow> n \<le> length dst \<Longrightarrow> length (memcpy dst src n) = length dst"
  by (simp add: memcpy_def)

lemma memcpy_replicate [buffer_simps]:
  "n \<le> length src \<Longrightarrow> n \<le> m \<Longrightarrow>
   memcpy (replicate m c) src n = take n src @ replicate (m - n) c"
  by (simp add: memcpy_def)

lemma take_memcpy [buffer_simps]:
  "n \<le> length src \<Longrightarrow> take n (memcpy dst src n) = take n src"
  by (simp add: memcpy_def)

text \<open>
  Clearing a whole array and copying \<open>n\<close> bytes into it: the sequence every
  register handler performs.
\<close>

lemma memcpy_memset_store [buffer_simps]:
  assumes "length dst = cap" "n \<le> cap" "n \<le> length src"
  shows "memcpy (memset dst 0 cap) src n = take n src @ replicate (cap - n) 0"
  using assms by (simp add: memset_def memcpy_def)

lemma zero_padded_iff_drop:
  "zero_padded xs n \<longleftrightarrow> drop n xs = replicate (length xs - n) 0"
proof
  assume "zero_padded xs n"
  then show "drop n xs = replicate (length xs - n) 0"
    by (simp add: zero_padded_def list_eq_iff_nth_eq)
next
  assume d: "drop n xs = replicate (length xs - n) 0"
  show "zero_padded xs n"
    unfolding zero_padded_def
  proof (intro allI impI)
    fix i assume i: "n \<le> i \<and> i < length xs"
    then have "drop n xs ! (i - n) = xs ! i" by simp
    moreover have "i - n < length xs - n" using i by arith
    ultimately show "xs ! i = 0" using d by simp
  qed
qed

lemma zero_padded_take_replicate [intro]:
  "n \<le> length src \<Longrightarrow> zero_padded (take n src @ replicate m 0) n"
  by (simp add: zero_padded_iff_drop)

lemma zero_padded_replicate [intro]: "zero_padded (replicate m 0) n"
  by (auto simp: zero_padded_def)

text \<open>
  The stored data is recovered from a padded buffer by taking its logical
  length: the round trip of a store into a fixed-size slot.
\<close>

lemma take_padded [buffer_simps]:
  "n \<le> length src \<Longrightarrow> take n (take n src @ replicate m c) = take n src"
  by simp

section \<open>Word lemmas\<close>

text \<open>
  Sizes are \<open>uint32_t\<close> in the C code and compared against constants; the
  comparisons are read on \<open>nat\<close> through \<open>unat\<close>.
\<close>

lemma u32_suc_no_wrap:
  fixes i n :: u32
  assumes "i < n"
  shows "unat (i + 1) = Suc (unat i)"
proof -
  have "unat i < unat n" using assms by (simp add: word_less_nat_alt)
  moreover have "unat n < 2 ^ LENGTH(32)" by (rule unsigned_less)
  ultimately have "unat i + 1 < 2 ^ 32" by simp
  then show ?thesis by (simp add: unat_word_ariths)
qed

text \<open>A \<open>uint32_t\<close> counter running up to a bound makes the distance shrink.\<close>

lemma u32_count_up_measure:
  fixes i n :: u32
  assumes "i < n"
  shows "unat (n - (i + 1)) < unat (n - i)"
proof -
  have le: "i + 1 \<le> n" using assms by (simp add: inc_le)
  have "unat (n - (i + 1)) = unat n - Suc (unat i)"
    using le by (simp add: unat_sub u32_suc_no_wrap [OF assms])
  moreover have "unat (n - i) = unat n - unat i"
    using assms by (simp add: unat_sub order_less_imp_le)
  moreover have "unat i < unat n" using assms by (simp add: word_less_nat_alt)
  ultimately show ?thesis by simp
qed

text \<open>Scanning a range one index further, when the first index passes.\<close>

lemma range_step:
  "(P::nat \<Rightarrow> bool) i \<Longrightarrow>
   (\<forall>j. i \<le> j \<and> j < n \<longrightarrow> P j) \<longleftrightarrow> (\<forall>j. Suc i \<le> j \<and> j < n \<longrightarrow> P j)"
  by (metis Suc_leD le_neq_implies_less Suc_le_eq)

text \<open>Two bytes are equal exactly when their exclusive or is zero.\<close>

lemma byte_xor_eq_0_iff: "(x::byte) XOR y = 0 \<longleftrightarrow> x = y"
  by (auto simp: bit_eq_iff bit_xor_iff)

text \<open>A buffer length that fits a slot survives the round trip through a \<open>uint32_t\<close>.\<close>

lemma unat_of_len_u32: "n \<le> 64 \<Longrightarrow> unat (of_nat n :: u32) = n"
  by (simp add: unat_of_nat)

end
