(* ===== verification/TEE_API.thy ===== *)
theory TEE_API
  imports Prelude
begin

text \<open>
  The part of the GlobalPlatform TEE Internal Core API that the HMAC trusted
  application calls. None of it is code of this repository: the constants and
  the parameter-type macros come from OP-TEE's \<^verbatim>\<open>tee_api_defines.h\<close> and
  \<^verbatim>\<open>tee_api_types.h\<close>, and the cryptographic operations are services of the
  TEE core. They are modelled from the specification, as the environment the
  TA runs in:
  \<^item> result codes and parameter-type codes as \<open>u32\<close> constants;
  \<^item> the macros \<open>TEE_PARAM_TYPES\<close> and \<open>TEE_PARAM_TYPE_GET\<close> as word
    functions, with their round trip;
  \<^item> \<open>TEE_Param\<close> as a record holding both views of the C union;
  \<^item> the crypto services as a record \<open>tee_crypto\<close> of the results they return,
    which the theorems quantify over (the interface the TA is proved against),
    and the trace events by which the handle discipline is observed.
\<close>

unbundle bit_operations_syntax

section \<open>Result codes\<close>

definition TEE_SUCCESS :: u32 where
  "TEE_SUCCESS = 0"

definition TEE_ERROR_BAD_PARAMETERS :: u32 where
  "TEE_ERROR_BAD_PARAMETERS = 0xFFFF0006"

definition TEE_ERROR_SHORT_BUFFER :: u32 where
  "TEE_ERROR_SHORT_BUFFER = 0xFFFF0010"

lemmas tee_result_defs = TEE_SUCCESS_def TEE_ERROR_BAD_PARAMETERS_def TEE_ERROR_SHORT_BUFFER_def

section \<open>Parameter types\<close>

definition TEE_PARAM_TYPE_NONE :: u32 where "TEE_PARAM_TYPE_NONE = 0"
definition TEE_PARAM_TYPE_VALUE_INPUT :: u32 where "TEE_PARAM_TYPE_VALUE_INPUT = 1"
definition TEE_PARAM_TYPE_VALUE_OUTPUT :: u32 where "TEE_PARAM_TYPE_VALUE_OUTPUT = 2"
definition TEE_PARAM_TYPE_VALUE_INOUT :: u32 where "TEE_PARAM_TYPE_VALUE_INOUT = 3"
definition TEE_PARAM_TYPE_MEMREF_INPUT :: u32 where "TEE_PARAM_TYPE_MEMREF_INPUT = 5"
definition TEE_PARAM_TYPE_MEMREF_OUTPUT :: u32 where "TEE_PARAM_TYPE_MEMREF_OUTPUT = 6"
definition TEE_PARAM_TYPE_MEMREF_INOUT :: u32 where "TEE_PARAM_TYPE_MEMREF_INOUT = 7"

lemmas param_type_defs =
  TEE_PARAM_TYPE_NONE_def TEE_PARAM_TYPE_VALUE_INPUT_def TEE_PARAM_TYPE_VALUE_OUTPUT_def
  TEE_PARAM_TYPE_VALUE_INOUT_def TEE_PARAM_TYPE_MEMREF_INPUT_def
  TEE_PARAM_TYPE_MEMREF_OUTPUT_def TEE_PARAM_TYPE_MEMREF_INOUT_def

text \<open>
  \<open>#define TEE_PARAM_TYPES(t0,t1,t2,t3) ((t0) | ((t1) << 4) | ((t2) << 8) | ((t3) << 12))\<close>
  and \<open>#define TEE_PARAM_TYPE_GET(t, i) (((t) >> ((i) * 4)) & 0xF)\<close>.
\<close>

definition TEE_PARAM_TYPES :: "u32 \<Rightarrow> u32 \<Rightarrow> u32 \<Rightarrow> u32 \<Rightarrow> u32" where
  "TEE_PARAM_TYPES t0 t1 t2 t3 = t0 OR push_bit 4 t1 OR push_bit 8 t2 OR push_bit 12 t3"

definition TEE_PARAM_TYPE_GET :: "u32 \<Rightarrow> nat \<Rightarrow> u32" where
  "TEE_PARAM_TYPE_GET t i = drop_bit (i * 4) t AND 0xF"

section \<open>Parameters\<close>

text \<open>
  \<open>TEE_Param\<close> is a C union of \<open>memref {buffer, size}\<close> and
  \<open>value {a, b}\<close>. The record keeps both views side by side: the handlers read
  or write only the view their parameter-type check admits, so the overlay of
  the two views is never observed. The buffer field is the content of the
  shared memory the pointer designates.
\<close>

record tee_param =
  memref_buffer :: "byte list"
  memref_size :: u32
  value_a :: u32
  value_b :: u32

text \<open>The TEE core maps \<open>size\<close> bytes of client memory behind \<open>buffer\<close>.\<close>

definition memref_wf :: "tee_param \<Rightarrow> bool" where
  "memref_wf p \<longleftrightarrow> unat (memref_size p) \<le> length (memref_buffer p)"

section \<open>Cryptographic services\<close>

text \<open>
  The results the TEE core's services return to this TA, as functions of the
  arguments the TA passes: \<open>TEE_AllocateOperation\<close> and
  \<open>TEE_AllocateTransientObject\<close> of the maximum key size in bits,
  \<open>TEE_PopulateTransientObject\<close> of the key bytes, \<open>TEE_SetOperationKey\<close>.
  \<open>hmac_fn\<close> is the MAC the operation computes; \<open>crypto_wf\<close> is the contract
  of an HMAC-SHA1 primitive that the proofs rely on: a 20-byte tag.
\<close>

record tee_crypto =
  alloc_operation_res :: "u32 \<Rightarrow> u32"
  alloc_transient_res :: "u32 \<Rightarrow> u32"
  populate_res :: "byte list \<Rightarrow> u32"
  set_key_res :: u32
  hmac_fn :: "byte list \<Rightarrow> byte list \<Rightarrow> byte list"

definition crypto_wf :: "tee_crypto \<Rightarrow> bool" where
  "crypto_wf env \<longleftrightarrow> (\<forall>k m. length (hmac_fn env k m) = 20)"

text \<open>
  \<open>TEE_MACComputeFinal(op, NULL, 0, mac, &maclen)\<close>: with a destination
  shorter than the 20-byte tag it returns \<open>TEE_ERROR_SHORT_BUFFER\<close> and the
  size needed; otherwise it writes the tag at the start of the destination and
  its length into \<open>maclen\<close>.
\<close>

definition TEE_MACComputeFinal ::
  "tee_crypto \<Rightarrow> byte list \<Rightarrow> byte list \<Rightarrow> byte list \<Rightarrow> u32 \<Rightarrow> u32 \<times> byte list \<times> u32" where
  "TEE_MACComputeFinal env key msg out outlen =
     (if unat outlen < 20 then (TEE_ERROR_SHORT_BUFFER, out, 20)
      else (TEE_SUCCESS, memcpy out (hmac_fn env key msg) 20, 20))"

text \<open>Handles and the events of one MAC computation, in the order they occur.\<close>

datatype handle_kind = OperationHandle | KeyHandle

datatype tee_event =
    Allocated handle_kind
  | Freed handle_kind
  | FreedNull handle_kind
  | KeyPopulated
  | KeySet
  | MacInit
  | MacUpdate
  | MacFinal

text \<open>
  The handle discipline as a check over a trace: a handle is allocated only
  when not live, freed only when live, \<open>TEE_FreeTransientObject(NULL)\<close> is
  allowed when the handle is not live, the MAC steps run only with both
  handles live, and no handle is live at the end.
\<close>

fun handles_ok :: "handle_kind list \<Rightarrow> tee_event list \<Rightarrow> bool" where
  "handles_ok live [] = (live = [])"
| "handles_ok live (Allocated k # evs) = (k \<notin> set live \<and> handles_ok (k # live) evs)"
| "handles_ok live (Freed k # evs) = (k \<in> set live \<and> handles_ok (removeAll k live) evs)"
| "handles_ok live (FreedNull k # evs) = (k \<notin> set live \<and> handles_ok live evs)"
| "handles_ok live (e # evs) =
     (OperationHandle \<in> set live \<and> KeyHandle \<in> set live \<and> handles_ok live evs)"

section \<open>Lemmas on the encoding of parameter types\<close>

lemma tee_results_distinct [simp]:
  "TEE_SUCCESS \<noteq> TEE_ERROR_BAD_PARAMETERS"
  "TEE_ERROR_BAD_PARAMETERS \<noteq> TEE_SUCCESS"
  "TEE_SUCCESS \<noteq> TEE_ERROR_SHORT_BUFFER"
  "TEE_ERROR_SHORT_BUFFER \<noteq> TEE_SUCCESS"
  by (simp_all add: tee_result_defs)

lemma nibble_bit: "(t::u32) < 16 \<Longrightarrow> bit t n \<Longrightarrow> n < 4"
proof -
  assume "t < 16" "bit t n"
  then have "t AND mask 4 = t" by (intro less_mask_eq) simp
  with \<open>bit t n\<close> show "n < 4" by (metis bit_and_iff bit_mask_iff)
qed

text \<open>Decoding the \<open>i\<close>-th nibble of an encoded descriptor gives the \<open>i\<close>-th type.\<close>

lemma param_type_get_types:
  assumes "t0 < 16" "t1 < 16" "t2 < 16" "t3 < 16" "i < 4"
  shows "TEE_PARAM_TYPE_GET (TEE_PARAM_TYPES t0 t1 t2 t3) i = [t0, t1, t2, t3] ! i"
proof (rule bit_word_eqI)
  fix n assume "n < LENGTH(32)"
  have f: "(15::u32) = mask 4" by (simp add: mask_eq_exp_minus_1)
  have i: "i = 0 \<or> i = 1 \<or> i = 2 \<or> i = 3" using assms(5) by arith
  note nb = nibble_bit [OF assms(1)] nibble_bit [OF assms(2)]
    nibble_bit [OF assms(3)] nibble_bit [OF assms(4)]
  show "bit (TEE_PARAM_TYPE_GET (TEE_PARAM_TYPES t0 t1 t2 t3) i) n = bit ([t0, t1, t2, t3] ! i) n"
    using i unfolding TEE_PARAM_TYPE_GET_def TEE_PARAM_TYPES_def f
    by (auto simp: bit_simps) (use nb in force)+
qed

text \<open>Encoding the four decoded nibbles of a 16-bit descriptor gives it back.\<close>

lemma drop_bit_zero_high:
  assumes "drop_bit k (t::u32) = 0" "k \<le> n"
  shows "\<not> bit t n"
proof
  assume "bit t n"
  then have "bit (drop_bit k t) (n - k)" using assms(2) by (simp add: bit_drop_bit_eq)
  with assms(1) show False by simp
qed

lemma param_types_get_roundtrip:
  assumes "drop_bit 16 t = 0"
  shows "TEE_PARAM_TYPES (TEE_PARAM_TYPE_GET t 0) (TEE_PARAM_TYPE_GET t 1) (TEE_PARAM_TYPE_GET t 2)
           (TEE_PARAM_TYPE_GET t 3) = t"
proof (rule bit_word_eqI)
  fix n assume n: "n < LENGTH(32)"
  have f: "(15::u32) = mask 4" by (simp add: mask_eq_exp_minus_1)
  consider "n < 4" | "4 \<le> n \<and> n < 8" | "8 \<le> n \<and> n < 12" | "12 \<le> n \<and> n < 16" | "16 \<le> n"
    by arith
  then show "bit (TEE_PARAM_TYPES (TEE_PARAM_TYPE_GET t 0) (TEE_PARAM_TYPE_GET t 1)
           (TEE_PARAM_TYPE_GET t 2) (TEE_PARAM_TYPE_GET t 3)) n = bit t n"
    unfolding TEE_PARAM_TYPE_GET_def TEE_PARAM_TYPES_def f
    by cases (auto simp: bit_simps drop_bit_zero_high [OF assms])
qed

text \<open>A descriptor equals an encoding exactly when it decodes to the same four types.\<close>

lemma param_types_decode:
  assumes "t0 < 16" "t1 < 16" "t2 < 16" "t3 < 16"
  shows "pt = TEE_PARAM_TYPES t0 t1 t2 t3 \<longleftrightarrow>
           map (TEE_PARAM_TYPE_GET pt) [0, 1, 2, 3] = [t0, t1, t2, t3] \<and> drop_bit 16 pt = 0"
proof
  assume "pt = TEE_PARAM_TYPES t0 t1 t2 t3"
  moreover have "drop_bit 16 (TEE_PARAM_TYPES t0 t1 t2 t3) = 0"
  proof (rule bit_word_eqI)
    fix n
    show "bit (drop_bit 16 (TEE_PARAM_TYPES t0 t1 t2 t3)) n = bit (0::u32) n"
      by (auto simp: TEE_PARAM_TYPES_def bit_simps dest: nibble_bit [OF assms(1)]
          nibble_bit [OF assms(2)] nibble_bit [OF assms(3)] nibble_bit [OF assms(4)])
  qed
  ultimately show "map (TEE_PARAM_TYPE_GET pt) [0, 1, 2, 3] = [t0, t1, t2, t3] \<and> drop_bit 16 pt = 0"
    using param_type_get_types [OF assms] by simp
next
  assume "map (TEE_PARAM_TYPE_GET pt) [0, 1, 2, 3] = [t0, t1, t2, t3] \<and> drop_bit 16 pt = 0"
  then show "pt = TEE_PARAM_TYPES t0 t1 t2 t3"
    using param_types_get_roundtrip [of pt] by simp
qed

end
