(* ===== verification/HMAC_State.thy ===== *)
theory HMAC_State
  imports TEE_API
begin

text \<open>
  The static state of the HMAC trusted application
  (\<^verbatim>\<open>src/hmac/ta/hmac_ta.c\<close>, lines 13--38): the size constants and the three
  global slots \<open>K\<close>/\<open>K_len\<close>, \<open>input\<close>/\<open>input_len\<close>, \<open>output\<close>/\<open>output_len\<close>,
  each a fixed array with a separately tracked logical length. The slots are
  zero-initialised static storage. The theory defines the state record, the
  initial state, the well-formedness invariant every handler keeps, and the
  abstract view of the state (the bytes each slot logically holds).
\<close>

section \<open>Constants\<close>

definition SHA1_HASH_SIZE :: nat where "SHA1_HASH_SIZE = 20"
definition MAX_KEY_SIZE :: nat where "MAX_KEY_SIZE = 64"
definition MIN_KEY_SIZE :: nat where "MIN_KEY_SIZE = 10"
definition MAX_MESSAGE_SIZE :: nat where "MAX_MESSAGE_SIZE = 64"
definition MIN_MESSAGE_SIZE :: nat where "MIN_MESSAGE_SIZE = 64"

lemmas size_defs = SHA1_HASH_SIZE_def MAX_KEY_SIZE_def MIN_KEY_SIZE_def
  MAX_MESSAGE_SIZE_def MIN_MESSAGE_SIZE_def

section \<open>State\<close>

text \<open>
  \<open>static uint8_t K[MAX_KEY_SIZE]; static uint32_t K_len;\<close> and likewise for
  \<open>input\<close> (\<open>MAX_MESSAGE_SIZE\<close> bytes) and \<open>output\<close> (\<open>SHA1_HASH_SIZE\<close>
  bytes). The array \<open>output\<close> is the field \<open>output_buf\<close>, since \<open>output\<close>
  is a keyword of Isabelle's outer syntax; the other fields keep the C names.
\<close>

record ta_state =
  K :: "byte list"
  K_len :: u32
  input :: "byte list"
  input_len :: u32
  output_buf :: "byte list"
  output_len :: u32

definition ta_init :: ta_state where
  "ta_init = \<lparr>K = replicate MAX_KEY_SIZE 0, K_len = 0,
              input = replicate MAX_MESSAGE_SIZE 0, input_len = 0,
              output_buf = replicate SHA1_HASH_SIZE 0, output_len = 0\<rparr>"

section \<open>Invariant\<close>

text \<open>
  One slot is well formed when its array has its declared size, its logical
  length fits the array, and the bytes past the logical length are zero
  (the register handlers clear the whole array before copying).
\<close>

definition slot_ok :: "nat \<Rightarrow> byte list \<Rightarrow> u32 \<Rightarrow> bool" where
  "slot_ok cap buf len \<longleftrightarrow>
     length buf = cap \<and> unat len \<le> cap \<and> zero_padded buf (unat len)"

definition ta_inv :: "ta_state \<Rightarrow> bool" where
  "ta_inv s \<longleftrightarrow>
     slot_ok MAX_KEY_SIZE (K s) (K_len s) \<and>
     slot_ok MAX_MESSAGE_SIZE (input s) (input_len s) \<and>
     slot_ok SHA1_HASH_SIZE (output_buf s) (output_len s)"

section \<open>Abstract view\<close>

text \<open>What each slot logically holds: the first \<open>len\<close> bytes of its array.\<close>

definition slot_val :: "byte list \<Rightarrow> u32 \<Rightarrow> byte list" where
  "slot_val buf len = take (unat len) buf"

definition stored_key :: "ta_state \<Rightarrow> byte list" where
  "stored_key s = slot_val (K s) (K_len s)"

definition stored_message :: "ta_state \<Rightarrow> byte list" where
  "stored_message s = slot_val (input s) (input_len s)"

definition stored_output :: "ta_state \<Rightarrow> byte list" where
  "stored_output s = slot_val (output_buf s) (output_len s)"

lemmas stored_defs = stored_key_def stored_message_def stored_output_def slot_val_def

section \<open>Lemmas\<close>

lemma slot_ok_replicate [intro]: "slot_ok cap (replicate cap 0) 0"
  by (auto simp: slot_ok_def)

lemma ta_init_inv: "ta_inv ta_init"
  by (auto simp: ta_inv_def ta_init_def)

text \<open>Storing \<open>n \<le> cap\<close> bytes into a cleared slot gives a well-formed slot.\<close>

lemma slot_ok_store:
  assumes "unat n \<le> cap" "unat n \<le> length src"
  shows "slot_ok cap (take (unat n) src @ replicate (cap - unat n) 0) n"
  using assms by (auto simp: slot_ok_def)

lemma slot_val_store [buffer_simps]:
  "unat n \<le> length src \<Longrightarrow> slot_val (take (unat n) src @ replicate m 0) n = take (unat n) src"
  by (simp add: slot_val_def)

lemma slot_ok_length: "slot_ok cap buf len \<Longrightarrow> length (slot_val buf len) = unat len"
  by (auto simp: slot_ok_def slot_val_def)

lemma ta_inv_lengths:
  assumes "ta_inv s"
  shows "length (K s) = 64" "length (input s) = 64" "length (output_buf s) = 20"
    and "unat (K_len s) \<le> 64" "unat (input_len s) \<le> 64" "unat (output_len s) \<le> 20"
  using assms by (auto simp: ta_inv_def slot_ok_def size_defs)

text \<open>A slot is determined by its logical content: the round trip of the padding.\<close>

lemma slot_ok_eq:
  assumes "slot_ok cap buf len"
  shows "buf = slot_val buf len @ replicate (cap - unat len) 0"
proof -
  from assms have "drop (unat len) buf = replicate (cap - unat len) 0"
    by (auto simp: slot_ok_def zero_padded_iff_drop)
  then show ?thesis by (metis append_take_drop_id slot_val_def)
qed

end
