(* ===== verification/HMAC_Crypto.thy ===== *)
theory HMAC_Crypto
  imports HMAC_State
begin

text \<open>
  The crypto primitive adapter \<open>hmac_sha1\<close> (\<^verbatim>\<open>src/hmac/ta/hmac_ta.c\<close>,
  lines 49--119): it checks the key length against the GlobalPlatform bounds
  for HMAC-SHA1 and its pointers against NULL, then allocates an operation and
  a transient key object, populates and sets the key, runs the MAC and frees
  both handles at the common \<open>exit\<close> label. The model returns the result code,
  the contents of the \<open>out\<close> and \<open>outlen\<close> objects after the call (\<open>None\<close>
  for a NULL pointer) and the trace of handle events. The lemmas give its
  result on every path, that errors of the TEE core are returned verbatim,
  that every handle it allocates is freed on every path, and the bound on the
  key size in bits it passes to the allocators.
\<close>

type_synonym hmac_ret = "u32 \<times> byte list option \<times> u32 option \<times> tee_event list"

text \<open>
  The \<open>exit:\<close> label: \<open>TEE_FreeOperation\<close> when the operation handle is not
  \<open>TEE_HANDLE_NULL\<close>, then \<open>TEE_FreeTransientObject\<close> unconditionally (a NULL
  key handle is accepted by the TEE core).
\<close>

definition hmac_exit :: "bool \<Rightarrow> bool \<Rightarrow> tee_event list \<Rightarrow> tee_event list" where
  "hmac_exit op_live key_live evs =
     evs @ (if op_live then [Freed OperationHandle] else [])
         @ [if key_live then Freed KeyHandle else FreedNull KeyHandle]"

definition hmac_sha1 ::
  "tee_crypto \<Rightarrow> byte list \<Rightarrow> u32 \<Rightarrow> byte list option \<Rightarrow> u32 \<Rightarrow> byte list option \<Rightarrow> u32 option
   \<Rightarrow> hmac_ret" where
  "hmac_sha1 env key keylen inp inlen out outlen =
     (if unat keylen < MIN_KEY_SIZE \<or> unat keylen > MAX_KEY_SIZE
      then (TEE_ERROR_BAD_PARAMETERS, out, outlen, [])
      else case (inp, out, outlen) of
        (Some msg, Some mac, Some maclen) \<Rightarrow>
          (let res = alloc_operation_res env (keylen * 8) in
           if res \<noteq> TEE_SUCCESS then (res, out, outlen, hmac_exit False False [])
           else
           let res = alloc_transient_res env (keylen * 8) in
           if res \<noteq> TEE_SUCCESS
           then (res, out, outlen, hmac_exit True False [Allocated OperationHandle])
           else
           let attr = take (unat keylen) key;
               res = populate_res env attr in
           if res \<noteq> TEE_SUCCESS
           then (res, out, outlen,
                 hmac_exit True True [Allocated OperationHandle, Allocated KeyHandle])
           else
           let res = set_key_res env in
           if res \<noteq> TEE_SUCCESS
           then (res, out, outlen,
                 hmac_exit True True [Allocated OperationHandle, Allocated KeyHandle, KeyPopulated])
           else
           (case TEE_MACComputeFinal env attr (take (unat inlen) msg) mac maclen of
              (res, mac', maclen') \<Rightarrow>
                (res, Some mac', Some maclen',
                 hmac_exit True True [Allocated OperationHandle, Allocated KeyHandle, KeyPopulated,
                                      KeySet, MacInit, MacUpdate, MacFinal])))
      | _ \<Rightarrow> (TEE_ERROR_BAD_PARAMETERS, out, outlen, []))"

text \<open>
  The key length accepted by \<open>hmac_sha1\<close>, and the calls to the TEE core
  succeeding, as predicates the lemmas below are stated with.
\<close>

definition key_len_ok :: "u32 \<Rightarrow> bool" where
  "key_len_ok keylen \<longleftrightarrow> MIN_KEY_SIZE \<le> unat keylen \<and> unat keylen \<le> MAX_KEY_SIZE"

definition crypto_succeeds :: "tee_crypto \<Rightarrow> u32 \<Rightarrow> byte list \<Rightarrow> bool" where
  "crypto_succeeds env keylen key \<longleftrightarrow>
     alloc_operation_res env (keylen * 8) = TEE_SUCCESS \<and>
     alloc_transient_res env (keylen * 8) = TEE_SUCCESS \<and>
     populate_res env (take (unat keylen) key) = TEE_SUCCESS \<and>
     set_key_res env = TEE_SUCCESS"

text \<open>The results of the four services \<open>hmac_sha1\<close> calls before the MAC, in call order.\<close>

definition service_results :: "tee_crypto \<Rightarrow> u32 \<Rightarrow> byte list \<Rightarrow> u32 list" where
  "service_results env keylen key =
     [alloc_operation_res env (keylen * 8), alloc_transient_res env (keylen * 8),
      populate_res env (take (unat keylen) key), set_key_res env]"

text \<open>The trace of a successful run.\<close>

definition hmac_full_trace :: "tee_event list" where
  "hmac_full_trace = hmac_exit True True [Allocated OperationHandle, Allocated KeyHandle,
     KeyPopulated, KeySet, MacInit, MacUpdate, MacFinal]"

section \<open>Lemmas\<close>

lemma hmac_exit_simps [simp]:
  "hmac_exit False False evs = evs @ [FreedNull KeyHandle]"
  "hmac_exit True False evs = evs @ [Freed OperationHandle, FreedNull KeyHandle]"
  "hmac_exit True True evs = evs @ [Freed OperationHandle, Freed KeyHandle]"
  by (simp_all add: hmac_exit_def)

lemma key_len_ok_guard:
  "key_len_ok keylen \<longleftrightarrow> \<not> (unat keylen < MIN_KEY_SIZE \<or> unat keylen > MAX_KEY_SIZE)"
  by (auto simp: key_len_ok_def)

text \<open>
  The result on the path where every service succeeds: \<open>TEE_MACComputeFinal\<close>
  decides between the tag and a short buffer.
\<close>

lemma hmac_sha1_success_path:
  assumes "key_len_ok keylen" "crypto_succeeds env keylen key"
  shows "hmac_sha1 env key keylen (Some msg) inlen (Some mac) (Some maclen) =
           (case TEE_MACComputeFinal env (take (unat keylen) key) (take (unat inlen) msg) mac maclen of
              (res, mac', maclen') \<Rightarrow> (res, Some mac', Some maclen', hmac_full_trace))"
  using assms
  by (simp add: hmac_sha1_def key_len_ok_guard crypto_succeeds_def hmac_full_trace_def
           del: hmac_exit_simps)

text \<open>A 20-byte destination receives exactly the tag.\<close>

lemma mac_final_tag:
  assumes "crypto_wf env" "length mac0 = 20"
  shows "TEE_MACComputeFinal env k m mac0 20 = (TEE_SUCCESS, hmac_fn env k m, 20)"
proof -
  have "length (hmac_fn env k m) = 20" using assms(1) by (simp add: crypto_wf_def)
  with assms(2) show ?thesis by (simp add: TEE_MACComputeFinal_def memcpy_def)
qed

text \<open>The size in bits handed to the allocators does not wrap around.\<close>

lemma key_bits_no_wrap:
  assumes "key_len_ok keylen"
  shows "unat (keylen * 8) = 8 * unat keylen"
proof -
  from assms have "unat keylen * unat (8::u32) < 2 ^ LENGTH(32)"
    by (simp add: key_len_ok_def size_defs)
  then show ?thesis by (simp add: unat_mult_lem [THEN iffD1])
qed

text \<open>The result code of \<open>hmac_sha1\<close> with non-NULL pointers, on every branch.\<close>

lemma hmac_sha1_code:
  "fst (hmac_sha1 env key keylen (Some msg) inlen (Some mac) (Some maclen)) =
     (if \<not> key_len_ok keylen then TEE_ERROR_BAD_PARAMETERS
      else case find (\<lambda>r. r \<noteq> TEE_SUCCESS) (service_results env keylen key) of
        Some r \<Rightarrow> r
      | None \<Rightarrow> fst (TEE_MACComputeFinal env (take (unat keylen) key) (take (unat inlen) msg)
                      mac maclen))"
  by (simp add: hmac_sha1_def service_results_def key_len_ok_guard Let_def split: prod.splits)

text \<open>The facts that evaluate the invariant and the crypto predicates on concrete states.\<close>

lemmas witness_simps = ta_inv_def slot_ok_def zero_padded_iff_drop size_defs ta_init_def
  stored_defs crypto_wf_def key_len_ok_def crypto_succeeds_def tee_result_defs

section \<open>Properties of the crypto adapter\<close>

text \<open>
  C6. Resource discipline: on every path of \<open>hmac_sha1\<close> (bad key length, NULL
  pointer, any service failing, success) the operation handle and the key
  object are each freed exactly once if they were allocated, never used after
  being freed, the MAC steps run only while both are live, and nothing is live
  when it returns.
\<close>

theorem hmac_sha1_releases_handles:
  "handles_ok [] (snd (snd (snd (hmac_sha1 env key keylen inp inlen out outlen))))"
  by (simp add: hmac_sha1_def Let_def split: option.splits prod.splits)

text \<open>
  C8. Errors of the TEE core are surfaced verbatim: with an accepted key length
  and non-NULL pointers, \<open>hmac_sha1\<close> returns the result of the first service
  call that fails (operation allocation, key object allocation, population,
  key setting), and otherwise the result of \<open>TEE_MACComputeFinal\<close>.
\<close>

theorem hmac_sha1_errors_verbatim:
  assumes "key_len_ok keylen"
  shows "fst (hmac_sha1 env key keylen (Some msg) inlen (Some mac) (Some maclen)) =
           (case find (\<lambda>r. r \<noteq> TEE_SUCCESS) (service_results env keylen key) of
              Some r \<Rightarrow> r
            | None \<Rightarrow> fst (TEE_MACComputeFinal env (take (unat keylen) key) (take (unat inlen) msg)
                            mac maclen))"
  using hmac_sha1_code [of env key keylen msg inlen mac maclen] assms by simp

theorem hmac_sha1_errors_verbatim_witness:
  "key_len_ok 10 \<and>
   fst (hmac_sha1 \<lparr>alloc_operation_res = \<lambda>_. 0, alloc_transient_res = \<lambda>_. 0xFFFF000C, populate_res = \<lambda>_. 0,
              set_key_res = 0, hmac_fn = \<lambda>k m. replicate 20 7\<rparr> (replicate 10 1) 10 (Some []) 0 (Some (replicate 20 0)) (Some 20)) =
     0xFFFF000C"
  using hmac_sha1_errors_verbatim [of 10 "\<lparr>alloc_operation_res = \<lambda>_. 0, alloc_transient_res = \<lambda>_. 0xFFFF000C, populate_res = \<lambda>_. 0,
              set_key_res = 0, hmac_fn = \<lambda>k m. replicate 20 7\<rparr>" "replicate 10 1" "[]" 0 "replicate 20 0" 20]
  by (simp add: witness_simps service_results_def)

text \<open>
  C14. A key length outside the GlobalPlatform bounds for HMAC-SHA1 (10 to 64
  bytes) is rejected with \<open>TEE_ERROR_BAD_PARAMETERS\<close> before any TEE service is
  called, and the output objects are left as they were.
\<close>

theorem hmac_sha1_rejects_key_length:
  assumes "\<not> key_len_ok keylen"
  shows "hmac_sha1 env key keylen inp inlen out outlen = (TEE_ERROR_BAD_PARAMETERS, out, outlen, [])"
  using assms by (simp add: hmac_sha1_def key_len_ok_guard)

theorem hmac_sha1_rejects_key_length_witness:
  "\<not> key_len_ok 9 \<and>
   hmac_sha1 \<lparr>alloc_operation_res = \<lambda>_. 0, alloc_transient_res = \<lambda>_. 0, populate_res = \<lambda>_. 0,
              set_key_res = 0, hmac_fn = \<lambda>k m. replicate 20 7\<rparr> (replicate 9 1) 9 (Some []) 0 (Some (replicate 20 0)) (Some 20) =
     (TEE_ERROR_BAD_PARAMETERS, Some (replicate 20 0), Some 20, [])"
  using hmac_sha1_rejects_key_length [of 9 "\<lparr>alloc_operation_res = \<lambda>_. 0, alloc_transient_res = \<lambda>_. 0, populate_res = \<lambda>_. 0,
              set_key_res = 0, hmac_fn = \<lambda>k m. replicate 20 7\<rparr>" "replicate 9 1" "Some []" 0
      "Some (replicate 20 0)" "Some 20"]
  by (simp add: witness_simps)

text \<open>
  C15. For every key length \<open>hmac_sha1\<close> accepts, the maximum key size it
  passes to \<open>TEE_AllocateOperation\<close> and \<open>TEE_AllocateTransientObject\<close> is
  the key length in bits, \<open>keylen * 8\<close>, which does not wrap around and lies in
  the 80 to 512 bits GlobalPlatform allows for HMAC-SHA1: the result of
  \<open>hmac_sha1\<close> is the same in any environment whose allocators answer alike at
  that size, whatever they answer at every other size.
\<close>

theorem hmac_sha1_key_bits:
  assumes "key_len_ok keylen"
  shows "80 \<le> unat (keylen * 8) \<and> unat (keylen * 8) \<le> 512 \<and>
         hmac_sha1 env key keylen inp inlen out outlen =
         hmac_sha1 (env\<lparr>alloc_operation_res := \<lambda>bits. if unat bits = 8 * unat keylen
                                                     then alloc_operation_res env bits else fo bits,
                        alloc_transient_res := \<lambda>bits. if unat bits = 8 * unat keylen
                                                     then alloc_transient_res env bits else ft bits\<rparr>)
           key keylen inp inlen out outlen"
  using key_bits_no_wrap [OF assms] assms
  by (simp add: key_len_ok_def size_defs hmac_sha1_def TEE_MACComputeFinal_def Let_def
      split: option.splits prod.splits)

theorem hmac_sha1_key_bits_witness:
  "key_len_ok 64 \<and> 80 \<le> unat ((64::u32) * 8) \<and> unat ((64::u32) * 8) \<le> 512 \<and>
   hmac_sha1 \<lparr>alloc_operation_res = \<lambda>_. 0, alloc_transient_res = \<lambda>_. 0,
       populate_res = \<lambda>_. 0, set_key_res = 0, hmac_fn = \<lambda>k m. replicate 20 7\<rparr> (replicate 64 1) 64 (Some [1, 2]) 2 (Some (replicate 20 0)) (Some 20) =
   hmac_sha1 (\<lparr>alloc_operation_res = \<lambda>_. 0, alloc_transient_res = \<lambda>_. 0,
       populate_res = \<lambda>_. 0, set_key_res = 0, hmac_fn = \<lambda>k m. replicate 20 7\<rparr>\<lparr>alloc_operation_res := \<lambda>bits. if unat bits = 8 * unat (64::u32)
          then alloc_operation_res \<lparr>alloc_operation_res = \<lambda>_. 0, alloc_transient_res = \<lambda>_. 0,
       populate_res = \<lambda>_. 0, set_key_res = 0, hmac_fn = \<lambda>k m. replicate 20 7\<rparr> bits else TEE_ERROR_BAD_PARAMETERS,
        alloc_transient_res := \<lambda>bits. if unat bits = 8 * unat (64::u32)
          then alloc_transient_res \<lparr>alloc_operation_res = \<lambda>_. 0, alloc_transient_res = \<lambda>_. 0,
       populate_res = \<lambda>_. 0, set_key_res = 0, hmac_fn = \<lambda>k m. replicate 20 7\<rparr> bits else TEE_ERROR_BAD_PARAMETERS\<rparr>)
     (replicate 64 1) 64 (Some [1, 2]) 2 (Some (replicate 20 0)) (Some 20)"
  using hmac_sha1_key_bits [of 64 "\<lparr>alloc_operation_res = \<lambda>_. 0, alloc_transient_res = \<lambda>_. 0,
       populate_res = \<lambda>_. 0, set_key_res = 0, hmac_fn = \<lambda>k m. replicate 20 7\<rparr>" "replicate 64 1" "Some [1, 2]" 2 "Some (replicate 20 0)"
      "Some 20" "\<lambda>_. TEE_ERROR_BAD_PARAMETERS" "\<lambda>_. TEE_ERROR_BAD_PARAMETERS"]
  by (simp add: key_len_ok_def size_defs)

text \<open>
  C20. On success \<open>hmac_sha1\<close> writes the 20-byte tag of the first \<open>inlen\<close>
  message bytes under the first \<open>keylen\<close> key bytes at the start of \<open>out\<close>,
  sets \<open>*outlen\<close> to 20 and returns \<open>TEE_SUCCESS\<close>; with an \<open>*outlen\<close>
  below 20 it returns \<open>TEE_ERROR_SHORT_BUFFER\<close> and leaves \<open>out\<close> alone.
\<close>

theorem hmac_sha1_tag:
  assumes "key_len_ok keylen" "crypto_succeeds env keylen key" "crypto_wf env"
    "20 \<le> length mac"
  shows "hmac_sha1 env key keylen (Some msg) inlen (Some mac) (Some maclen) =
           (if unat maclen < 20
            then (TEE_ERROR_SHORT_BUFFER, Some mac, Some 20, hmac_full_trace)
            else (TEE_SUCCESS,
                  Some (hmac_fn env (take (unat keylen) key) (take (unat inlen) msg) @ drop 20 mac),
                  Some 20, hmac_full_trace))"
proof -
  have "length (hmac_fn env (take (unat keylen) key) (take (unat inlen) msg)) = 20"
    using assms(3) by (simp add: crypto_wf_def)
  with hmac_sha1_success_path [OF assms(1,2)] assms(4) show ?thesis
    by (simp add: TEE_MACComputeFinal_def memcpy_def)
qed

theorem hmac_sha1_tag_witness:
  "key_len_ok 10 \<and> crypto_succeeds \<lparr>alloc_operation_res = \<lambda>_. 0, alloc_transient_res = \<lambda>_. 0, populate_res = \<lambda>_. 0,
              set_key_res = 0, hmac_fn = \<lambda>k m. replicate 20 7\<rparr> 10 (replicate 10 1) \<and> crypto_wf \<lparr>alloc_operation_res = \<lambda>_. 0, alloc_transient_res = \<lambda>_. 0, populate_res = \<lambda>_. 0,
              set_key_res = 0, hmac_fn = \<lambda>k m. replicate 20 7\<rparr> \<and>
   20 \<le> length (replicate 20 (0::byte)) \<and>
   hmac_sha1 \<lparr>alloc_operation_res = \<lambda>_. 0, alloc_transient_res = \<lambda>_. 0, populate_res = \<lambda>_. 0,
              set_key_res = 0, hmac_fn = \<lambda>k m. replicate 20 7\<rparr> (replicate 10 1) 10 (Some []) 0 (Some (replicate 20 0)) (Some 20) =
     (TEE_SUCCESS, Some (replicate 20 7), Some 20, hmac_full_trace)"
  using hmac_sha1_tag [of 10 "\<lparr>alloc_operation_res = \<lambda>_. 0, alloc_transient_res = \<lambda>_. 0, populate_res = \<lambda>_. 0,
              set_key_res = 0, hmac_fn = \<lambda>k m. replicate 20 7\<rparr>" "replicate 10 1" "replicate 20 0" "[]" 0 20]
  by (simp add: witness_simps)

end
