(* ===== verification/HMAC_Register.thy ===== *)
theory HMAC_Register
  imports HMAC_Crypto
begin

text \<open>
  The three register handlers of the TA (\<^verbatim>\<open>src/hmac/ta/hmac_ta.c\<close>:
  \<open>register_shared_key\<close> lines 121--146, \<open>register_message\<close> 148--173,
  \<open>register_output\<close> 175--200). Each checks the parameter-type descriptor
  against one input memref, checks the buffer size against the capacity of
  its slot, clears the slot with \<open>memset\<close>, copies the buffer with
  \<open>memcpy\<close> and stores the length. A handler returns its result code and the
  new state; on every error path the state is returned unchanged.
  The \<open>DMSG\<close> trace of the stored bytes is not part of the state; what it
  prints is discussed in the root theory.
\<close>

section \<open>Handlers\<close>

text \<open>The descriptor every register handler expects: one input memref.\<close>

definition exp_memref_input :: u32 where
  "exp_memref_input = TEE_PARAM_TYPES TEE_PARAM_TYPE_MEMREF_INPUT TEE_PARAM_TYPE_NONE
                        TEE_PARAM_TYPE_NONE TEE_PARAM_TYPE_NONE"

definition register_shared_key :: "u32 \<Rightarrow> tee_param list \<Rightarrow> ta_state \<Rightarrow> u32 \<times> ta_state" where
  "register_shared_key param_types params s =
     (let exp_param_types = exp_memref_input in
      if param_types \<noteq> exp_param_types then (TEE_ERROR_BAD_PARAMETERS, s)
      else if unat (memref_size (params ! 0)) > MAX_KEY_SIZE then (TEE_ERROR_BAD_PARAMETERS, s)
      else
        let k = memset (K s) 0 MAX_KEY_SIZE;
            k = memcpy k (memref_buffer (params ! 0)) (unat (memref_size (params ! 0)))
        in (TEE_SUCCESS, s\<lparr>K := k, K_len := memref_size (params ! 0)\<rparr>))"

definition register_message :: "u32 \<Rightarrow> tee_param list \<Rightarrow> ta_state \<Rightarrow> u32 \<times> ta_state" where
  "register_message param_types params s =
     (let exp_param_types = exp_memref_input in
      if param_types \<noteq> exp_param_types then (TEE_ERROR_BAD_PARAMETERS, s)
      else if unat (memref_size (params ! 0)) > MAX_MESSAGE_SIZE then (TEE_ERROR_BAD_PARAMETERS, s)
      else
        let m = memset (input s) 0 MAX_MESSAGE_SIZE;
            m = memcpy m (memref_buffer (params ! 0)) (unat (memref_size (params ! 0)))
        in (TEE_SUCCESS, s\<lparr>input := m, input_len := memref_size (params ! 0)\<rparr>))"

definition register_output :: "u32 \<Rightarrow> tee_param list \<Rightarrow> ta_state \<Rightarrow> u32 \<times> ta_state" where
  "register_output param_types params s =
     (let exp_param_types = exp_memref_input in
      if param_types \<noteq> exp_param_types then (TEE_ERROR_BAD_PARAMETERS, s)
      else if unat (memref_size (params ! 0)) > SHA1_HASH_SIZE then (TEE_ERROR_BAD_PARAMETERS, s)
      else
        let ob = memset (output_buf s) 0 SHA1_HASH_SIZE;
            ob = memcpy ob (memref_buffer (params ! 0)) (unat (memref_size (params ! 0)))
        in (TEE_SUCCESS, s\<lparr>output_buf := ob, output_len := memref_size (params ! 0)\<rparr>))"

declare register_shared_key_def [handler_defs] register_message_def [handler_defs]
  register_output_def [handler_defs]

section \<open>Lemmas\<close>

lemma exp_memref_input_val [simp]: "exp_memref_input = 5"
  by (simp add: exp_memref_input_def TEE_PARAM_TYPES_def param_type_defs)

text \<open>The facts every handler proof unfolds with.\<close>

lemmas register_simps = handler_defs Let_def buffer_simps ta_inv_def size_defs

text \<open>
  A store into one slot with a size the slot accepts, starting from a
  well-formed state: the slot holds the copied bytes followed by zeros.
\<close>

lemma slot_store_from_inv:
  assumes "slot_ok cap buf len" "unat n \<le> cap" "unat n \<le> length src"
  shows "memcpy (memset buf 0 cap) src (unat n) = take (unat n) src @ replicate (cap - unat n) 0"
  using assms by (simp add: slot_ok_def buffer_simps)

lemma register_shared_key_cases:
  "register_shared_key pt params s =
     (if pt \<noteq> 5 \<or> unat (memref_size (params ! 0)) > 64 then (TEE_ERROR_BAD_PARAMETERS, s)
      else (TEE_SUCCESS, s\<lparr>K := memcpy (memset (K s) 0 64) (memref_buffer (params ! 0))
                                     (unat (memref_size (params ! 0))),
                          K_len := memref_size (params ! 0)\<rparr>))"
  by (simp add: register_shared_key_def Let_def size_defs)

lemma register_message_cases:
  "register_message pt params s =
     (if pt \<noteq> 5 \<or> unat (memref_size (params ! 0)) > 64 then (TEE_ERROR_BAD_PARAMETERS, s)
      else (TEE_SUCCESS, s\<lparr>input := memcpy (memset (input s) 0 64) (memref_buffer (params ! 0))
                                         (unat (memref_size (params ! 0))),
                          input_len := memref_size (params ! 0)\<rparr>))"
  by (simp add: register_message_def Let_def size_defs)

lemma register_output_cases:
  "register_output pt params s =
     (if pt \<noteq> 5 \<or> unat (memref_size (params ! 0)) > 20 then (TEE_ERROR_BAD_PARAMETERS, s)
      else (TEE_SUCCESS, s\<lparr>output_buf := memcpy (memset (output_buf s) 0 20)
                                              (memref_buffer (params ! 0))
                                              (unat (memref_size (params ! 0))),
                          output_len := memref_size (params ! 0)\<rparr>))"
  by (simp add: register_output_def Let_def size_defs)

section \<open>Properties of the register handlers\<close>

text \<open>
  C2. Validate, then commit: a register request whose descriptor is not one
  input memref, or whose buffer is larger than the slot (key 64, message 64,
  output 20 bytes), fails with \<open>TEE_ERROR_BAD_PARAMETERS\<close> and leaves the
  whole state, every slot included, unchanged.
\<close>

theorem register_rejects_unchanged:
  "(pt \<noteq> exp_memref_input \<or> unat (memref_size (params ! 0)) > MAX_KEY_SIZE \<longrightarrow>
      register_shared_key pt params s = (TEE_ERROR_BAD_PARAMETERS, s)) \<and>
   (pt \<noteq> exp_memref_input \<or> unat (memref_size (params ! 0)) > MAX_MESSAGE_SIZE \<longrightarrow>
      register_message pt params s = (TEE_ERROR_BAD_PARAMETERS, s)) \<and>
   (pt \<noteq> exp_memref_input \<or> unat (memref_size (params ! 0)) > SHA1_HASH_SIZE \<longrightarrow>
      register_output pt params s = (TEE_ERROR_BAD_PARAMETERS, s))"
  by (simp add: register_shared_key_def register_message_def register_output_def Let_def)

theorem register_rejects_unchanged_witness:
  "let p = \<lparr>memref_buffer = replicate 65 1, memref_size = 65, value_a = 0, value_b = 0\<rparr> in
   register_shared_key exp_memref_input [p] ta_init = (TEE_ERROR_BAD_PARAMETERS, ta_init) \<and>
   register_message exp_memref_input [p] ta_init = (TEE_ERROR_BAD_PARAMETERS, ta_init) \<and>
   register_output exp_memref_input [p] ta_init = (TEE_ERROR_BAD_PARAMETERS, ta_init)"
  using register_rejects_unchanged [of exp_memref_input
      "[\<lparr>memref_buffer = replicate 65 1, memref_size = 65, value_a = 0, value_b = 0\<rparr>]" ta_init]
  by (simp add: size_defs)

text \<open>
  C3. A shared key that fits the slot is stored: the request succeeds, the
  array \<open>K\<close> holds the key's bytes followed by zeros, \<open>K_len\<close> its length, the
  other slots are untouched, and the stored key read back is the key sent.
\<close>

theorem register_shared_key_stores:
  assumes "ta_inv s" "memref_wf (params ! 0)"
    "unat (memref_size (params ! 0)) \<le> MAX_KEY_SIZE"
  shows "register_shared_key exp_memref_input params s =
           (TEE_SUCCESS,
            s\<lparr>K := take (unat (memref_size (params ! 0))) (memref_buffer (params ! 0)) @
                   replicate (MAX_KEY_SIZE - unat (memref_size (params ! 0))) 0,
              K_len := memref_size (params ! 0)\<rparr>) \<and>
         stored_key (snd (register_shared_key exp_memref_input params s)) =
           take (unat (memref_size (params ! 0))) (memref_buffer (params ! 0))"
  using assms ta_inv_lengths [OF assms(1)]
  by (simp add: register_shared_key_cases size_defs memcpy_memset_store memref_wf_def stored_defs)

theorem register_shared_key_stores_witness:
  "let p = \<lparr>memref_buffer = replicate 5 1, memref_size = 5, value_a = 0, value_b = 0\<rparr> in
   ta_inv ta_init \<and> memref_wf p \<and> unat (memref_size p) \<le> MAX_KEY_SIZE \<and>
   register_shared_key exp_memref_input [p] ta_init =
     (TEE_SUCCESS, ta_init\<lparr>K := replicate 5 1 @ replicate 59 0, K_len := 5\<rparr>) \<and>
   stored_key (snd (register_shared_key exp_memref_input [p] ta_init)) = replicate 5 1"
  using register_shared_key_stores [of ta_init "[\<lparr>memref_buffer = replicate 5 1, memref_size = 5, value_a = 0, value_b = 0\<rparr>]"]
  by (simp add: witness_simps memref_wf_def)

text \<open>
  C17. The message and the expected output are stored the same way: a buffer
  that fits its slot (64 and 20 bytes) is stored followed by zeros, with its
  length, and nothing else changes.
\<close>

theorem register_message_output_store:
  assumes "ta_inv s" "memref_wf (params ! 0)"
  shows "(unat (memref_size (params ! 0)) \<le> MAX_MESSAGE_SIZE \<longrightarrow>
            register_message exp_memref_input params s =
              (TEE_SUCCESS,
               s\<lparr>input := take (unat (memref_size (params ! 0))) (memref_buffer (params ! 0)) @
                          replicate (MAX_MESSAGE_SIZE - unat (memref_size (params ! 0))) 0,
                 input_len := memref_size (params ! 0)\<rparr>)) \<and>
         (unat (memref_size (params ! 0)) \<le> SHA1_HASH_SIZE \<longrightarrow>
            register_output exp_memref_input params s =
              (TEE_SUCCESS,
               s\<lparr>output_buf := take (unat (memref_size (params ! 0))) (memref_buffer (params ! 0)) @
                          replicate (SHA1_HASH_SIZE - unat (memref_size (params ! 0))) 0,
                 output_len := memref_size (params ! 0)\<rparr>))"
  using assms ta_inv_lengths [OF assms(1)]
  by (simp add: register_message_cases register_output_cases size_defs memcpy_memset_store
        memref_wf_def)

theorem register_message_output_store_witness:
  "let p = \<lparr>memref_buffer = replicate 5 1, memref_size = 5, value_a = 0, value_b = 0\<rparr> in
   ta_inv ta_init \<and> memref_wf p \<and>
   register_message exp_memref_input [p] ta_init =
     (TEE_SUCCESS, ta_init\<lparr>input := replicate 5 1 @ replicate 59 0, input_len := 5\<rparr>) \<and>
   register_output exp_memref_input [p] ta_init =
     (TEE_SUCCESS, ta_init\<lparr>output_buf := replicate 5 1 @ replicate 15 0, output_len := 5\<rparr>)"
  using register_message_output_store [of ta_init "[\<lparr>memref_buffer = replicate 5 1, memref_size = 5, value_a = 0, value_b = 0\<rparr>]"]
  by (simp add: witness_simps memref_wf_def)

text \<open>
  C13. The handler does not enforce the minimum key length: a key shorter than
  \<open>MIN_KEY_SIZE\<close> (10 bytes) is accepted and stored; the bound is checked
  only when \<open>GET_HMAC\<close> calls \<open>hmac_sha1\<close>.
\<close>

theorem register_short_key_accepted:
  assumes "unat (memref_size (params ! 0)) < MIN_KEY_SIZE"
  shows "fst (register_shared_key exp_memref_input params s) = TEE_SUCCESS \<and>
         K_len (snd (register_shared_key exp_memref_input params s)) = memref_size (params ! 0)"
  using assms by (simp add: register_shared_key_cases size_defs)

theorem register_short_key_accepted_witness:
  "unat (memref_size \<lparr>memref_buffer = replicate 5 1, memref_size = 5, value_a = 0, value_b = 0\<rparr>) < MIN_KEY_SIZE \<and>
   fst (register_shared_key exp_memref_input [\<lparr>memref_buffer = replicate 5 1, memref_size = 5, value_a = 0, value_b = 0\<rparr>] ta_init) = TEE_SUCCESS \<and>
   K_len (snd (register_shared_key exp_memref_input [\<lparr>memref_buffer = replicate 5 1, memref_size = 5, value_a = 0, value_b = 0\<rparr>] ta_init)) = 5"
  using register_short_key_accepted [of "[\<lparr>memref_buffer = replicate 5 1, memref_size = 5, value_a = 0, value_b = 0\<rparr>]" ta_init]
  by (simp add: size_defs)

text \<open>
  C19. A key of the full 64 bytes with no zero byte leaves \<open>K\<close> without a NUL
  terminator: the \<open>DMSG("Got shared key %s", K)\<close> right after the copy reads
  past the end of the array.
\<close>

theorem register_key_no_terminator:
  assumes "ta_inv s" "memref_wf (params ! 0)" "unat (memref_size (params ! 0)) = MAX_KEY_SIZE"
    "\<not> has_nul (take MAX_KEY_SIZE (memref_buffer (params ! 0)))"
  shows "\<not> has_nul (K (snd (register_shared_key exp_memref_input params s)))"
  using assms ta_inv_lengths [OF assms(1)]
  by (simp add: register_shared_key_cases size_defs memcpy_memset_store memref_wf_def has_nul_def)

theorem register_key_no_terminator_witness:
  "let p = \<lparr>memref_buffer = replicate 64 65, memref_size = 64, value_a = 0, value_b = 0\<rparr> in
   ta_inv ta_init \<and> memref_wf p \<and> unat (memref_size p) = MAX_KEY_SIZE \<and>
   \<not> has_nul (take MAX_KEY_SIZE (memref_buffer p)) \<and>
   \<not> has_nul (K (snd (register_shared_key exp_memref_input [p] ta_init)))"
  using register_key_no_terminator [of ta_init
      "[\<lparr>memref_buffer = replicate 64 65, memref_size = 64, value_a = 0, value_b = 0\<rparr>]"]
  by (simp add: witness_simps memref_wf_def has_nul_def)

end
