(* ===== verification/HMAC_Verdict.thy ===== *)
theory HMAC_Verdict
  imports HMAC_Crypto "HOL-Library.While_Combinator"
begin

text \<open>
  The verdict handler \<open>get_hmac\<close> (\<^verbatim>\<open>src/hmac/ta/hmac_ta.c\<close>, lines 202--230).
  After the parameter-type check it computes the MAC of the stored message
  under the stored key into the stack array \<open>mac[SHA1_HASH_SIZE]\<close>, sets
  \<open>params[0].value.a = 0\<close>, and compares the first \<open>output_len\<close> bytes of
  \<open>mac\<close> with the stored expected output, setting \<open>value.a = 1\<close> and leaving
  the loop at the first difference. The result code is the one of
  \<open>hmac_sha1\<close>: the comparison runs whatever that code is.

  \<open>mac\<close> is not initialised in the C code; its contents before the call are a
  parameter of the model (\<open>mac0\<close>), so that the lemmas can say when the
  verdict depends on them. The loop counter \<open>i\<close> is a \<open>uint32_t\<close>; the loop is
  a function on a \<open>u32\<close> counter whose termination is proved with the
  measure \<open>output_len - i\<close>.
\<close>

unbundle bit_operations_syntax

section \<open>The comparison loop\<close>

text \<open>
  \<open>for (i = 0; i < output_len; i++) if (mac[i] != output[i]) { value.a = 1; break; }\<close>;
  the function returns the final value of \<open>value.a\<close>.
\<close>

function verdict_loop :: "byte list \<Rightarrow> byte list \<Rightarrow> u32 \<Rightarrow> u32 \<Rightarrow> u32 \<Rightarrow> u32" where
  "verdict_loop mac out n i a =
     (if i < n
      then (if mac ! unat i \<noteq> out ! unat i then 1 else verdict_loop mac out n (i + 1) a)
      else a)"
  by pat_completeness auto
termination
  by (relation "measure (\<lambda>(mac, out, n, i, a). unat (n - i))")
     (auto intro: u32_count_up_measure)

declare verdict_loop.simps [simp del]

text \<open>
  The same loop as the C code writes it, \<open>break\<close> included: a \<open>while_option\<close>
  over the state (\<open>i\<close>, \<open>value.a\<close>, broken out). The guard is the loop
  condition and "not broken out"; the body either sets \<open>value.a\<close> and breaks,
  or increments \<open>i\<close>. \<open>None\<close> would be a loop that never stops.
\<close>

definition verdict_body :: "byte list \<Rightarrow> byte list \<Rightarrow> u32 \<times> u32 \<times> bool \<Rightarrow> u32 \<times> u32 \<times> bool" where
  "verdict_body mac out =
     (\<lambda>(i, a, brk). if mac ! unat i \<noteq> out ! unat i then (i, 1, True) else (i + 1, a, False))"

definition verdict_while :: "byte list \<Rightarrow> byte list \<Rightarrow> u32 \<Rightarrow> u32 \<Rightarrow> u32 option" where
  "verdict_while mac out n a =
     map_option (\<lambda>(i, a, brk). a)
       (while_option (\<lambda>(i, a, brk). \<not> brk \<and> i < n) (verdict_body mac out) (0, a, False))"

section \<open>The handler\<close>

definition exp_value_output :: u32 where
  "exp_value_output = TEE_PARAM_TYPES TEE_PARAM_TYPE_VALUE_OUTPUT TEE_PARAM_TYPE_NONE
                        TEE_PARAM_TYPE_NONE TEE_PARAM_TYPE_NONE"

definition get_hmac ::
  "tee_crypto \<Rightarrow> byte list \<Rightarrow> u32 \<Rightarrow> tee_param list \<Rightarrow> ta_state
   \<Rightarrow> u32 \<times> tee_param list \<times> tee_event list" where
  "get_hmac env mac0 param_types params s =
     (let exp_param_types = exp_value_output in
      if param_types \<noteq> exp_param_types then (TEE_ERROR_BAD_PARAMETERS, params, [])
      else
        let mac_len = (of_nat SHA1_HASH_SIZE :: u32);
            (res, mac_out, _, trace) =
              hmac_sha1 env (K s) (K_len s) (Some (input s)) (input_len s) (Some mac0) (Some mac_len);
            mac = (case mac_out of Some m \<Rightarrow> m | None \<Rightarrow> mac0);
            params = params[0 := (params ! 0)\<lparr>value_a := 0\<rparr>];
            a = verdict_loop mac (output_buf s) (output_len s) 0 (value_a (params ! 0))
        in (res, params[0 := (params ! 0)\<lparr>value_a := a\<rparr>], trace))"

text \<open>
  The verdict the handler is meant to compute: \<open>0\<close> (match) when the
  expected output is a prefix of the tag, \<open>1\<close> (mismatch) otherwise.
\<close>

definition tag_verdict :: "byte list \<Rightarrow> byte list \<Rightarrow> u32" where
  "tag_verdict tag expected = (if take (length expected) tag = expected then 0 else 1)"

text \<open>
  The comparison the spec asks a hardened implementation to use: accumulate
  the bitwise difference of all compared bytes and branch once on the result.
  It is not code of the repository; it is the reference the loop is proved
  equivalent to.
\<close>

fun ct_diff :: "byte list \<Rightarrow> byte list \<Rightarrow> byte" where
  "ct_diff (x # xs) (y # ys) = (x XOR y) OR ct_diff xs ys"
| "ct_diff _ _ = 0"

definition ct_verdict :: "byte list \<Rightarrow> byte list \<Rightarrow> u32 \<Rightarrow> u32" where
  "ct_verdict mac out n = (if ct_diff (take (unat n) mac) (take (unat n) out) = 0 then 0 else 1)"

section \<open>Lemmas\<close>

lemma exp_value_output_val [simp]: "exp_value_output = 2"
  by (simp add: exp_value_output_def TEE_PARAM_TYPES_def param_type_defs)

text \<open>
  The loop computes "some compared byte differs" over the range it has left
  to scan: computation induction along the counter.
\<close>

lemma verdict_loop_eq:
  assumes "unat n \<le> length mac" "unat n \<le> length out"
  shows "verdict_loop mac out n i a =
           (if \<forall>j. unat i \<le> j \<and> j < unat n \<longrightarrow> mac ! j = out ! j then a else 1)"
  using assms
proof (induction mac out n i a rule: verdict_loop.induct)
  case (1 mac out n i a)
  show ?case
  proof (cases "i < n")
    case False
    then have "\<not> unat i < unat n" by (simp add: word_less_nat_alt)
    with False show ?thesis by (auto simp: verdict_loop.simps [of mac out n i a])
  next
    case True
    have suc: "unat (i + 1) = Suc (unat i)" using True by (rule u32_suc_no_wrap)
    have lt: "unat i < unat n" using True by (simp add: word_less_nat_alt)
    show ?thesis
    proof (cases "mac ! unat i = out ! unat i")
      case False
      with True lt show ?thesis by (auto simp: verdict_loop.simps [of mac out n i a])
    next
      case eq: True
      have "(\<forall>j. unat i \<le> j \<and> j < unat n \<longrightarrow> mac ! j = out ! j) \<longleftrightarrow>
            (\<forall>j. Suc (unat i) \<le> j \<and> j < unat n \<longrightarrow> mac ! j = out ! j)"
        using eq by (rule range_step)
      with True eq "1.IH" "1.prems" suc show ?thesis
        by (simp add: verdict_loop.simps [of mac out n i a])
    qed
  qed
qed

text \<open>From the start of the buffers the scanned range is a common prefix.\<close>

lemma verdict_loop_prefix:
  assumes "unat n \<le> length mac" "unat n \<le> length out"
  shows "verdict_loop mac out n 0 a = (if take (unat n) mac = take (unat n) out then a else 1)"
proof -
  have "(\<forall>j. 0 \<le> j \<and> j < unat n \<longrightarrow> mac ! j = out ! j) \<longleftrightarrow> take (unat n) mac = take (unat n) out"
    using assms by (auto simp: list_eq_iff_nth_eq)
  with assms show ?thesis by (simp add: verdict_loop_eq)
qed

lemma verdict_loop_zero_len: "verdict_loop mac out 0 i a = a"
  by (simp add: verdict_loop.simps)

text \<open>
  The C loop, started at any counter value, stops and leaves what the recursive
  function computes: computation induction, unfolding \<open>while_option\<close> once per
  iteration.
\<close>

lemma verdict_while_from:
  "map_option (\<lambda>(i, a, brk). a)
     (while_option (\<lambda>(i, a, brk). \<not> brk \<and> i < n) (verdict_body mac out) (i, a, False)) =
   Some (verdict_loop mac out n i a)"
proof (induction mac out n i a rule: verdict_loop.induct)
  case (1 mac out n i a)
  show ?case
  proof (cases "i < n")
    case False
    then show ?thesis
      by (simp add: while_option_unfold [of _ _ "(i, a, False)"] verdict_loop.simps [of mac out n i a])
  next
    case True
    then show ?thesis
      using "1.IH"
      by (auto simp: while_option_unfold [of _ _ "(i, a, False)"] while_option_unfold [of _ _ "(i, 1, True)"]
          verdict_body_def verdict_loop.simps [of mac out n i a])
  qed
qed

text \<open>The loop leaves \<open>value.a\<close> alone or sets it to 1.\<close>

lemma verdict_loop_values: "verdict_loop mac out n i a = a \<or> verdict_loop mac out n i a = 1"
proof (induction mac out n i a rule: verdict_loop.induct)
  case (1 mac out n i a)
  then show ?case by (auto simp: verdict_loop.simps [of mac out n i a])
qed

lemma ct_diff_zero: "length xs = length ys \<Longrightarrow> ct_diff xs ys = 0 \<longleftrightarrow> xs = ys"
  by (induction xs ys rule: ct_diff.induct) (auto simp: or_eq_0_iff byte_xor_eq_0_iff)

lemma hmac_sha1_out_some:
  "\<exists>m. fst (snd (hmac_sha1 env key kl inp il (Some mac0) ol)) = Some m"
  by (auto simp: hmac_sha1_def Let_def split: option.splits prod.splits)

text \<open>Whatever the path, the handler writes at most the loop's result into \<open>value.a\<close>.\<close>

lemma get_hmac_writes_loop:
  assumes "get_hmac env mac0 pt params s = (r, params', tr)"
  shows "params' = params \<or>
         (\<exists>m. params' =
               params[0 := (params ! 0)\<lparr>value_a := verdict_loop m (output_buf s) (output_len s) 0 0\<rparr>])"
proof (cases "pt = 2")
  case False
  with assms show ?thesis by (simp add: get_hmac_def)
next
  case True
  obtain res mo ol trace where h:
    "hmac_sha1 env (K s) (K_len s) (Some (input s)) (input_len s) (Some mac0)
       (Some (of_nat SHA1_HASH_SIZE)) = (res, mo, ol, trace)"
    by (rule prod_cases4)
  let ?m = "case mo of Some m \<Rightarrow> m | None \<Rightarrow> mac0"
  have "params' =
        params[0 := (params ! 0)\<lparr>value_a := verdict_loop ?m (output_buf s) (output_len s) 0 0\<rparr>]"
    using assms True h by (cases params) (simp_all add: get_hmac_def Let_def)
  then show ?thesis by blast
qed

text \<open>The call \<open>get_hmac\<close> makes, when every service succeeds.\<close>

lemma hmac_sha1_stored:
  assumes "crypto_wf env" "key_len_ok (K_len s)" "crypto_succeeds env (K_len s) (K s)"
    "length mac0 = 20"
  shows "hmac_sha1 env (K s) (K_len s) (Some (input s)) (input_len s) (Some mac0) (Some 20)
           = (TEE_SUCCESS, Some (hmac_fn env (stored_key s) (stored_message s)), Some 20,
              hmac_full_trace)"
proof -
  have "hmac_sha1 env (K s) (K_len s) (Some (input s)) (input_len s) (Some mac0) (Some 20) =
     (case TEE_MACComputeFinal env (take (unat (K_len s)) (K s)) (take (unat (input_len s)) (input s))
             mac0 20 of
        (res, mac', maclen') \<Rightarrow> (res, Some mac', Some maclen', hmac_full_trace))"
    by (rule hmac_sha1_success_path [OF assms(2,3)])
  also have "\<dots> = (TEE_SUCCESS, Some (hmac_fn env (stored_key s) (stored_message s)), Some 20,
                    hmac_full_trace)"
    by (simp only: mac_final_tag [OF assms(1,4)] stored_defs prod.case)
  finally show ?thesis .
qed

text \<open>
  The handler on the path where the MAC is computed: the state is read only,
  and \<open>params[0].value.a\<close> receives the verdict of the tag against the
  stored expected output.
\<close>

lemma get_hmac_success:
  assumes "ta_inv s" "crypto_wf env" "key_len_ok (K_len s)" "crypto_succeeds env (K_len s) (K s)"
    "length mac0 = 20"
  shows "get_hmac env mac0 2 params s =
           (TEE_SUCCESS,
            params[0 := (params ! 0)\<lparr>value_a :=
              tag_verdict (hmac_fn env (stored_key s) (stored_message s)) (stored_output s)\<rparr>],
            hmac_full_trace)"
proof -
  let ?tag = "hmac_fn env (stored_key s) (stored_message s)"
  have tl: "length ?tag = 20" using assms(2) by (simp add: crypto_wf_def)
  have l: "length (output_buf s) = 20" "unat (output_len s) \<le> 20"
    using assms(1) by (simp_all add: ta_inv_lengths)
  have hm: "hmac_sha1 env (K s) (K_len s) (Some (input s)) (input_len s) (Some mac0) (Some 20)
            = (TEE_SUCCESS, Some ?tag, Some 20, hmac_full_trace)"
    using assms(2-5) by (rule hmac_sha1_stored)
  have v: "verdict_loop ?tag (output_buf s) (output_len s) 0 0 = tag_verdict ?tag (stored_output s)"
    using tl l by (simp add: verdict_loop_prefix tag_verdict_def stored_defs min_absorb1)
  have "get_hmac env mac0 2 params s =
          (TEE_SUCCESS,
           params[0 := (params ! 0)\<lparr>value_a := verdict_loop ?tag (output_buf s) (output_len s) 0 0\<rparr>],
           hmac_full_trace)"
    by (cases params) (simp_all add: get_hmac_def size_defs hm Let_def del: hmac_exit_simps)
  with v show ?thesis by simp
qed

section \<open>Properties of the verdict handler\<close>

text \<open>
  C1. When the key has a length the primitive accepts and every TEE service
  succeeds, \<open>GET_HMAC\<close> returns \<open>TEE_SUCCESS\<close>, writes 0 into
  \<open>params[0].value.a\<close> exactly when the stored expected output equals the first
  \<open>output_len\<close> bytes of the HMAC of the stored message under the stored key and
  1 otherwise, changes nothing else in the parameters, and frees every handle it
  allocated.
\<close>

theorem get_hmac_verdict:
  assumes "ta_inv s" "crypto_wf env" "key_len_ok (K_len s)" "crypto_succeeds env (K_len s) (K s)"
    "length mac0 = 20"
  shows "get_hmac env mac0 2 params s =
           (TEE_SUCCESS,
            params[0 := (params ! 0)\<lparr>value_a :=
              (if take (length (stored_output s)) (hmac_fn env (stored_key s) (stored_message s))
                    = stored_output s
               then 0 else 1)\<rparr>],
            hmac_full_trace)"
  using get_hmac_success [OF assms] by (simp add: tag_verdict_def)

theorem get_hmac_verdict_witness:
  "let s = ta_init\<lparr>K := replicate 10 107 @ replicate 54 0, K_len := 10,
                   output_buf := replicate 20 7, output_len := 20\<rparr>;
       env = \<lparr>alloc_operation_res = \<lambda>_. 0, alloc_transient_res = \<lambda>_. 0, populate_res = \<lambda>_. 0,
              set_key_res = 0, hmac_fn = \<lambda>k m. replicate 20 7\<rparr>;
       p = \<lparr>memref_buffer = [], memref_size = 0, value_a = 5, value_b = 0\<rparr>
   in ta_inv s \<and> crypto_wf env \<and> key_len_ok (K_len s) \<and> crypto_succeeds env (K_len s) (K s) \<and>
      length (replicate 20 (0::byte)) = 20 \<and>
      get_hmac env (replicate 20 0) 2 [p, p, p, p] s =
        (TEE_SUCCESS, [p\<lparr>value_a := 0\<rparr>, p, p, p], hmac_full_trace)"
  using get_hmac_verdict [of "ta_init\<lparr>K := replicate 10 107 @ replicate 54 0, K_len := 10,
                   output_buf := replicate 20 7, output_len := 20\<rparr>"
      "\<lparr>alloc_operation_res = \<lambda>_. 0, alloc_transient_res = \<lambda>_. 0, populate_res = \<lambda>_. 0,
              set_key_res = 0, hmac_fn = \<lambda>k m. replicate 20 7\<rparr>" "replicate 20 0"
      "[\<lparr>memref_buffer = [], memref_size = 0, value_a = 5, value_b = 0\<rparr>, \<lparr>memref_buffer = [], memref_size = 0, value_a = 5, value_b = 0\<rparr>, \<lparr>memref_buffer = [], memref_size = 0, value_a = 5, value_b = 0\<rparr>, \<lparr>memref_buffer = [], memref_size = 0, value_a = 5, value_b = 0\<rparr>]"]
  by (simp add: witness_simps)

text \<open>
  C5. Mismatch detection: when the stored expected output differs from the tag
  at any compared position, \<open>GET_HMAC\<close> reports 1 (mismatch).
\<close>

theorem get_hmac_detects_mismatch:
  assumes "ta_inv s" "crypto_wf env" "key_len_ok (K_len s)" "crypto_succeeds env (K_len s) (K s)"
    "length mac0 = 20" "params \<noteq> []"
    "j < length (stored_output s)"
    "stored_output s ! j \<noteq> hmac_fn env (stored_key s) (stored_message s) ! j"
  shows "value_a (fst (snd (get_hmac env mac0 2 params s)) ! 0) = 1"
proof -
  let ?tag = "hmac_fn env (stored_key s) (stored_message s)"
  have "length ?tag = 20" using assms(2) by (simp add: crypto_wf_def)
  moreover have "length (stored_output s) \<le> 20"
    using assms(1) by (simp add: stored_defs ta_inv_lengths)
  ultimately have "take (length (stored_output s)) ?tag ! j = ?tag ! j"
    using assms(7) by simp
  with assms(8) have "take (length (stored_output s)) ?tag \<noteq> stored_output s" by metis
  then have "tag_verdict ?tag (stored_output s) = 1" by (simp add: tag_verdict_def)
  with get_hmac_success [OF assms(1-5)] assms(6) show ?thesis by (cases params) simp_all
qed

theorem get_hmac_detects_mismatch_witness:
  "let s = ta_init\<lparr>K := replicate 10 107 @ replicate 54 0, K_len := 10,
                   output_buf := replicate 20 7, output_len := 20\<rparr>\<lparr>output_buf := replicate 19 7 @ [8]\<rparr>;
       env = \<lparr>alloc_operation_res = \<lambda>_. 0, alloc_transient_res = \<lambda>_. 0, populate_res = \<lambda>_. 0,
              set_key_res = 0, hmac_fn = \<lambda>k m. replicate 20 7\<rparr>;
       p = \<lparr>memref_buffer = [], memref_size = 0, value_a = 5, value_b = 0\<rparr>
   in ta_inv s \<and> crypto_wf env \<and> key_len_ok (K_len s) \<and> crypto_succeeds env (K_len s) (K s) \<and>
      length (replicate 20 (0::byte)) = 20 \<and> [p, p, p, p] \<noteq> [] \<and>
      19 < length (stored_output s) \<and>
      stored_output s ! 19 \<noteq> hmac_fn env (stored_key s) (stored_message s) ! 19 \<and>
      value_a (fst (snd (get_hmac env (replicate 20 0) 2 [p, p, p, p] s)) ! 0) = 1"
  using get_hmac_detects_mismatch [of "ta_init\<lparr>K := replicate 10 107 @ replicate 54 0, K_len := 10,
                   output_buf := replicate 20 7, output_len := 20\<rparr>\<lparr>output_buf := replicate 19 7 @ [8]\<rparr>"
      "\<lparr>alloc_operation_res = \<lambda>_. 0, alloc_transient_res = \<lambda>_. 0, populate_res = \<lambda>_. 0,
              set_key_res = 0, hmac_fn = \<lambda>k m. replicate 20 7\<rparr>" "replicate 20 0"
      "[\<lparr>memref_buffer = [], memref_size = 0, value_a = 5, value_b = 0\<rparr>, \<lparr>memref_buffer = [], memref_size = 0, value_a = 5, value_b = 0\<rparr>, \<lparr>memref_buffer = [], memref_size = 0, value_a = 5, value_b = 0\<rparr>, \<lparr>memref_buffer = [], memref_size = 0, value_a = 5, value_b = 0\<rparr>]" 19]
  by (simp add: witness_simps nth_append)

text \<open>
  C7. The tag never leaves the TA: whatever the descriptor, the key and the
  services return, the only change \<open>GET_HMAC\<close> makes to the parameters is
  one bit, 0 or 1, in \<open>params[0].value.a\<close>.
\<close>

theorem get_hmac_reveals_one_bit:
  "fst (snd (get_hmac env mac0 pt params s)) = params \<or>
   (\<exists>v. (v = 0 \<or> v = 1) \<and>
        fst (snd (get_hmac env mac0 pt params s)) = params[0 := (params ! 0)\<lparr>value_a := v\<rparr>])"
proof -
  obtain r params' tr where g: "get_hmac env mac0 pt params s = (r, params', tr)"
    by (rule prod_cases3)
  from get_hmac_writes_loop [OF g] show ?thesis
  proof
    assume "params' = params"
    with g show ?thesis by simp
  next
    assume "\<exists>m. params' =
      params[0 := (params ! 0)\<lparr>value_a := verdict_loop m (output_buf s) (output_len s) 0 0\<rparr>]"
    then obtain m where p: "params' =
      params[0 := (params ! 0)\<lparr>value_a := verdict_loop m (output_buf s) (output_len s) 0 0\<rparr>]" ..
    have "verdict_loop m (output_buf s) (output_len s) 0 0 = 0 \<or>
          verdict_loop m (output_buf s) (output_len s) 0 0 = 1"
      by (rule verdict_loop_values)
    with p g show ?thesis by auto
  qed
qed

text \<open>
  C11. Zero-length expected output: when no output was registered (or an
  empty one was), \<open>GET_HMAC\<close> writes 0 (match) into \<open>value.a\<close> whatever
  the key, the message and the services return, including when the MAC could
  not be computed at all.
\<close>

theorem get_hmac_empty_output_matches:
  assumes "output_len s = 0" "params \<noteq> []"
  shows "value_a (fst (snd (get_hmac env mac0 2 params s)) ! 0) = 0"
  using assms hmac_sha1_out_some [of env "K s" "K_len s" "Some (input s)" "input_len s" mac0]
  by (cases params)
     (auto simp: get_hmac_def Let_def verdict_loop_zero_len split: prod.splits option.splits)

theorem get_hmac_empty_output_matches_witness:
  "output_len ta_init = 0 \<and> [\<lparr>memref_buffer = [], memref_size = 0, value_a = 5, value_b = 0\<rparr>] \<noteq> [] \<and>
   value_a (fst (snd (get_hmac \<lparr>alloc_operation_res = \<lambda>_. 0, alloc_transient_res = \<lambda>_. 0, populate_res = \<lambda>_. 0,
              set_key_res = 0, hmac_fn = \<lambda>k m. replicate 20 7\<rparr> (replicate 20 0) 2 [\<lparr>memref_buffer = [], memref_size = 0, value_a = 5, value_b = 0\<rparr>] ta_init)) ! 0) = 0"
  using get_hmac_empty_output_matches [of ta_init "[\<lparr>memref_buffer = [], memref_size = 0, value_a = 5, value_b = 0\<rparr>]" "\<lparr>alloc_operation_res = \<lambda>_. 0, alloc_transient_res = \<lambda>_. 0, populate_res = \<lambda>_. 0,
              set_key_res = 0, hmac_fn = \<lambda>k m. replicate 20 7\<rparr>" "replicate 20 0"]
  by (simp add: ta_init_def)

text \<open>
  C12. With a stored key length outside [10, 64] (in particular in the initial
  state, where \<open>K_len = 0\<close>) \<open>GET_HMAC\<close> returns
  \<open>TEE_ERROR_BAD_PARAMETERS\<close>, calls no TEE service, and still writes into
  \<open>value.a\<close> the comparison of the expected output with the uninitialised
  stack array \<open>mac\<close>.
\<close>

theorem get_hmac_uninitialised_mac:
  assumes "ta_inv s" "\<not> key_len_ok (K_len s)" "length mac0 = 20"
  shows "get_hmac env mac0 2 params s =
           (TEE_ERROR_BAD_PARAMETERS,
            params[0 := (params ! 0)\<lparr>value_a := tag_verdict mac0 (stored_output s)\<rparr>], [])"
proof -
  have l: "length (output_buf s) = 20" "unat (output_len s) \<le> 20"
    using assms(1) by (simp_all add: ta_inv_lengths)
  have hm: "hmac_sha1 env (K s) (K_len s) (Some (input s)) (input_len s) (Some mac0) (Some 20)
            = (TEE_ERROR_BAD_PARAMETERS, Some mac0, Some 20, [])"
    using assms(2) by (simp add: hmac_sha1_def key_len_ok_guard)
  have v: "verdict_loop mac0 (output_buf s) (output_len s) 0 0 = tag_verdict mac0 (stored_output s)"
    using assms(3) l by (simp add: verdict_loop_prefix tag_verdict_def stored_defs min_absorb1)
  show ?thesis
    using v by (cases params) (simp_all add: get_hmac_def size_defs hm Let_def)
qed

theorem get_hmac_uninitialised_mac_witness:
  "let s = ta_init\<lparr>output_buf := replicate 20 7, output_len := 20\<rparr>
   in ta_inv s \<and> \<not> key_len_ok (K_len s) \<and> length (replicate 20 (7::byte)) = 20 \<and>
      get_hmac \<lparr>alloc_operation_res = \<lambda>_. 0, alloc_transient_res = \<lambda>_. 0, populate_res = \<lambda>_. 0,
              set_key_res = 0, hmac_fn = \<lambda>k m. replicate 20 7\<rparr> (replicate 20 7) 2 [\<lparr>memref_buffer = [], memref_size = 0, value_a = 5, value_b = 0\<rparr>] s =
        (TEE_ERROR_BAD_PARAMETERS, [\<lparr>memref_buffer = [], memref_size = 0, value_a = 5, value_b = 0\<rparr>\<lparr>value_a := 0\<rparr>], [])"
  using get_hmac_uninitialised_mac [of "ta_init\<lparr>output_buf := replicate 20 7, output_len := 20\<rparr>"
      "replicate 20 7" "\<lparr>alloc_operation_res = \<lambda>_. 0, alloc_transient_res = \<lambda>_. 0, populate_res = \<lambda>_. 0,
              set_key_res = 0, hmac_fn = \<lambda>k m. replicate 20 7\<rparr>" "[\<lparr>memref_buffer = [], memref_size = 0, value_a = 5, value_b = 0\<rparr>]"]
  by (simp add: witness_simps tag_verdict_def)

text \<open>
  C16. The early-exit comparison loop of the code computes the same verdict as
  the constant-time comparison the spec asks a hardened implementation to use
  (OR of the XOR of all compared bytes, one branch at the end): replacing one by
  the other changes timing, never the result.
\<close>

theorem verdict_loop_constant_time:
  assumes "unat n \<le> length mac" "unat n \<le> length out"
  shows "verdict_loop mac out n 0 0 = ct_verdict mac out n"
  using assms by (simp add: verdict_loop_prefix ct_verdict_def ct_diff_zero)

theorem verdict_loop_constant_time_witness:
  "unat (3::u32) \<le> length [1, 2, 3 :: byte] \<and> unat (3::u32) \<le> length [1, 2, 4 :: byte] \<and>
   verdict_loop [1, 2, 3] [1, 2, 4] 3 0 0 = ct_verdict [1, 2, 3] [1, 2, 4] 3 \<and>
   ct_verdict [1, 2, 3] [1, 2, 4] 3 = 1"
  using verdict_loop_constant_time [of 3 "[1, 2, 3]" "[1, 2, 4]"]
  by (simp add: ct_verdict_def)

text \<open>
  C27. Termination of the comparison loop: for every expected-output length
  (any \<open>uint32_t\<close>), every buffer contents and every initial \<open>value.a\<close>, the
  C loop \<open>for (i = 0; i < output_len; i++)\<close> with its \<open>break\<close> stops (the
  counter never wraps before the guard fails), and leaves in \<open>value.a\<close> exactly
  what \<open>verdict_loop\<close>, the function the rest of the development reasons with,
  computes.
\<close>

theorem verdict_while_terminates:
  "verdict_while mac out n a = Some (verdict_loop mac out n 0 a)"
  by (simp add: verdict_while_def verdict_while_from)

end
