(* ===== verification/HMAC_TA.thy ===== *)
theory HMAC_TA
  imports HMAC_Register HMAC_Verdict
begin

text \<open>
  The entry points of the TA (\<^verbatim>\<open>src/hmac/ta/hmac_ta.c\<close>, lines 234--281)
  and the command identifiers of \<^verbatim>\<open>src/hmac/ta/hmac_ta.h\<close> (lines 20--23).
  \<open>TA_InvokeCommandEntryPoint\<close> switches on the command identifier and hands
  the parameter-type descriptor and the parameters to one handler; it ignores
  its session context. The model returns the result code, the parameters as
  the client sees them afterwards, the new state and the handle trace.
  The TA as a state machine is the relation \<open>ta_step\<close>: one invocation with
  any command, descriptor and parameters the TEE core can deliver, from any
  session. The theory proves that every handler keeps the state invariant
  and therefore every reachable state satisfies it, and the frame and
  validate-then-commit properties of each command.
\<close>

section \<open>Command identifiers\<close>

definition TA_HMAC_CMD_REGISTER_SHARED_KEY :: u32 where "TA_HMAC_CMD_REGISTER_SHARED_KEY = 0"
definition TA_HMAC_CMD_REGISTER_MESSAGE :: u32 where "TA_HMAC_CMD_REGISTER_MESSAGE = 1"
definition TA_HMAC_CMD_REGISTER_OUTPUT :: u32 where "TA_HMAC_CMD_REGISTER_OUTPUT = 2"
definition TA_HMAC_CMD_GET_HMAC :: u32 where "TA_HMAC_CMD_GET_HMAC = 3"

lemmas cmd_defs = TA_HMAC_CMD_REGISTER_SHARED_KEY_def TA_HMAC_CMD_REGISTER_MESSAGE_def
  TA_HMAC_CMD_REGISTER_OUTPUT_def TA_HMAC_CMD_GET_HMAC_def

section \<open>Entry points\<close>

text \<open>The session context is a \<open>void *\<close> the TA never reads; a number stands for it.\<close>

type_synonym sess_ctx = nat

definition TA_CreateEntryPoint :: u32 where
  "TA_CreateEntryPoint = TEE_SUCCESS"

definition TA_OpenSessionEntryPoint :: "u32 \<Rightarrow> u32" where
  "TA_OpenSessionEntryPoint param_types =
     (let exp_param_types = TEE_PARAM_TYPES TEE_PARAM_TYPE_NONE TEE_PARAM_TYPE_NONE
                              TEE_PARAM_TYPE_NONE TEE_PARAM_TYPE_NONE in
      if param_types \<noteq> exp_param_types then TEE_ERROR_BAD_PARAMETERS else TEE_SUCCESS)"

type_synonym invoke_ret = "u32 \<times> tee_param list \<times> ta_state \<times> tee_event list"

definition TA_InvokeCommandEntryPoint ::
  "tee_crypto \<Rightarrow> byte list \<Rightarrow> sess_ctx \<Rightarrow> u32 \<Rightarrow> u32 \<Rightarrow> tee_param list \<Rightarrow> ta_state
   \<Rightarrow> invoke_ret" where
  "TA_InvokeCommandEntryPoint env mac0 sess cmd_id param_types params s =
     (if cmd_id = TA_HMAC_CMD_REGISTER_SHARED_KEY then
        (case register_shared_key param_types params s of (r, s') \<Rightarrow> (r, params, s', []))
      else if cmd_id = TA_HMAC_CMD_REGISTER_MESSAGE then
        (case register_message param_types params s of (r, s') \<Rightarrow> (r, params, s', []))
      else if cmd_id = TA_HMAC_CMD_REGISTER_OUTPUT then
        (case register_output param_types params s of (r, s') \<Rightarrow> (r, params, s', []))
      else if cmd_id = TA_HMAC_CMD_GET_HMAC then
        (case get_hmac env mac0 param_types params s of (r, params', tr) \<Rightarrow> (r, params', s, tr))
      else (TEE_ERROR_BAD_PARAMETERS, params, s, []))"

section \<open>The TA as a state machine\<close>

text \<open>
  What the TEE core delivers with an invocation: four parameters, the first
  of whose memref views covers \<open>size\<close> bytes, and the 20-byte stack array
  \<open>mac\<close> of \<open>get_hmac\<close> with whatever it contains.
\<close>

definition invocation_ok :: "byte list \<Rightarrow> tee_param list \<Rightarrow> bool" where
  "invocation_ok mac0 params \<longleftrightarrow> length params = 4 \<and> memref_wf (params ! 0) \<and> length mac0 = 20"

inductive ta_step :: "ta_state \<Rightarrow> ta_state \<Rightarrow> bool" where
  invoke: "invocation_ok mac0 params \<Longrightarrow>
           TA_InvokeCommandEntryPoint env mac0 sess cmd pt params s = (r, params', s', tr) \<Longrightarrow>
           ta_step s s'"

inductive ta_reachable :: "ta_state \<Rightarrow> bool" where
  init: "ta_reachable ta_init"
| step: "ta_reachable s \<Longrightarrow> ta_step s s' \<Longrightarrow> ta_reachable s'"

inductive_cases ta_stepE: "ta_step s s'"

section \<open>Lemmas\<close>

text \<open>One successful register call stores its buffer into one slot and keeps the invariant.\<close>

lemma register_shared_key_inv:
  assumes "register_shared_key pt params s = (r, s')" "ta_inv s" "memref_wf (params ! 0)"
  shows "ta_inv s'"
  using assms
  by (auto simp: register_shared_key_cases ta_inv_def memref_wf_def size_defs
        slot_store_from_inv slot_ok_store split: if_splits)

lemma register_message_inv:
  assumes "register_message pt params s = (r, s')" "ta_inv s" "memref_wf (params ! 0)"
  shows "ta_inv s'"
  using assms
  by (auto simp: register_message_cases ta_inv_def memref_wf_def size_defs
        slot_store_from_inv slot_ok_store split: if_splits)

lemma register_output_inv:
  assumes "register_output pt params s = (r, s')" "ta_inv s" "memref_wf (params ! 0)"
  shows "ta_inv s'"
  using assms
  by (auto simp: register_output_cases ta_inv_def memref_wf_def size_defs
        slot_store_from_inv slot_ok_store split: if_splits)

lemma invoke_cases:
  "TA_InvokeCommandEntryPoint env mac0 sess cmd pt params s = (r, params', s', tr) \<Longrightarrow>
   (cmd = 0 \<and> register_shared_key pt params s = (r, s') \<and> params' = params \<and> tr = []) \<or>
   (cmd = 1 \<and> register_message pt params s = (r, s') \<and> params' = params \<and> tr = []) \<or>
   (cmd = 2 \<and> register_output pt params s = (r, s') \<and> params' = params \<and> tr = []) \<or>
   (cmd = 3 \<and> get_hmac env mac0 pt params s = (r, params', tr) \<and> s' = s) \<or>
   (cmd > 3 \<and> r = TEE_ERROR_BAD_PARAMETERS \<and> params' = params \<and> s' = s \<and> tr = [])"
  by (auto simp: TA_InvokeCommandEntryPoint_def cmd_defs word_greater_zero_iff
      split: prod.splits if_splits) (unat_arith)

text \<open>Every step keeps the invariant (one case per command, the register lemmas above).\<close>

lemma ta_step_inv:
  assumes "ta_step s s'" "ta_inv s"
  shows "ta_inv s'"
  using assms(1)
proof (cases rule: ta_step.cases)
  case (invoke mac0 params env sess cmd pt r params' tr)
  then have wf: "memref_wf (params ! 0)" by (simp add: invocation_ok_def)
  from invoke_cases [OF invoke(2)] show ?thesis
    using assms(2) wf register_shared_key_inv register_message_inv register_output_inv
    by blast
qed

lemma ta_reachable_inv: "ta_reachable s \<Longrightarrow> ta_inv s"
proof (induction rule: ta_reachable.induct)
  case init
  show ?case by (rule ta_init_inv)
next
  case (step s s')
  then show ?case by (blast intro: ta_step_inv)
qed

text \<open>\<open>GET_HMAC\<close> reads the state and never writes it.\<close>

lemma invoke_get_hmac_state:
  "fst (snd (snd (TA_InvokeCommandEntryPoint env mac0 sess 3 pt params s))) = s"
  by (simp add: TA_InvokeCommandEntryPoint_def cmd_defs split: prod.splits)

text \<open>A register-key request that fits: the key slot holds the bytes, zero-padded.\<close>

lemma register_key_state:
  assumes "ta_inv s" "memref_wf (pa ! 0)" "unat (memref_size (pa ! 0)) \<le> MAX_KEY_SIZE"
  shows "register_shared_key exp_memref_input pa s =
           (TEE_SUCCESS, s\<lparr>K := take (unat (memref_size (pa ! 0))) (memref_buffer (pa ! 0)) @
                                replicate (64 - unat (memref_size (pa ! 0))) 0,
                           K_len := memref_size (pa ! 0)\<rparr>)"
  using ta_inv_lengths [OF assms(1)] assms(2,3)
  by (simp add: register_shared_key_cases memref_wf_def memcpy_memset_store size_defs)

text \<open>Likewise for the message and the expected output.\<close>

lemma register_message_state:
  assumes "ta_inv s" "memref_wf (pa ! 0)" "unat (memref_size (pa ! 0)) \<le> MAX_MESSAGE_SIZE"
  shows "register_message exp_memref_input pa s =
           (TEE_SUCCESS, s\<lparr>input := take (unat (memref_size (pa ! 0))) (memref_buffer (pa ! 0)) @
                                    replicate (64 - unat (memref_size (pa ! 0))) 0,
                           input_len := memref_size (pa ! 0)\<rparr>)"
  using ta_inv_lengths [OF assms(1)] assms(2,3)
  by (simp add: register_message_cases memref_wf_def memcpy_memset_store size_defs)

lemma register_output_state:
  assumes "ta_inv s" "memref_wf (pa ! 0)" "unat (memref_size (pa ! 0)) \<le> SHA1_HASH_SIZE"
  shows "register_output exp_memref_input pa s =
           (TEE_SUCCESS, s\<lparr>output_buf := take (unat (memref_size (pa ! 0))) (memref_buffer (pa ! 0)) @
                                         replicate (20 - unat (memref_size (pa ! 0))) 0,
                           output_len := memref_size (pa ! 0)\<rparr>)"
  using ta_inv_lengths [OF assms(1)] assms(2,3)
  by (simp add: register_output_cases memref_wf_def memcpy_memset_store size_defs)

section \<open>Properties of the dispatcher and the state machine\<close>

text \<open>
  C4. Memory safety of the stored lengths: in every state reachable from the
  zero-initialised statics by any sequence of invocations, each logical length
  fits its array, so the \<open>keylen\<close> bytes of \<open>K\<close> and the \<open>inlen\<close> bytes of
  \<open>input\<close> that \<open>hmac_sha1\<close> reads, and the \<open>output_len\<close> bytes of \<open>mac\<close>
  (20 bytes) and \<open>output\<close> that the verdict loop reads, are all inside their
  arrays, and every byte past a logical length is zero.
\<close>

theorem ta_reachable_bounds:
  assumes "ta_reachable s"
  shows "unat (K_len s) \<le> length (K s) \<and> unat (input_len s) \<le> length (input s) \<and>
         unat (output_len s) \<le> length (output_buf s) \<and> unat (output_len s) \<le> SHA1_HASH_SIZE \<and>
         zero_padded (K s) (unat (K_len s)) \<and> zero_padded (input s) (unat (input_len s)) \<and>
         zero_padded (output_buf s) (unat (output_len s))"
  using ta_reachable_inv [OF assms] by (simp add: ta_inv_def slot_ok_def)

theorem ta_reachable_bounds_witness:
  "let s = ta_init\<lparr>K := replicate 10 107 @ replicate 54 0, K_len := 10\<rparr> in
   ta_reachable s \<and> unat (K_len s) \<le> length (K s) \<and> zero_padded (K s) (unat (K_len s))"
proof -
  let ?p = "\<lparr>memref_buffer = replicate 10 107, memref_size = 10, value_a = 0, value_b = 0\<rparr>"
  let ?s = "ta_init\<lparr>K := replicate 10 107 @ replicate 54 0, K_len := 10\<rparr>"
  have inv: "invocation_ok (replicate 20 0) [?p, ?p, ?p, ?p]"
    by (simp add: invocation_ok_def memref_wf_def)
  have "TA_InvokeCommandEntryPoint \<lparr>alloc_operation_res = \<lambda>_. 0, alloc_transient_res = \<lambda>_. 0, populate_res = \<lambda>_. 0,
              set_key_res = 0, hmac_fn = \<lambda>k m. replicate 20 7\<rparr> (replicate 20 0) 0 0 5 [?p, ?p, ?p, ?p] ta_init =
        (TEE_SUCCESS, [?p, ?p, ?p, ?p], ?s, [])"
    by (simp add: TA_InvokeCommandEntryPoint_def cmd_defs register_shared_key_cases
          memset_def memcpy_def ta_init_def size_defs)
  with inv have "ta_step ta_init ?s" by (rule ta_step.invoke)
  then have r: "ta_reachable ?s" by (rule ta_reachable.step [OF ta_reachable.init])
  show ?thesis using ta_reachable_bounds [OF r] r by (simp add: Let_def)
qed

text \<open>
  C9. A command identifier other than the four of \<^verbatim>\<open>hmac_ta.h\<close> fails with
  \<open>TEE_ERROR_BAD_PARAMETERS\<close>; the dispatcher touches neither the state nor
  the parameters.
\<close>

theorem invoke_rejects_unknown_command:
  assumes "3 < cmd"
  shows "TA_InvokeCommandEntryPoint env mac0 sess cmd pt params s =
           (TEE_ERROR_BAD_PARAMETERS, params, s, [])"
proof -
  have "cmd \<noteq> 0 \<and> cmd \<noteq> 1 \<and> cmd \<noteq> 2 \<and> cmd \<noteq> 3" using assms by auto
  then show ?thesis by (simp add: TA_InvokeCommandEntryPoint_def cmd_defs)
qed

theorem invoke_rejects_unknown_command_witness:
  "(3::u32) < 4 \<and>
   TA_InvokeCommandEntryPoint \<lparr>alloc_operation_res = \<lambda>_. 0, alloc_transient_res = \<lambda>_. 0, populate_res = \<lambda>_. 0,
              set_key_res = 0, hmac_fn = \<lambda>k m. replicate 20 7\<rparr> (replicate 20 0) 0 4 5 [\<lparr>memref_buffer = replicate 10 107, memref_size = 10, value_a = 0, value_b = 0\<rparr>] ta_init =
     (TEE_ERROR_BAD_PARAMETERS, [\<lparr>memref_buffer = replicate 10 107, memref_size = 10, value_a = 0, value_b = 0\<rparr>], ta_init, [])"
  using invoke_rejects_unknown_command [of 4 "\<lparr>alloc_operation_res = \<lambda>_. 0, alloc_transient_res = \<lambda>_. 0, populate_res = \<lambda>_. 0,
              set_key_res = 0, hmac_fn = \<lambda>k m. replicate 20 7\<rparr>" "replicate 20 0" 0 5 "[\<lparr>memref_buffer = replicate 10 107, memref_size = 10, value_a = 0, value_b = 0\<rparr>]" ta_init]
  by simp

text \<open>
  C10. Shape check before any handler work: a known command whose
  parameter-type descriptor is not the one it expects (one input memref for
  the three register commands, one output value for \<open>GET_HMAC\<close>) fails with
  \<open>TEE_ERROR_BAD_PARAMETERS\<close>, with state and parameters unchanged and no TEE
  service called.
\<close>

theorem invoke_rejects_wrong_descriptor:
  assumes "cmd \<le> 3" "pt \<noteq> (if cmd = TA_HMAC_CMD_GET_HMAC then exp_value_output else exp_memref_input)"
  shows "TA_InvokeCommandEntryPoint env mac0 sess cmd pt params s =
           (TEE_ERROR_BAD_PARAMETERS, params, s, [])"
  using assms
  by (auto simp: TA_InvokeCommandEntryPoint_def cmd_defs register_shared_key_cases
        register_message_cases register_output_cases get_hmac_def)

theorem invoke_rejects_wrong_descriptor_witness:
  "(3::u32) \<le> 3 \<and> (5::u32) \<noteq> (if (3::u32) = TA_HMAC_CMD_GET_HMAC then exp_value_output else exp_memref_input) \<and>
   TA_InvokeCommandEntryPoint \<lparr>alloc_operation_res = \<lambda>_. 0, alloc_transient_res = \<lambda>_. 0, populate_res = \<lambda>_. 0,
              set_key_res = 0, hmac_fn = \<lambda>k m. replicate 20 7\<rparr> (replicate 20 0) 0 3 5 [\<lparr>memref_buffer = replicate 10 107, memref_size = 10, value_a = 0, value_b = 0\<rparr>] ta_init =
     (TEE_ERROR_BAD_PARAMETERS, [\<lparr>memref_buffer = replicate 10 107, memref_size = 10, value_a = 0, value_b = 0\<rparr>], ta_init, [])"
  using invoke_rejects_wrong_descriptor [of 3 5 "\<lparr>alloc_operation_res = \<lambda>_. 0, alloc_transient_res = \<lambda>_. 0, populate_res = \<lambda>_. 0,
              set_key_res = 0, hmac_fn = \<lambda>k m. replicate 20 7\<rparr>" "replicate 20 0" 0 "[\<lparr>memref_buffer = replicate 10 107, memref_size = 10, value_a = 0, value_b = 0\<rparr>]" ta_init]
  by (simp add: cmd_defs)

text \<open>
  C18. Idempotence of \<open>GET_HMAC\<close>: it leaves the state as it was, and when the
  MAC can be computed a second invocation (from any session, whatever the
  uninitialised stack array holds) returns exactly what the first returned.
\<close>

theorem get_hmac_idempotent:
  assumes "ta_inv s" "crypto_wf env" "key_len_ok (K_len s)" "crypto_succeeds env (K_len s) (K s)"
    "length mac0 = 20" "length mac1 = 20"
  shows "TA_InvokeCommandEntryPoint env mac1 sess1 3 2 params
           (fst (snd (snd (TA_InvokeCommandEntryPoint env mac0 sess0 3 2 params s)))) =
         TA_InvokeCommandEntryPoint env mac0 sess0 3 2 params s"
  using get_hmac_success [OF assms(1-5)] get_hmac_success [OF assms(1-4,6)]
  by (simp add: invoke_get_hmac_state TA_InvokeCommandEntryPoint_def cmd_defs)

theorem get_hmac_idempotent_witness:
  "let s = ta_init\<lparr>K := replicate 10 107 @ replicate 54 0, K_len := 10\<rparr>; env = \<lparr>alloc_operation_res = \<lambda>_. 0, alloc_transient_res = \<lambda>_. 0, populate_res = \<lambda>_. 0,
              set_key_res = 0, hmac_fn = \<lambda>k m. replicate 20 7\<rparr> in
   ta_inv s \<and> crypto_wf env \<and> key_len_ok (K_len s) \<and> crypto_succeeds env (K_len s) (K s) \<and>
   length (replicate 20 (0::byte)) = 20 \<and> length (replicate 20 (9::byte)) = 20 \<and>
   TA_InvokeCommandEntryPoint env (replicate 20 9) 1 3 2 [\<lparr>memref_buffer = replicate 10 107, memref_size = 10, value_a = 0, value_b = 0\<rparr>]
     (fst (snd (snd (TA_InvokeCommandEntryPoint env (replicate 20 0) 0 3 2 [\<lparr>memref_buffer = replicate 10 107, memref_size = 10, value_a = 0, value_b = 0\<rparr>] s)))) =
   TA_InvokeCommandEntryPoint env (replicate 20 0) 0 3 2 [\<lparr>memref_buffer = replicate 10 107, memref_size = 10, value_a = 0, value_b = 0\<rparr>] s"
  using get_hmac_idempotent [of "ta_init\<lparr>K := replicate 10 107 @ replicate 54 0, K_len := 10\<rparr>"
      "\<lparr>alloc_operation_res = \<lambda>_. 0, alloc_transient_res = \<lambda>_. 0, populate_res = \<lambda>_. 0,
              set_key_res = 0, hmac_fn = \<lambda>k m. replicate 20 7\<rparr>" "replicate 20 0" "replicate 20 9" 1 "[\<lparr>memref_buffer = replicate 10 107, memref_size = 10, value_a = 0, value_b = 0\<rparr>]" 0]
  by (simp add: witness_simps)

end
