(* ===== verification/HMAC_Spec.thy ===== *)
theory HMAC_Spec
  imports HMAC_TA
begin

text \<open>
  An abstract specification of the service the TA offers, stated without
  arrays, logical lengths or stack buffers: the TA holds three byte strings
  (key, message, expected output); a register command replaces one of them by
  the client's buffer when the descriptor is a single input memref and the
  buffer fits the slot, and is rejected otherwise; \<open>GET_HMAC\<close> reports whether
  the expected output is a prefix of HMAC-SHA1 of the message under the key,
  fails with the error of the first TEE service that fails, and rejects a key
  the primitive does not accept. \<open>abs_of\<close> reads a concrete state as such a
  store, \<open>abs_invoke\<close> is one abstract command, \<open>reply_matches\<close> relates an
  abstract reply to the result code and parameters the TA returns, and
  \<open>abs_reachable\<close> is the abstract state machine. The refinement theorem and
  the simulation of the reachable states are in the root theory.
\<close>

section \<open>Abstract store and replies\<close>

record abs_store =
  a_key :: "byte list"
  a_msg :: "byte list"
  a_out :: "byte list"

definition abs_of :: "ta_state \<Rightarrow> abs_store" where
  "abs_of s = \<lparr>a_key = stored_key s, a_msg = stored_message s, a_out = stored_output s\<rparr>"

definition abs_init :: abs_store where
  "abs_init = \<lparr>a_key = [], a_msg = [], a_out = []\<rparr>"

datatype abs_reply =
    Accepted
  | Rejected
  | Failed u32
  | Verdict bool

section \<open>Abstract commands\<close>

text \<open>A register request is accepted with the bytes it carries, or refused.\<close>

definition abs_accept :: "nat \<Rightarrow> u32 \<Rightarrow> tee_param list \<Rightarrow> byte list option" where
  "abs_accept cap pt params =
     (if pt = exp_memref_input \<and> unat (memref_size (params ! 0)) \<le> cap
      then Some (take (unat (memref_size (params ! 0))) (memref_buffer (params ! 0)))
      else None)"

definition abs_get :: "tee_crypto \<Rightarrow> u32 \<Rightarrow> abs_store \<Rightarrow> abs_reply" where
  "abs_get env pt a =
     (if pt \<noteq> exp_value_output then Rejected
      else if length (a_key a) < MIN_KEY_SIZE \<or> MAX_KEY_SIZE < length (a_key a) then Rejected
      else case find (\<lambda>r. r \<noteq> TEE_SUCCESS)
                  (service_results env (of_nat (length (a_key a))) (a_key a)) of
        Some e \<Rightarrow> Failed e
      | None \<Rightarrow> Verdict (take (length (a_out a)) (hmac_fn env (a_key a) (a_msg a)) = a_out a))"

definition abs_invoke :: "tee_crypto \<Rightarrow> u32 \<Rightarrow> u32 \<Rightarrow> tee_param list \<Rightarrow> abs_store
                           \<Rightarrow> abs_reply \<times> abs_store" where
  "abs_invoke env cmd pt params a =
     (if cmd = TA_HMAC_CMD_REGISTER_SHARED_KEY then
        (case abs_accept MAX_KEY_SIZE pt params of
           Some k \<Rightarrow> (Accepted, a\<lparr>a_key := k\<rparr>) | None \<Rightarrow> (Rejected, a))
      else if cmd = TA_HMAC_CMD_REGISTER_MESSAGE then
        (case abs_accept MAX_MESSAGE_SIZE pt params of
           Some m \<Rightarrow> (Accepted, a\<lparr>a_msg := m\<rparr>) | None \<Rightarrow> (Rejected, a))
      else if cmd = TA_HMAC_CMD_REGISTER_OUTPUT then
        (case abs_accept SHA1_HASH_SIZE pt params of
           Some o' \<Rightarrow> (Accepted, a\<lparr>a_out := o'\<rparr>) | None \<Rightarrow> (Rejected, a))
      else if cmd = TA_HMAC_CMD_GET_HMAC then (abs_get env pt a, a)
      else (Rejected, a))"

text \<open>
  How the client observes a reply: the result code, and for a verdict the
  value written into \<open>params[0].value.a\<close> (0 for a match).
\<close>

definition reply_matches :: "abs_reply \<Rightarrow> u32 \<Rightarrow> tee_param list \<Rightarrow> bool" where
  "reply_matches rep r params' =
     (case rep of
        Accepted \<Rightarrow> r = TEE_SUCCESS
      | Rejected \<Rightarrow> r = TEE_ERROR_BAD_PARAMETERS
      | Failed e \<Rightarrow> r = e \<and> e \<noteq> TEE_SUCCESS
      | Verdict b \<Rightarrow> r = TEE_SUCCESS \<and> value_a (params' ! 0) = (if b then 0 else 1))"

inductive abs_reachable :: "abs_store \<Rightarrow> bool" where
  init: "abs_reachable abs_init"
| step: "abs_reachable a \<Longrightarrow> abs_invoke env cmd pt params a = (rep, a') \<Longrightarrow> abs_reachable a'"

section \<open>Lemmas: each handler against its abstract command\<close>

lemma abs_of_init: "abs_of ta_init = abs_init"
  by (simp add: abs_of_def abs_init_def ta_init_def stored_defs)

lemma register_shared_key_abs:
  assumes "ta_inv s" "memref_wf (params ! 0)" "register_shared_key pt params s = (r, s')"
  shows "case abs_accept MAX_KEY_SIZE pt params of
           Some k \<Rightarrow> r = TEE_SUCCESS \<and> abs_of s' = (abs_of s)\<lparr>a_key := k\<rparr>
         | None \<Rightarrow> r = TEE_ERROR_BAD_PARAMETERS \<and> s' = s"
  using ta_inv_lengths [OF assms(1)] assms(2,3)
  by (auto simp: register_shared_key_cases abs_accept_def abs_of_def stored_defs memref_wf_def
      memcpy_memset_store size_defs split: if_splits)

lemma register_message_abs:
  assumes "ta_inv s" "memref_wf (params ! 0)" "register_message pt params s = (r, s')"
  shows "case abs_accept MAX_MESSAGE_SIZE pt params of
           Some m \<Rightarrow> r = TEE_SUCCESS \<and> abs_of s' = (abs_of s)\<lparr>a_msg := m\<rparr>
         | None \<Rightarrow> r = TEE_ERROR_BAD_PARAMETERS \<and> s' = s"
  using ta_inv_lengths [OF assms(1)] assms(2,3)
  by (auto simp: register_message_cases abs_accept_def abs_of_def stored_defs memref_wf_def
      memcpy_memset_store size_defs split: if_splits)

lemma register_output_abs:
  assumes "ta_inv s" "memref_wf (params ! 0)" "register_output pt params s = (r, s')"
  shows "case abs_accept SHA1_HASH_SIZE pt params of
           Some o' \<Rightarrow> r = TEE_SUCCESS \<and> abs_of s' = (abs_of s)\<lparr>a_out := o'\<rparr>
         | None \<Rightarrow> r = TEE_ERROR_BAD_PARAMETERS \<and> s' = s"
  using ta_inv_lengths [OF assms(1)] assms(2,3)
  by (auto simp: register_output_cases abs_accept_def abs_of_def stored_defs memref_wf_def
      memcpy_memset_store size_defs split: if_splits)

text \<open>The result code of \<open>get_hmac\<close> is the descriptor check's or \<open>hmac_sha1\<close>'s.\<close>

lemma get_hmac_code:
  "fst (get_hmac env mac0 pt params s) =
     (if pt \<noteq> exp_value_output then TEE_ERROR_BAD_PARAMETERS
      else fst (hmac_sha1 env (K s) (K_len s) (Some (input s)) (input_len s) (Some mac0) (Some 20)))"
  by (simp add: get_hmac_def Let_def size_defs split: prod.splits)

lemma stored_key_len:
  "ta_inv s \<Longrightarrow> length (stored_key s) = unat (K_len s)"
  by (auto simp: ta_inv_def stored_key_def dest: slot_ok_length)

lemma service_results_stored:
  "service_results env (K_len s) (K s) = service_results env (K_len s) (stored_key s)"
  by (simp add: service_results_def stored_defs)

lemma find_service_results_None:
  "find (\<lambda>r. r \<noteq> TEE_SUCCESS) (service_results env kl k) = None \<longleftrightarrow> crypto_succeeds env kl k"
  by (auto simp: service_results_def crypto_succeeds_def)

lemma key_len_ok_stored:
  "ta_inv s \<Longrightarrow> key_len_ok (K_len s) \<longleftrightarrow>
     \<not> (length (stored_key s) < MIN_KEY_SIZE \<or> MAX_KEY_SIZE < length (stored_key s))"
  by (simp add: stored_key_len key_len_ok_def not_less)

text \<open>\<open>GET_HMAC\<close> against \<open>abs_get\<close>, on each of its four outcomes.\<close>

lemma get_hmac_abs:
  assumes "ta_inv s" "crypto_wf env" "length mac0 = 20" "params \<noteq> []"
    "get_hmac env mac0 pt params s = (r, params', tr)"
  shows "reply_matches (abs_get env pt (abs_of s)) r params'"
proof -
  have code: "r = fst (get_hmac env mac0 pt params s)" using assms(5) by simp
  have kl: "of_nat (length (stored_key s)) = K_len s" using assms(1) by (simp add: stored_key_len)
  show ?thesis
  proof (cases "pt = exp_value_output \<and> key_len_ok (K_len s)")
    case False
    then show ?thesis
      using code key_len_ok_stored [OF assms(1)]
      by (auto simp: abs_get_def reply_matches_def abs_of_def get_hmac_code hmac_sha1_code)
  next
    case True
    show ?thesis
    proof (cases "find (\<lambda>r. r \<noteq> TEE_SUCCESS) (service_results env (K_len s) (stored_key s))")
      case None
      then have c: "crypto_succeeds env (K_len s) (K s)"
        by (simp add: find_service_results_None service_results_stored [symmetric])
      have "get_hmac env mac0 2 params s =
              (TEE_SUCCESS,
               params[0 := (params ! 0)\<lparr>value_a :=
                 tag_verdict (hmac_fn env (stored_key s) (stored_message s)) (stored_output s)\<rparr>],
               hmac_full_trace)"
        using True c assms(1-3) by (simp add: get_hmac_success)
      then show ?thesis
        using True None assms(4,5) key_len_ok_stored [OF assms(1)] kl
        by (cases params)
           (auto simp: abs_get_def reply_matches_def abs_of_def tag_verdict_def)
    next
      case (Some e)
      then have "e \<noteq> TEE_SUCCESS" by (auto simp: find_Some_iff)
      with True Some show ?thesis
        using code key_len_ok_stored [OF assms(1)] kl
        by (simp add: abs_get_def reply_matches_def abs_of_def get_hmac_code hmac_sha1_code
            service_results_stored)
    qed
  qed
qed


lemma reply_matches_code [simp]:
  "reply_matches Accepted r p \<longleftrightarrow> r = TEE_SUCCESS"
  "reply_matches Rejected r p \<longleftrightarrow> r = TEE_ERROR_BAD_PARAMETERS"
  by (simp_all add: reply_matches_def)

lemma cmd_above_3:
  "(3::u32) < cmd \<Longrightarrow> cmd \<noteq> 0 \<and> cmd \<noteq> 1 \<and> cmd \<noteq> 2 \<and> cmd \<noteq> 3"
  by auto

lemma invoke_abs_store:
  assumes "ta_inv s" "memref_wf (params ! 0)"
    "TA_InvokeCommandEntryPoint env mac0 sess cmd pt params s = (r, params', s', tr)"
  shows "abs_of s' = snd (abs_invoke env cmd pt params (abs_of s))"
proof -
  note k = register_shared_key_abs [OF assms(1,2)]
    and m = register_message_abs [OF assms(1,2)]
    and o = register_output_abs [OF assms(1,2)]
  from invoke_cases [OF assms(3)] show ?thesis
    by (auto simp: abs_invoke_def cmd_defs split: option.splits dest!: k m o cmd_above_3)
qed

text \<open>The reply of one invocation is the abstract reply.\<close>

lemma invoke_abs_reply:
  assumes "ta_inv s" "invocation_ok mac0 params" "crypto_wf env"
    "TA_InvokeCommandEntryPoint env mac0 sess cmd pt params s = (r, params', s', tr)"
  shows "reply_matches (fst (abs_invoke env cmd pt params (abs_of s))) r params'"
proof -
  have wf: "memref_wf (params ! 0)" "length mac0 = 20" "params \<noteq> []"
    using assms(2) by (auto simp: invocation_ok_def)
  note k = register_shared_key_abs [OF assms(1) wf(1)]
    and m = register_message_abs [OF assms(1) wf(1)]
    and o = register_output_abs [OF assms(1) wf(1)]
    and g = get_hmac_abs [OF assms(1,3) wf(2,3)]
  from invoke_cases [OF assms(4)] show ?thesis
    by (auto simp: abs_invoke_def cmd_defs split: option.splits dest!: k m o g cmd_above_3)
qed

end
