(* ===== verification/HMAC_Log.thy ===== *)
theory HMAC_Log
  imports HMAC_Spec
begin

text \<open>
  The debug and error output of the TA (\<open>DMSG\<close> and \<open>EMSG\<close> in
  \<^verbatim>\<open>hmac_ta.c\<close>). Logging changes neither the state nor the results, so it
  is modelled beside the handlers: for each handler, the list of log entries
  one invocation writes, following the handler's control flow. A \<open>%s\<close>
  argument is read as a C string: the bytes up to the first zero byte, or
  \<open>None\<close> when the array holds no zero byte and the read runs past its end.
\<close>

datatype log_entry =
    LogExpected u32 u32
  | LogGot string "byte list option" u32
  | LogError u32

definition c_str :: "byte list \<Rightarrow> byte list option" where
  "c_str arr = (if 0 \<in> set arr then Some (takeWhile (\<lambda>b. b \<noteq> 0) arr) else None)"

section \<open>Log of each handler\<close>

text \<open>\<open>EMSG("0x%08x", res)\<close> after each of the four services that fail (lines 72--103).\<close>

definition hmac_sha1_log ::
  "tee_crypto \<Rightarrow> byte list \<Rightarrow> u32 \<Rightarrow> byte list option \<Rightarrow> byte list option \<Rightarrow> u32 option
   \<Rightarrow> log_entry list" where
  "hmac_sha1_log env key keylen inp out outlen =
     (if unat keylen < MIN_KEY_SIZE \<or> unat keylen > MAX_KEY_SIZE then []
      else case (inp, out, outlen) of
        (Some _, Some _, Some _) \<Rightarrow>
          (let res = alloc_operation_res env (keylen * 8) in
           if res \<noteq> TEE_SUCCESS then [LogError res]
           else let res = alloc_transient_res env (keylen * 8) in
           if res \<noteq> TEE_SUCCESS then [LogError res]
           else let res = populate_res env (take (unat keylen) key) in
           if res \<noteq> TEE_SUCCESS then [LogError res]
           else let res = set_key_res env in
           if res \<noteq> TEE_SUCCESS then [LogError res] else [])
      | _ \<Rightarrow> [])"

text \<open>
  \<open>EMSG("Expected: 0x%x, got: 0x%x", ...)\<close> on a wrong descriptor, nothing on
  an oversize buffer, and \<open>DMSG("Got shared key %s (%u bytes).", K, size)\<close>
  after the copy (lines 130--142); likewise for the message and the output.
\<close>

definition register_shared_key_log :: "u32 \<Rightarrow> tee_param list \<Rightarrow> ta_state \<Rightarrow> log_entry list" where
  "register_shared_key_log param_types params s =
     (if param_types \<noteq> exp_memref_input then [LogExpected exp_memref_input param_types]
      else if unat (memref_size (params ! 0)) > MAX_KEY_SIZE then []
      else [LogGot ''shared key'' (c_str (K (snd (register_shared_key param_types params s))))
              (memref_size (params ! 0))])"

definition register_message_log :: "u32 \<Rightarrow> tee_param list \<Rightarrow> ta_state \<Rightarrow> log_entry list" where
  "register_message_log param_types params s =
     (if param_types \<noteq> exp_memref_input then [LogExpected exp_memref_input param_types]
      else if unat (memref_size (params ! 0)) > MAX_MESSAGE_SIZE then []
      else [LogGot ''message'' (c_str (input (snd (register_message param_types params s))))
              (memref_size (params ! 0))])"

definition register_output_log :: "u32 \<Rightarrow> tee_param list \<Rightarrow> ta_state \<Rightarrow> log_entry list" where
  "register_output_log param_types params s =
     (if param_types \<noteq> exp_memref_input then [LogExpected exp_memref_input param_types]
      else if unat (memref_size (params ! 0)) > SHA1_HASH_SIZE then []
      else [LogGot ''output'' (c_str (output_buf (snd (register_output param_types params s))))
              (memref_size (params ! 0))])"

definition get_hmac_log :: "tee_crypto \<Rightarrow> byte list \<Rightarrow> u32 \<Rightarrow> ta_state \<Rightarrow> log_entry list" where
  "get_hmac_log env mac0 param_types s =
     (if param_types \<noteq> exp_value_output then [LogExpected exp_value_output param_types]
      else hmac_sha1_log env (K s) (K_len s) (Some (input s)) (Some mac0) (Some (of_nat SHA1_HASH_SIZE)))"

definition invoke_log ::
  "tee_crypto \<Rightarrow> byte list \<Rightarrow> u32 \<Rightarrow> u32 \<Rightarrow> tee_param list \<Rightarrow> ta_state \<Rightarrow> log_entry list" where
  "invoke_log env mac0 cmd_id param_types params s =
     (if cmd_id = TA_HMAC_CMD_REGISTER_SHARED_KEY then register_shared_key_log param_types params s
      else if cmd_id = TA_HMAC_CMD_REGISTER_MESSAGE then register_message_log param_types params s
      else if cmd_id = TA_HMAC_CMD_REGISTER_OUTPUT then register_output_log param_types params s
      else if cmd_id = TA_HMAC_CMD_GET_HMAC then get_hmac_log env mac0 param_types s
      else [])"

section \<open>Lemmas\<close>

text \<open>\<open>%s\<close> on a zero-padded array stops at the first zero byte of the value or of the padding.\<close>

lemma takeWhile_nonzero_append:
  "0 \<notin> set xs \<Longrightarrow> takeWhile (\<lambda>b. b \<noteq> 0) (xs @ ys) = xs @ takeWhile (\<lambda>b. b \<noteq> 0) ys"
  by (induction xs) auto

lemma c_str_padded:
  "c_str (xs @ replicate m 0) =
     (if 0 < m \<or> 0 \<in> set xs then Some (takeWhile (\<lambda>b. b \<noteq> 0) xs) else None)"
proof (cases "0 \<in> set xs")
  case True
  then show ?thesis by (simp add: c_str_def takeWhile_append1 [OF True])
next
  case False
  then have tw: "takeWhile (\<lambda>b. b \<noteq> 0) xs = xs" by (induction xs) auto
  from False show ?thesis
    by (cases m) (simp_all add: c_str_def takeWhile_nonzero_append tw)
qed

section \<open>Properties of the log\<close>

text \<open>
  C35. The secret key goes to the debug log: every accepted key registration
  writes the stored key with \<open>%s\<close>, which prints the key bytes up to the first
  zero byte (all of them for a key with no zero byte shorter than 64 bytes);
  for a 64-byte key with no zero byte the read runs past the end of \<open>K\<close>
  (\<open>None\<close>).
\<close>

theorem register_key_logged:
  assumes "ta_inv s" "memref_wf (params ! 0)" "unat (memref_size (params ! 0)) \<le> MAX_KEY_SIZE"
  shows "register_shared_key_log exp_memref_input params s =
           [LogGot ''shared key''
              (if unat (memref_size (params ! 0)) < MAX_KEY_SIZE \<or>
                  0 \<in> set (take (unat (memref_size (params ! 0))) (memref_buffer (params ! 0)))
               then Some (takeWhile (\<lambda>b. b \<noteq> 0)
                            (take (unat (memref_size (params ! 0))) (memref_buffer (params ! 0))))
               else None)
              (memref_size (params ! 0))]"
  using assms(3) register_key_state [OF assms]
  by (simp add: register_shared_key_log_def c_str_padded size_defs del: exp_memref_input_val)

theorem register_key_logged_witness:
  "ta_inv ta_init \<and>
   memref_wf (replicate 4 \<lparr>memref_buffer = replicate 10 0x41, memref_size = 10, value_a = 0, value_b = 0\<rparr> ! 0) \<and>
   unat (memref_size (replicate 4 \<lparr>memref_buffer = replicate 10 (0x41::byte), memref_size = 10, value_a = 0, value_b = 0\<rparr> ! 0)) \<le> MAX_KEY_SIZE \<and>
   register_shared_key_log exp_memref_input
     (replicate 4 \<lparr>memref_buffer = replicate 10 0x41, memref_size = 10, value_a = 0, value_b = 0\<rparr>) ta_init =
   [LogGot ''shared key'' (Some (replicate 10 0x41)) 10]"
  using register_key_logged [of ta_init
      "replicate 4 \<lparr>memref_buffer = replicate 10 0x41, memref_size = 10, value_a = 0, value_b = 0\<rparr>"]
  by (simp add: witness_simps memref_wf_def)

text \<open>
  C33. The message and the expected output are printed the same way: an
  accepted \<open>REGISTER_MESSAGE\<close> or \<open>REGISTER_OUTPUT\<close> logs the stored bytes up
  to the first zero byte, and when the value fills its array without a zero
  byte (64 message bytes, or 20 bytes of expected output) the \<open>%s\<close> read runs
  past the end of the array (\<open>None\<close>). A 20-byte tag, the normal expected
  output, contains no zero byte with probability about 0.92, so the
  \<open>DMSG\<close> of \<open>register_output\<close> usually reads past \<open>output\<close>.
\<close>

theorem register_msg_out_logged:
  assumes "ta_inv s" "memref_wf (params ! 0)"
  shows "(unat (memref_size (params ! 0)) \<le> MAX_MESSAGE_SIZE \<longrightarrow>
          register_message_log exp_memref_input params s =
           [LogGot ''message''
              (if unat (memref_size (params ! 0)) < MAX_MESSAGE_SIZE \<or>
                  0 \<in> set (take (unat (memref_size (params ! 0))) (memref_buffer (params ! 0)))
               then Some (takeWhile (\<lambda>b. b \<noteq> 0)
                            (take (unat (memref_size (params ! 0))) (memref_buffer (params ! 0))))
               else None)
              (memref_size (params ! 0))]) \<and>
         (unat (memref_size (params ! 0)) \<le> SHA1_HASH_SIZE \<longrightarrow>
          register_output_log exp_memref_input params s =
           [LogGot ''output''
              (if unat (memref_size (params ! 0)) < SHA1_HASH_SIZE \<or>
                  0 \<in> set (take (unat (memref_size (params ! 0))) (memref_buffer (params ! 0)))
               then Some (takeWhile (\<lambda>b. b \<noteq> 0)
                            (take (unat (memref_size (params ! 0))) (memref_buffer (params ! 0))))
               else None)
              (memref_size (params ! 0))])"
  using register_message_state [OF assms] register_output_state [OF assms]
  by (simp add: register_message_log_def register_output_log_def c_str_padded size_defs
      del: exp_memref_input_val)

theorem register_msg_out_logged_witness:
  "ta_inv ta_init \<and> memref_wf ((replicate 4 \<lparr>memref_buffer = replicate 20 0x41, memref_size = 20, value_a = 0, value_b = 0\<rparr>) ! 0) \<and>
   register_message_log exp_memref_input (replicate 4 \<lparr>memref_buffer = replicate 20 0x41, memref_size = 20, value_a = 0, value_b = 0\<rparr>) ta_init =
     [LogGot ''message'' (Some (replicate 20 0x41)) 20] \<and>
   register_output_log exp_memref_input (replicate 4 \<lparr>memref_buffer = replicate 20 0x41, memref_size = 20, value_a = 0, value_b = 0\<rparr>) ta_init = [LogGot ''output'' None 20]"
  using register_msg_out_logged [of ta_init "replicate 4 \<lparr>memref_buffer = replicate 20 0x41, memref_size = 20, value_a = 0, value_b = 0\<rparr>"]
  by (simp add: witness_simps memref_wf_def)

text \<open>
  C37. The error log of \<open>GET_HMAC\<close> tells the same story as its result: a
  wrong descriptor is logged with the expected and received descriptors; when
  the key length is accepted and the call does not succeed, exactly one
  \<open>EMSG\<close> reports the very code the client receives; a successful call and
  a key of unaccepted length (rejected with \<open>TEE_ERROR_BAD_PARAMETERS\<close>)
  leave no trace in the log.
\<close>

theorem get_hmac_log_errors:
  "get_hmac_log env mac0 pt s =
     (if pt \<noteq> exp_value_output then [LogExpected exp_value_output pt]
      else if key_len_ok (K_len s) \<and> fst (get_hmac env mac0 pt params s) \<noteq> TEE_SUCCESS
      then [LogError (fst (get_hmac env mac0 pt params s))]
      else [])"
  by (auto simp: get_hmac_log_def hmac_sha1_log_def get_hmac_code hmac_sha1_code service_results_def
      key_len_ok_def TEE_MACComputeFinal_def Let_def size_defs)

end
