(* ===== verification/Host_Client.thy ===== *)
theory Host_Client
  imports HMAC_Log
begin

text \<open>
  The host program \<^verbatim>\<open>src/mac_sha1/host/main.c\<close>: the test vectors it
  sends (lines 19--42) and \<open>main\<close> (lines 44--128) as \<open>host_io\<close>, which sets
  up the context (its result comes from the client library), opens a session
  to the TA, prints each test vector and registers it, asks for the verdict
  and prints it, stopping at the first failure; \<open>host_main\<close> is the same run
  without the printed lines. The client library (\<open>TEEC_*\<close>, from
  optee_client, not in this repository) is modelled from its specification:
  a \<open>TEEC_Operation\<close> carries the same parameter-type encoding and parameters
  as the TA receives, and \<open>TEEC_InvokeCommand\<close> runs
  \<open>TA_InvokeCommandEntryPoint\<close> on the shared TA state. The \<open>goto exit\<close>
  statements of the C code name a label the function does not define; the
  model follows the evident intent (leave at the first failure).
\<close>

section \<open>Test vectors\<close>

definition mac_data_sha1_key1 :: "byte list" where
  "mac_data_sha1_key1 = [0x6B, 0x65, 0x79, 0x6B, 0x65, 0x79, 0x6B, 0x65, 0x79, 0x6B]"

definition mac_data_sha1_in1 :: "byte list" where
  "mac_data_sha1_in1 =
     [0x54, 0x68, 0x65, 0x20, 0x71, 0x75, 0x69, 0x63,
      0x6B, 0x20, 0x62, 0x72, 0x6F, 0x77, 0x6E, 0x20,
      0x66, 0x6F, 0x78, 0x20, 0x6A, 0x75, 0x6D, 0x70,
      0x73, 0x20, 0x6F, 0x76, 0x65, 0x72, 0x20, 0x74,
      0x68, 0x65, 0x20, 0x6C, 0x61, 0x7A, 0x79, 0x20,
      0x64, 0x6F, 0x67]"

definition mac_data_sha1_out1 :: "byte list" where
  "mac_data_sha1_out1 =
     [0xE4, 0x2E, 0x20, 0x42, 0x73, 0xDE, 0x8A, 0xFC,
      0x9E, 0x19, 0x80, 0x5B, 0x8A, 0xC4, 0xBA, 0xFC,
      0xFB, 0x51, 0x85, 0x86]"

section \<open>The client library\<close>

definition TEEC_SUCCESS :: u32 where "TEEC_SUCCESS = 0"
definition TEEC_NONE :: u32 where "TEEC_NONE = 0"
definition TEEC_VALUE_OUTPUT :: u32 where "TEEC_VALUE_OUTPUT = 2"
definition TEEC_MEMREF_TEMP_INPUT :: u32 where "TEEC_MEMREF_TEMP_INPUT = 5"

text \<open>\<open>TEEC_PARAM_TYPES\<close> packs four nibbles exactly as \<open>TEE_PARAM_TYPES\<close> does.\<close>

definition TEEC_PARAM_TYPES :: "u32 \<Rightarrow> u32 \<Rightarrow> u32 \<Rightarrow> u32 \<Rightarrow> u32" where
  "TEEC_PARAM_TYPES = TEE_PARAM_TYPES"

text \<open>\<open>TEEC_Operation op = { 0 }\<close>: four zeroed parameters.\<close>

definition teec_param_zero :: tee_param where
  "teec_param_zero = \<lparr>memref_buffer = [], memref_size = 0, value_a = 0, value_b = 0\<rparr>"

text \<open>\<open>op.params[0].tmpref.buffer = buf; op.params[0].tmpref.size = sizeof(buf);\<close>\<close>

definition set_tmpref :: "tee_param \<Rightarrow> byte list \<Rightarrow> tee_param" where
  "set_tmpref p buf = p\<lparr>memref_buffer := buf, memref_size := of_nat (length buf)\<rparr>"

definition TEEC_InvokeCommand ::
  "tee_crypto \<Rightarrow> byte list \<Rightarrow> u32 \<Rightarrow> u32 \<Rightarrow> tee_param list \<Rightarrow> ta_state
   \<Rightarrow> u32 \<times> tee_param list \<times> ta_state" where
  "TEEC_InvokeCommand env mac0 cmd pt op s =
     (case TA_InvokeCommandEntryPoint env mac0 0 cmd pt op s of (r, op', s', _) \<Rightarrow> (r, op', s'))"

section \<open>main\<close>

datatype host_outcome =
    ContextFailed u32
  | OpenSessionFailed u32
  | InvokeFailed u32
  | PrintedHmac u32

text \<open>
  What \<open>main\<close> writes: \<open>fprintf(stdout, "...%s\n", vector)\<close> before each
  registration, with the vector read as a C string (\<open>c_str\<close>: \<open>None\<close> when the
  read runs past the array); \<open>fprintf(stderr, "TEEC_InvokeCommand failed with
  code 0x%x origin 0x%x\n", ...)\<close> on a failed invocation (the origin is not
  modelled); \<open>"HMAC: %d\n"\<close> with the verdict; \<open>errx(1, ...)\<close>, which prints
  and exits, when the context or the session cannot be set up.
\<close>

datatype host_line =
    StdOut string "byte list option"
  | StdErr u32
  | PrintHmac u32
  | ErrExit string u32

text \<open>
  \<open>main\<close> from \<open>TEEC_InitializeContext\<close>, whose result comes from the client
  library (\<open>ctx_res\<close>), to \<open>return 0\<close>: the outcome, the TA state and the
  lines printed, in order.
\<close>

definition host_io ::
  "tee_crypto \<Rightarrow> byte list \<Rightarrow> u32 \<Rightarrow> ta_state \<Rightarrow> host_outcome \<times> ta_state \<times> host_line list" where
  "host_io env mac0 ctx_res s =
     (if ctx_res \<noteq> TEEC_SUCCESS
      then (ContextFailed ctx_res, s, [ErrExit ''TEEC_InitializeContext failed with code'' ctx_res])
      else
      let res = TA_OpenSessionEntryPoint (TEEC_PARAM_TYPES TEEC_NONE TEEC_NONE TEEC_NONE TEEC_NONE) in
      if res \<noteq> TEEC_SUCCESS
      then (OpenSessionFailed res, s, [ErrExit ''TEEC_Opensession failed with code'' res])
      else
      let op = replicate 4 teec_param_zero;
          pt = TEEC_PARAM_TYPES TEEC_MEMREF_TEMP_INPUT TEEC_NONE TEEC_NONE TEEC_NONE;
          op = op[0 := set_tmpref (op ! 0) mac_data_sha1_key1];
          out = [StdOut ''Register the shared key: '' (c_str mac_data_sha1_key1)];
          (res, op, s) = TEEC_InvokeCommand env mac0 TA_HMAC_CMD_REGISTER_SHARED_KEY pt op s in
      if res \<noteq> TEEC_SUCCESS then (InvokeFailed res, s, out @ [StdErr res])
      else
      let op = op[0 := set_tmpref (op ! 0) mac_data_sha1_in1];
          out = out @ [StdOut ''Register the message: '' (c_str mac_data_sha1_in1)];
          (res, op, s) = TEEC_InvokeCommand env mac0 TA_HMAC_CMD_REGISTER_MESSAGE pt op s in
      if res \<noteq> TEEC_SUCCESS then (InvokeFailed res, s, out @ [StdErr res])
      else
      let op = op[0 := set_tmpref (op ! 0) mac_data_sha1_out1];
          out = out @ [StdOut ''Register the output: '' (c_str mac_data_sha1_out1)];
          (res, op, s) = TEEC_InvokeCommand env mac0 TA_HMAC_CMD_REGISTER_OUTPUT pt op s in
      if res \<noteq> TEEC_SUCCESS then (InvokeFailed res, s, out @ [StdErr res])
      else
      let pt = TEEC_PARAM_TYPES TEEC_VALUE_OUTPUT TEEC_NONE TEEC_NONE TEEC_NONE;
          (res, op, s) = TEEC_InvokeCommand env mac0 TA_HMAC_CMD_GET_HMAC pt op s in
      if res \<noteq> TEEC_SUCCESS then (InvokeFailed res, s, out @ [StdErr res])
      else (PrintedHmac (value_a (op ! 0)), s, out @ [PrintHmac (value_a (op ! 0))]))"

text \<open>\<open>main\<close> once the context is set up, without what it prints.\<close>

definition host_main :: "tee_crypto \<Rightarrow> byte list \<Rightarrow> ta_state \<Rightarrow> host_outcome \<times> ta_state" where
  "host_main env mac0 s = (case host_io env mac0 TEEC_SUCCESS s of (res, s', _) \<Rightarrow> (res, s'))"

text \<open>The TA state after the three registrations of \<open>main\<close>.\<close>

definition host_registered :: "ta_state \<Rightarrow> ta_state" where
  "host_registered s =
     s\<lparr>K := mac_data_sha1_key1 @ replicate 54 0, K_len := 10,
       input := mac_data_sha1_in1 @ replicate 21 0, input_len := 43,
       output_buf := mac_data_sha1_out1, output_len := 20\<rparr>"

text \<open>The three lines \<open>main\<close> prints before its registrations, each \<open>%s\<close> past its vector.\<close>

definition vector_lines :: "host_line list" where
  "vector_lines = [StdOut ''Register the shared key: '' None, StdOut ''Register the message: '' None,
                   StdOut ''Register the output: '' None]"

section \<open>Lemmas\<close>

lemma test_vector_lengths [simp]:
  "length mac_data_sha1_key1 = 10" "length mac_data_sha1_in1 = 43" "length mac_data_sha1_out1 = 20"
  by (simp_all add: mac_data_sha1_key1_def mac_data_sha1_in1_def mac_data_sha1_out1_def)

lemma host_registered_inv: "ta_inv (host_registered s)"
  by (simp add: host_registered_def ta_inv_def slot_ok_def zero_padded_iff_drop size_defs)

lemma host_registered_stored:
  "stored_key (host_registered s) = mac_data_sha1_key1"
  "stored_message (host_registered s) = mac_data_sha1_in1"
  "stored_output (host_registered s) = mac_data_sha1_out1"
  "K_len (host_registered s) = 10"
  "take 10 (K (host_registered s)) = mac_data_sha1_key1"
  by (simp_all add: host_registered_def stored_defs)

text \<open>No test vector holds a zero byte: \<open>%s\<close> reads past each of them.\<close>

lemma c_str_vectors [simp]:
  "c_str mac_data_sha1_key1 = None" "c_str mac_data_sha1_in1 = None" "c_str mac_data_sha1_out1 = None"
  by (simp_all add: c_str_def mac_data_sha1_key1_def mac_data_sha1_in1_def mac_data_sha1_out1_def)

lemma replicate_four: "replicate 4 x = [x, x, x, x]"
  by (simp add: numeral_eq_Suc)

text \<open>
  The three registrations of \<open>main\<close> succeed from any well-formed state and
  leave \<open>host_registered\<close>; what remains is the \<open>GET_HMAC\<close> invocation.
\<close>

lemma host_io_registers:
  assumes "ta_inv s"
  shows "host_io env mac0 TEEC_SUCCESS s =
           (case TEEC_InvokeCommand env mac0 TA_HMAC_CMD_GET_HMAC 2
                   [set_tmpref teec_param_zero mac_data_sha1_out1, teec_param_zero, teec_param_zero,
                    teec_param_zero] (host_registered s) of
              (res, op, s') \<Rightarrow>
                if res \<noteq> TEEC_SUCCESS
                then (InvokeFailed res, s', vector_lines @ [StdErr res])
                else (PrintedHmac (value_a (op ! 0)), s', vector_lines @ [PrintHmac (value_a (op ! 0))]))"
  using ta_inv_lengths [OF assms]
  by (simp add: host_io_def TEEC_InvokeCommand_def TA_InvokeCommandEntryPoint_def cmd_defs
      register_shared_key_cases register_message_cases register_output_cases set_tmpref_def
      memcpy_memset_store TEEC_PARAM_TYPES_def TA_OpenSessionEntryPoint_def TEE_PARAM_TYPES_def
      param_type_defs TEEC_SUCCESS_def TEEC_NONE_def TEEC_MEMREF_TEMP_INPUT_def TEEC_VALUE_OUTPUT_def
      host_registered_def teec_param_zero_def tee_result_defs replicate_four vector_lines_def Let_def
      prod.case_eq_if)

lemma host_main_registers:
  assumes "ta_inv s"
  shows "host_main env mac0 s =
           (case TEEC_InvokeCommand env mac0 TA_HMAC_CMD_GET_HMAC 2
                   [set_tmpref teec_param_zero mac_data_sha1_out1, teec_param_zero, teec_param_zero,
                    teec_param_zero] (host_registered s) of
              (res, op, s') \<Rightarrow>
                if res \<noteq> TEEC_SUCCESS then (InvokeFailed res, s') else (PrintedHmac (value_a (op ! 0)), s'))"
  by (simp add: host_main_def host_io_registers [OF assms] prod.case_eq_if)

section \<open>Properties of the host program\<close>

text \<open>
  C36. What the host program prints: from any well-formed TA state, once the
  context is set up, \<open>main\<close> prints the three registration lines, in order,
  each passing a test vector that holds no zero byte to \<open>%s\<close>, so that
  \<open>fprintf\<close> reads past the end of the array every time (\<open>None\<close>); then
  either \<open>"HMAC: %d"\<close> with the verdict or the error of the failed
  \<open>GET_HMAC\<close>, and nothing else.
\<close>

theorem host_io_output:
  assumes "ta_inv s"
  shows "snd (snd (host_io env mac0 TEEC_SUCCESS s)) =
           [StdOut ''Register the shared key: '' None, StdOut ''Register the message: '' None,
            StdOut ''Register the output: '' None] @
           (case fst (host_io env mac0 TEEC_SUCCESS s) of
              PrintedHmac v \<Rightarrow> [PrintHmac v]
            | InvokeFailed r \<Rightarrow> [StdErr r]
            | _ \<Rightarrow> [])"
  by (simp add: host_io_registers [OF assms] vector_lines_def prod.case_eq_if)

theorem host_io_output_witness:
  "ta_inv ta_init \<and>
   fst (host_io \<lparr>alloc_operation_res = \<lambda>_. 0, alloc_transient_res = \<lambda>_. 0xFFFF000C, populate_res = \<lambda>_. 0,
            set_key_res = 0, hmac_fn = \<lambda>k m. mac_data_sha1_out1\<rparr> (replicate 20 0) TEEC_SUCCESS ta_init) = InvokeFailed 0xFFFF000C \<and>
   snd (snd (host_io \<lparr>alloc_operation_res = \<lambda>_. 0, alloc_transient_res = \<lambda>_. 0xFFFF000C, populate_res = \<lambda>_. 0,
            set_key_res = 0, hmac_fn = \<lambda>k m. mac_data_sha1_out1\<rparr> (replicate 20 0) TEEC_SUCCESS ta_init)) =
   [StdOut ''Register the shared key: '' None, StdOut ''Register the message: '' None,
    StdOut ''Register the output: '' None, StdErr 0xFFFF000C]"
proof -
  have f: "fst (host_io \<lparr>alloc_operation_res = \<lambda>_. 0, alloc_transient_res = \<lambda>_. 0xFFFF000C, populate_res = \<lambda>_. 0,
            set_key_res = 0, hmac_fn = \<lambda>k m. mac_data_sha1_out1\<rparr> (replicate 20 0) TEEC_SUCCESS ta_init) = InvokeFailed 0xFFFF000C"
    unfolding host_io_registers [OF ta_init_inv]
    by (simp add: TEEC_InvokeCommand_def TA_InvokeCommandEntryPoint_def
        cmd_defs prod.case_eq_if get_hmac_code hmac_sha1_code host_registered_def key_len_ok_def
        size_defs service_results_def TEEC_SUCCESS_def tee_result_defs)
  show ?thesis
    using host_io_output [of ta_init "\<lparr>alloc_operation_res = \<lambda>_. 0, alloc_transient_res = \<lambda>_. 0xFFFF000C, populate_res = \<lambda>_. 0,
            set_key_res = 0, hmac_fn = \<lambda>k m. mac_data_sha1_out1\<rparr>" "replicate 20 0"] f ta_init_inv by simp
qed

end
