(* ===== verification/HMAC_Schedule.thy ===== *)
theory HMAC_Schedule
  imports HMAC_Spec
begin

text \<open>
  Several clients talking to the TA at once. The TEE core serialises
  invocations (the spec: single-threaded, each invocation runs to completion),
  so a concurrent execution is a schedule: a list of invocations, each tagged
  with the session it comes from, in the order the core delivers them.
  \<open>ta_run\<close> runs a schedule through \<open>TA_InvokeCommandEntryPoint\<close> and collects
  what each invocation returns to its client; \<open>abs_run\<close> runs it through the
  abstract service of \<open>HMAC_Spec\<close>. The dispatch loop of the TEE core is not
  code of this repository; it is modelled from the spec.
\<close>

record invocation =
  inv_sess :: sess_ctx
  inv_cmd :: u32
  inv_pt :: u32
  inv_params :: "tee_param list"
  inv_mac :: "byte list"

text \<open>What the TEE core delivers with each invocation of the schedule.\<close>

definition schedule_ok :: "invocation list \<Rightarrow> bool" where
  "schedule_ok ivs \<longleftrightarrow> list_all (\<lambda>i. invocation_ok (inv_mac i) (inv_params i)) ivs"

fun ta_run :: "tee_crypto \<Rightarrow> invocation list \<Rightarrow> ta_state \<Rightarrow> (u32 \<times> tee_param list) list \<times> ta_state"
  where
  "ta_run env [] s = ([], s)"
| "ta_run env (i # ivs) s =
     (case TA_InvokeCommandEntryPoint env (inv_mac i) (inv_sess i) (inv_cmd i) (inv_pt i)
             (inv_params i) s of
        (r, params', s', _) \<Rightarrow> (case ta_run env ivs s' of (outs, s'') \<Rightarrow> ((r, params') # outs, s'')))"

fun abs_run :: "tee_crypto \<Rightarrow> invocation list \<Rightarrow> abs_store \<Rightarrow> abs_reply list \<times> abs_store" where
  "abs_run env [] a = ([], a)"
| "abs_run env (i # ivs) a =
     (case abs_invoke env (inv_cmd i) (inv_pt i) (inv_params i) a of
        (rep, a') \<Rightarrow> (case abs_run env ivs a' of (reps, a'') \<Rightarrow> (rep # reps, a'')))"

text \<open>Each client's view: the replies matched pairwise with what the TA returned.\<close>

definition replies_match :: "abs_reply list \<Rightarrow> (u32 \<times> tee_param list) list \<Rightarrow> bool" where
  "replies_match reps outs = list_all2 (\<lambda>rep (r, p). reply_matches rep r p) reps outs"

section \<open>Properties of schedules\<close>

text \<open>
  C26. Refinement under interleaving: for every schedule of well-formed
  invocations from any number of sessions, run from a well-formed state, each
  client receives exactly the reply the abstract service gives at that point
  of the schedule, the final state reads as the abstract final store, and the
  invariant holds at the end. A client therefore observes every register
  command other sessions slip in before its \<open>GET_HMAC\<close> (the witness: a key
  overwritten by a second session turns the first session's match into a
  mismatch).
\<close>

theorem ta_run_refines:
  assumes "ta_inv s" "schedule_ok ivs" "crypto_wf env"
  shows "replies_match (fst (abs_run env ivs (abs_of s))) (fst (ta_run env ivs s)) \<and>
         abs_of (snd (ta_run env ivs s)) = snd (abs_run env ivs (abs_of s)) \<and>
         ta_inv (snd (ta_run env ivs s))"
  using assms(1,2)
proof (induction ivs arbitrary: s)
  case Nil
  then show ?case by (simp add: replies_match_def)
next
  case (Cons i ivs)
  obtain r p' s' tr where inv:
    "TA_InvokeCommandEntryPoint env (inv_mac i) (inv_sess i) (inv_cmd i) (inv_pt i) (inv_params i) s
       = (r, p', s', tr)"
    by (rule prod_cases4)
  have ok: "invocation_ok (inv_mac i) (inv_params i)" "schedule_ok ivs"
    using Cons.prems(2) by (simp_all add: schedule_ok_def)
  have wf: "memref_wf (inv_params i ! 0)" using ok(1) by (simp add: invocation_ok_def)
  have rep: "reply_matches (fst (abs_invoke env (inv_cmd i) (inv_pt i) (inv_params i) (abs_of s))) r p'"
    by (rule invoke_abs_reply [OF Cons.prems(1) ok(1) assms(3) inv])
  have st: "abs_of s' = snd (abs_invoke env (inv_cmd i) (inv_pt i) (inv_params i) (abs_of s))"
    by (rule invoke_abs_store [OF Cons.prems(1) wf inv])
  have i': "ta_inv s'" by (rule ta_step_inv [OF ta_step.invoke [OF ok(1) inv] Cons.prems(1)])
  note IH = Cons.IH [OF i' ok(2)]
  obtain rep a' where ab: "abs_invoke env (inv_cmd i) (inv_pt i) (inv_params i) (abs_of s) = (rep, a')"
    by (rule prod.exhaust)
  obtain reps a'' where ar: "abs_run env ivs a' = (reps, a'')" by (rule prod.exhaust)
  obtain outs s'' where tr: "ta_run env ivs s' = (outs, s'')" by (rule prod.exhaust)
  show ?case
    using IH rep st inv ab ar tr by (simp add: replies_match_def)
qed


theorem ta_run_refines_witness:
  "ta_inv ta_init \<and> schedule_ok [\<lparr>inv_sess = 1, inv_cmd = 0, inv_pt = 5, inv_params = (replicate 4 \<lparr>memref_buffer = replicate 10 1, memref_size = 10, value_a = 0, value_b = 0\<rparr>), inv_mac = replicate 20 0\<rparr>,
      \<lparr>inv_sess = 1, inv_cmd = 2, inv_pt = 5, inv_params = (replicate 4 \<lparr>memref_buffer = replicate 20 1, memref_size = 20, value_a = 0, value_b = 0\<rparr>), inv_mac = replicate 20 0\<rparr>,
      \<lparr>inv_sess = 2, inv_cmd = 0, inv_pt = 5, inv_params = (replicate 4 \<lparr>memref_buffer = replicate 10 2, memref_size = 10, value_a = 0, value_b = 0\<rparr>), inv_mac = replicate 20 0\<rparr>,
      \<lparr>inv_sess = 1, inv_cmd = 3, inv_pt = 2, inv_params = (replicate 4 \<lparr>memref_buffer = [], memref_size = 0, value_a = 0, value_b = 0\<rparr>), inv_mac = replicate 20 0\<rparr>] \<and>
   crypto_wf \<lparr>alloc_operation_res = \<lambda>_. 0, alloc_transient_res = \<lambda>_. 0, populate_res = \<lambda>_. 0,
     set_key_res = 0, hmac_fn = \<lambda>k m. if k = replicate 10 1 then replicate 20 1 else replicate 20 2\<rparr> \<and>
   fst (abs_run \<lparr>alloc_operation_res = \<lambda>_. 0, alloc_transient_res = \<lambda>_. 0, populate_res = \<lambda>_. 0,
     set_key_res = 0, hmac_fn = \<lambda>k m. if k = replicate 10 1 then replicate 20 1 else replicate 20 2\<rparr> [\<lparr>inv_sess = 1, inv_cmd = 0, inv_pt = 5, inv_params = (replicate 4 \<lparr>memref_buffer = replicate 10 1, memref_size = 10, value_a = 0, value_b = 0\<rparr>), inv_mac = replicate 20 0\<rparr>,
      \<lparr>inv_sess = 1, inv_cmd = 2, inv_pt = 5, inv_params = (replicate 4 \<lparr>memref_buffer = replicate 20 1, memref_size = 20, value_a = 0, value_b = 0\<rparr>), inv_mac = replicate 20 0\<rparr>,
      \<lparr>inv_sess = 2, inv_cmd = 0, inv_pt = 5, inv_params = (replicate 4 \<lparr>memref_buffer = replicate 10 2, memref_size = 10, value_a = 0, value_b = 0\<rparr>), inv_mac = replicate 20 0\<rparr>,
      \<lparr>inv_sess = 1, inv_cmd = 3, inv_pt = 2, inv_params = (replicate 4 \<lparr>memref_buffer = [], memref_size = 0, value_a = 0, value_b = 0\<rparr>), inv_mac = replicate 20 0\<rparr>] (abs_of ta_init)) = [Accepted, Accepted, Accepted, Verdict False] \<and>
   replies_match [Accepted, Accepted, Accepted, Verdict False] (fst (ta_run \<lparr>alloc_operation_res = \<lambda>_. 0, alloc_transient_res = \<lambda>_. 0, populate_res = \<lambda>_. 0,
     set_key_res = 0, hmac_fn = \<lambda>k m. if k = replicate 10 1 then replicate 20 1 else replicate 20 2\<rparr> [\<lparr>inv_sess = 1, inv_cmd = 0, inv_pt = 5, inv_params = (replicate 4 \<lparr>memref_buffer = replicate 10 1, memref_size = 10, value_a = 0, value_b = 0\<rparr>), inv_mac = replicate 20 0\<rparr>,
      \<lparr>inv_sess = 1, inv_cmd = 2, inv_pt = 5, inv_params = (replicate 4 \<lparr>memref_buffer = replicate 20 1, memref_size = 20, value_a = 0, value_b = 0\<rparr>), inv_mac = replicate 20 0\<rparr>,
      \<lparr>inv_sess = 2, inv_cmd = 0, inv_pt = 5, inv_params = (replicate 4 \<lparr>memref_buffer = replicate 10 2, memref_size = 10, value_a = 0, value_b = 0\<rparr>), inv_mac = replicate 20 0\<rparr>,
      \<lparr>inv_sess = 1, inv_cmd = 3, inv_pt = 2, inv_params = (replicate 4 \<lparr>memref_buffer = [], memref_size = 0, value_a = 0, value_b = 0\<rparr>), inv_mac = replicate 20 0\<rparr>] ta_init))"
  using ta_run_refines [of ta_init "[\<lparr>inv_sess = 1, inv_cmd = 0, inv_pt = 5, inv_params = (replicate 4 \<lparr>memref_buffer = replicate 10 1, memref_size = 10, value_a = 0, value_b = 0\<rparr>), inv_mac = replicate 20 0\<rparr>,
      \<lparr>inv_sess = 1, inv_cmd = 2, inv_pt = 5, inv_params = (replicate 4 \<lparr>memref_buffer = replicate 20 1, memref_size = 20, value_a = 0, value_b = 0\<rparr>), inv_mac = replicate 20 0\<rparr>,
      \<lparr>inv_sess = 2, inv_cmd = 0, inv_pt = 5, inv_params = (replicate 4 \<lparr>memref_buffer = replicate 10 2, memref_size = 10, value_a = 0, value_b = 0\<rparr>), inv_mac = replicate 20 0\<rparr>,
      \<lparr>inv_sess = 1, inv_cmd = 3, inv_pt = 2, inv_params = (replicate 4 \<lparr>memref_buffer = [], memref_size = 0, value_a = 0, value_b = 0\<rparr>), inv_mac = replicate 20 0\<rparr>]" "\<lparr>alloc_operation_res = \<lambda>_. 0, alloc_transient_res = \<lambda>_. 0, populate_res = \<lambda>_. 0,
     set_key_res = 0, hmac_fn = \<lambda>k m. if k = replicate 10 1 then replicate 20 1 else replicate 20 2\<rparr>"]
  by (simp add: witness_simps schedule_ok_def invocation_ok_def memref_wf_def abs_of_def abs_invoke_def
      abs_accept_def abs_get_def service_results_def cmd_defs)

end
