(* ===== verification/HMAC_Lifecycle.thy ===== *)
theory HMAC_Lifecycle
  imports HMAC_Spec
begin

text \<open>
  The life of the TA instance around the invocations: the TEE core loads the
  TA on the first \<open>OpenSession\<close> for its UUID (the loader zero-fills the
  statics, then \<open>TA_CreateEntryPoint\<close> runs), opens and closes sessions
  through \<open>TA_OpenSessionEntryPoint\<close> and \<open>TA_CloseSessionEntryPoint\<close>,
  delivers invocations only on open sessions, and may unload the instance
  (\<open>TA_DestroyEntryPoint\<close>) once no session is left. The entry points and the
  UUID are the code of \<^verbatim>\<open>hmac_ta.c\<close> (lines 234--259) and \<^verbatim>\<open>hmac_ta.h\<close>
  (lines 15--17); the bookkeeping of the core (\<open>ta_instance\<close>, \<open>life_step\<close>)
  is modelled from the spec. \<open>life_step\<close> returns \<open>None\<close> for an event the
  core does not deliver (an invocation or a close on a session that is not
  open, an unload with sessions open).
\<close>

section \<open>The TA's identity and its remaining entry points\<close>

record tee_uuid =
  time_low :: u32
  time_mid :: "16 word"
  time_hi_and_version :: "16 word"
  clock_seq_and_node :: "byte list"

definition TA_HMAC_UUID :: tee_uuid where
  "TA_HMAC_UUID =
     \<lparr>time_low = 0x584d4143, time_mid = 0x2d53, time_hi_and_version = 0x4841,
      clock_seq_and_node = [0x31, 0x20, 0x4a, 0x6f, 0x63, 0x6b, 0x65, 0x42]\<rparr>"

text \<open>Both are \<open>void\<close> functions with an empty body: they leave the statics as they are.\<close>

definition TA_DestroyEntryPoint :: "ta_state \<Rightarrow> ta_state" where
  "TA_DestroyEntryPoint s = s"

definition TA_CloseSessionEntryPoint :: "sess_ctx \<Rightarrow> ta_state \<Rightarrow> ta_state" where
  "TA_CloseSessionEntryPoint sess s = s"

section \<open>The instance as the TEE core manages it\<close>

definition TEE_ERROR_ITEM_NOT_FOUND :: u32 where
  "TEE_ERROR_ITEM_NOT_FOUND = 0xFFFF0008"

record ta_instance =
  loaded :: bool
  sessions :: "sess_ctx list"
  statics :: ta_state

definition instance_init :: ta_instance where
  "instance_init = \<lparr>loaded = False, sessions = [], statics = ta_init\<rparr>"

datatype life_event =
    OpenSession tee_uuid u32 sess_ctx
  | Invoke sess_ctx u32 u32 "tee_param list" "byte list"
  | CloseSession sess_ctx
  | Unload

text \<open>
  Loading: a fresh instance has zero-filled statics and runs
  \<open>TA_CreateEntryPoint\<close>; an instance already loaded is reused as it is.
\<close>

definition ta_load :: "ta_instance \<Rightarrow> u32 \<times> ta_instance" where
  "ta_load inst =
     (if loaded inst then (TEE_SUCCESS, inst)
      else (TA_CreateEntryPoint, inst\<lparr>loaded := True, statics := ta_init\<rparr>))"

fun life_step ::
  "tee_crypto \<Rightarrow> ta_instance \<Rightarrow> life_event \<Rightarrow> (u32 \<times> tee_param list \<times> ta_instance) option" where
  "life_step env inst (OpenSession uuid pt sess) =
     (if sess \<in> set (sessions inst) then None
      else if uuid \<noteq> TA_HMAC_UUID then Some (TEE_ERROR_ITEM_NOT_FOUND, [], inst)
      else case ta_load inst of (r, inst') \<Rightarrow>
        if r \<noteq> TEE_SUCCESS then Some (r, [], inst')
        else let r = TA_OpenSessionEntryPoint pt in
          if r \<noteq> TEE_SUCCESS then Some (r, [], inst')
          else Some (TEE_SUCCESS, [], inst'\<lparr>sessions := sess # sessions inst'\<rparr>))"
| "life_step env inst (Invoke sess cmd pt params mac0) =
     (if sess \<notin> set (sessions inst) \<or> \<not> invocation_ok mac0 params then None
      else case TA_InvokeCommandEntryPoint env mac0 sess cmd pt params (statics inst) of
        (r, params', s', _) \<Rightarrow> Some (r, params', inst\<lparr>statics := s'\<rparr>))"
| "life_step env inst (CloseSession sess) =
     (if sess \<notin> set (sessions inst) then None
      else Some (TEE_SUCCESS, [],
                 inst\<lparr>sessions := removeAll sess (sessions inst),
                      statics := TA_CloseSessionEntryPoint sess (statics inst)\<rparr>))"
| "life_step env inst Unload =
     (if \<not> loaded inst \<or> sessions inst \<noteq> [] then None
      else Some (TEE_SUCCESS, [],
                 inst\<lparr>loaded := False, statics := TA_DestroyEntryPoint (statics inst)\<rparr>))"

text \<open>A run: the events in order, with what each returns to its client.\<close>

fun life_run ::
  "tee_crypto \<Rightarrow> ta_instance \<Rightarrow> life_event list
   \<Rightarrow> ((u32 \<times> tee_param list) list \<times> ta_instance) option" where
  "life_run env inst [] = Some ([], inst)"
| "life_run env inst (ev # evs) =
     (case life_step env inst ev of
        None \<Rightarrow> None
      | Some (r, p, inst') \<Rightarrow>
          (case life_run env inst' evs of
             None \<Rightarrow> None
           | Some (outs, inst'') \<Rightarrow> Some ((r, p) # outs, inst'')))"

inductive life_reachable :: "tee_crypto \<Rightarrow> ta_instance \<Rightarrow> bool" for env where
  init: "life_reachable env instance_init"
| step: "life_reachable env inst \<Longrightarrow> life_step env inst ev = Some (r, p, inst') \<Longrightarrow>
         life_reachable env inst'"

text \<open>The well-formedness of an instance: the TA invariant, distinct open sessions, none unloaded.\<close>

definition instance_inv :: "ta_instance \<Rightarrow> bool" where
  "instance_inv inst \<longleftrightarrow>
     ta_inv (statics inst) \<and> distinct (sessions inst) \<and> (\<not> loaded inst \<longrightarrow> sessions inst = [])"

section \<open>Lemmas: one event at a time\<close>

lemma ta_load_cases:
  "ta_load inst = (TEE_SUCCESS, if loaded inst then inst else inst\<lparr>loaded := True, statics := ta_init\<rparr>)"
  by (simp add: ta_load_def TA_CreateEntryPoint_def)

lemma life_step_inv:
  assumes "instance_inv inst" "life_step env inst ev = Some (r, p, inst')"
  shows "instance_inv inst'"
proof (cases ev)
  case (OpenSession uuid pt sess)
  then show ?thesis
    using assms ta_init_inv
    by (auto simp: instance_inv_def ta_load_cases Let_def split: if_splits)
next
  case (Invoke sess cmd pt params mac0)
  obtain r' p' s' tr where inv:
    "TA_InvokeCommandEntryPoint env mac0 sess cmd pt params (statics inst) = (r', p', s', tr)"
    by (rule prod_cases4)
  with Invoke assms have ok: "invocation_ok mac0 params" and i': "inst' = inst\<lparr>statics := s'\<rparr>"
    by (auto split: if_splits)
  have "ta_inv s'"
    using ta_step_inv [OF ta_step.invoke [OF ok inv]] assms(1) by (simp add: instance_inv_def)
  with assms(1) i' show ?thesis by (simp add: instance_inv_def)
next
  case (CloseSession sess)
  then show ?thesis
    using assms
    by (auto simp: instance_inv_def TA_CloseSessionEntryPoint_def distinct_removeAll split: if_splits)
next
  case Unload
  then show ?thesis
    using assms by (auto simp: instance_inv_def TA_DestroyEntryPoint_def split: if_splits)
qed

lemma life_step_close:
  "life_step env inst (CloseSession a) = Some (r, p, inst') \<Longrightarrow>
   a \<in> set (sessions inst) \<and> inst' = inst\<lparr>sessions := removeAll a (sessions inst)\<rparr>"
  by (auto simp: TA_CloseSessionEntryPoint_def split: if_splits)

lemma life_step_open_statics:
  "life_step env inst (OpenSession uuid pt b) = Some (r, p, inst') \<Longrightarrow>
   statics inst' = (if uuid = TA_HMAC_UUID \<and> \<not> loaded inst then ta_init else statics inst)"
  by (auto simp: ta_load_cases Let_def split: if_splits)

lemma life_step_open_fresh:
  assumes "instance_inv inst" "sid \<notin> set (sessions inst)"
  shows "\<exists>inst'. life_step env inst (OpenSession TA_HMAC_UUID 0 sid) = Some (TEE_SUCCESS, [], inst') \<and>
           sid \<in> set (sessions inst') \<and> instance_inv inst'"
  using assms ta_init_inv
  by (auto simp: ta_load_cases TA_OpenSessionEntryPoint_def TEE_PARAM_TYPES_def param_type_defs
      instance_inv_def)

lemma life_step_invoke:
  assumes "instance_inv inst" "sid \<in> set (sessions inst)" "invocation_ok mac0 params" "crypto_wf env"
  shows "\<exists>r p' s'. life_step env inst (Invoke sid cmd pt params mac0) = Some (r, p', inst\<lparr>statics := s'\<rparr>) \<and>
           reply_matches (fst (abs_invoke env cmd pt params (abs_of (statics inst)))) r p' \<and>
           abs_of s' = snd (abs_invoke env cmd pt params (abs_of (statics inst))) \<and>
           instance_inv (inst\<lparr>statics := s'\<rparr>)"
proof -
  obtain r p' s' tr where inv:
    "TA_InvokeCommandEntryPoint env mac0 sid cmd pt params (statics inst) = (r, p', s', tr)"
    by (rule prod_cases4)
  have ti: "ta_inv (statics inst)" using assms(1) by (simp add: instance_inv_def)
  have wf: "memref_wf (params ! 0)" using assms(3) by (simp add: invocation_ok_def)
  have "ta_inv s'" by (rule ta_step_inv [OF ta_step.invoke [OF assms(3) inv] ti])
  then show ?thesis
    using inv assms invoke_abs_reply [OF ti assms(3,4) inv] invoke_abs_store [OF ti wf inv]
    by (auto simp: instance_inv_def)
qed


lemma abs_accept_buf:
  assumes "length b \<le> cap" "cap \<le> 64"
  shows "abs_accept cap exp_memref_input
           (replicate 4 \<lparr>memref_buffer = b, memref_size = of_nat (length b), value_a = 0, value_b = 0\<rparr>)
         = Some b"
  using assms by (simp add: abs_accept_def unat_of_len_u32)

lemma invocation_ok_buf:
  assumes "length b \<le> 64" "length (mac0::byte list) = 20"
  shows "invocation_ok mac0
           (replicate 4 \<lparr>memref_buffer = b, memref_size = of_nat (length b), value_a = 0, value_b = 0\<rparr>)"
  using assms by (simp add: invocation_ok_def memref_wf_def unat_of_len_u32)

section \<open>Properties of the instance lifecycle\<close>

text \<open>
  C29. Invariant of the lifecycle: in every state the TEE core can reach from
  an unloaded TA by loading, opening and closing sessions, invoking commands on
  open sessions and unloading, the statics satisfy the TA invariant \<open>ta_inv\<close>
  (every length within its array, zero padding), the open sessions are
  distinct, and an unloaded instance has no open session.
\<close>

theorem life_reachable_inv: "life_reachable env inst \<Longrightarrow> instance_inv inst"
proof (induction rule: life_reachable.induct)
  case init
  show ?case by (simp add: instance_inv_def instance_init_def ta_init_inv)
next
  case (step inst ev r p inst')
  then show ?case by (blast intro: life_step_inv)
qed


theorem life_reachable_inv_witness: "instance_inv instance_init"
  using life_reachable_inv [OF life_reachable.init] .

text \<open>
  C30. The slots outlive the session that filled them: when a session closes
  (\<open>TA_CloseSessionEntryPoint\<close> does nothing) and another session is opened on
  the instance, which stays loaded, that session finds the key, the message and
  the expected output exactly as they were. The spec describes the stored
  material as held for the lifetime of a session.
\<close>

theorem key_outlives_session:
  assumes "life_reachable env inst"
    "life_step env inst (CloseSession a) = Some (r1, p1, inst1)"
    "life_step env inst1 (OpenSession TA_HMAC_UUID pt b) = Some (r2, p2, inst2)"
  shows "statics inst2 = statics inst"
proof -
  from life_step_close [OF assms(2)]
  have a: "a \<in> set (sessions inst)" and i1: "inst1 = inst\<lparr>sessions := removeAll a (sessions inst)\<rparr>"
    by auto
  have "loaded inst" using a life_reachable_inv [OF assms(1)] by (auto simp: instance_inv_def)
  with life_step_open_statics [OF assms(3)] i1 show ?thesis by simp
qed

theorem key_outlives_session_witness:
  "life_reachable \<lparr>alloc_operation_res = \<lambda>_. 0, alloc_transient_res = \<lambda>_. 0, populate_res = \<lambda>_. 0,
            set_key_res = 0, hmac_fn = \<lambda>k m. replicate 20 7\<rparr> \<lparr>loaded = True, sessions = [1], statics = (ta_init\<lparr>K := replicate 10 1 @ replicate 54 0, K_len := 10\<rparr>)\<rparr> \<and>
   life_step \<lparr>alloc_operation_res = \<lambda>_. 0, alloc_transient_res = \<lambda>_. 0, populate_res = \<lambda>_. 0,
            set_key_res = 0, hmac_fn = \<lambda>k m. replicate 20 7\<rparr> \<lparr>loaded = True, sessions = [1], statics = (ta_init\<lparr>K := replicate 10 1 @ replicate 54 0, K_len := 10\<rparr>)\<rparr> (CloseSession 1) = Some (TEE_SUCCESS, [], \<lparr>loaded = True, sessions = [], statics = (ta_init\<lparr>K := replicate 10 1 @ replicate 54 0, K_len := 10\<rparr>)\<rparr>) \<and>
   life_step \<lparr>alloc_operation_res = \<lambda>_. 0, alloc_transient_res = \<lambda>_. 0, populate_res = \<lambda>_. 0,
            set_key_res = 0, hmac_fn = \<lambda>k m. replicate 20 7\<rparr> \<lparr>loaded = True, sessions = [], statics = (ta_init\<lparr>K := replicate 10 1 @ replicate 54 0, K_len := 10\<rparr>)\<rparr> (OpenSession TA_HMAC_UUID 0 2) = Some (TEE_SUCCESS, [], \<lparr>loaded = True, sessions = [2], statics = (ta_init\<lparr>K := replicate 10 1 @ replicate 54 0, K_len := 10\<rparr>)\<rparr>) \<and>
   statics \<lparr>loaded = True, sessions = [2], statics = (ta_init\<lparr>K := replicate 10 1 @ replicate 54 0, K_len := 10\<rparr>)\<rparr> = statics \<lparr>loaded = True, sessions = [1], statics = (ta_init\<lparr>K := replicate 10 1 @ replicate 54 0, K_len := 10\<rparr>)\<rparr>"
proof -
  have r1: "life_reachable \<lparr>alloc_operation_res = \<lambda>_. 0, alloc_transient_res = \<lambda>_. 0, populate_res = \<lambda>_. 0,
            set_key_res = 0, hmac_fn = \<lambda>k m. replicate 20 7\<rparr> \<lparr>loaded = True, sessions = [1], statics = ta_init\<rparr>"
    by (rule life_reachable.step [OF life_reachable.init, where ev = "OpenSession TA_HMAC_UUID 0 1"
          and r = TEE_SUCCESS and p = "[]"])
       (simp add: instance_init_def ta_load_cases TA_OpenSessionEntryPoint_def TEE_PARAM_TYPES_def
          param_type_defs)
  have r2: "life_reachable \<lparr>alloc_operation_res = \<lambda>_. 0, alloc_transient_res = \<lambda>_. 0, populate_res = \<lambda>_. 0,
            set_key_res = 0, hmac_fn = \<lambda>k m. replicate 20 7\<rparr> \<lparr>loaded = True, sessions = [1], statics = (ta_init\<lparr>K := replicate 10 1 @ replicate 54 0, K_len := 10\<rparr>)\<rparr>"
    by (rule life_reachable.step [OF r1, where ev = "Invoke 1 0 5 (replicate 4 \<lparr>memref_buffer = replicate 10 1, memref_size = 10, value_a = 0, value_b = 0\<rparr>) (replicate 20 0)"
          and r = TEE_SUCCESS and p = "(replicate 4 \<lparr>memref_buffer = replicate 10 1, memref_size = 10, value_a = 0, value_b = 0\<rparr>)"])
       (simp add: invocation_ok_def memref_wf_def TA_InvokeCommandEntryPoint_def cmd_defs
          register_shared_key_cases memset_def memcpy_def ta_init_def size_defs)
  have c: "life_step \<lparr>alloc_operation_res = \<lambda>_. 0, alloc_transient_res = \<lambda>_. 0, populate_res = \<lambda>_. 0,
            set_key_res = 0, hmac_fn = \<lambda>k m. replicate 20 7\<rparr> \<lparr>loaded = True, sessions = [1], statics = (ta_init\<lparr>K := replicate 10 1 @ replicate 54 0, K_len := 10\<rparr>)\<rparr> (CloseSession 1) = Some (TEE_SUCCESS, [], \<lparr>loaded = True, sessions = [], statics = (ta_init\<lparr>K := replicate 10 1 @ replicate 54 0, K_len := 10\<rparr>)\<rparr>)"
    by (simp add: TA_CloseSessionEntryPoint_def)
  have o: "life_step \<lparr>alloc_operation_res = \<lambda>_. 0, alloc_transient_res = \<lambda>_. 0, populate_res = \<lambda>_. 0,
            set_key_res = 0, hmac_fn = \<lambda>k m. replicate 20 7\<rparr> \<lparr>loaded = True, sessions = [], statics = (ta_init\<lparr>K := replicate 10 1 @ replicate 54 0, K_len := 10\<rparr>)\<rparr> (OpenSession TA_HMAC_UUID 0 2) = Some (TEE_SUCCESS, [], \<lparr>loaded = True, sessions = [2], statics = (ta_init\<lparr>K := replicate 10 1 @ replicate 54 0, K_len := 10\<rparr>)\<rparr>)"
    by (simp add: ta_load_cases TA_OpenSessionEntryPoint_def TEE_PARAM_TYPES_def param_type_defs)
  show ?thesis
    using key_outlives_session [OF r2 c o] r2 c o by simp
qed

text \<open>
  C31. A session opens only with a descriptor that declares no parameters:
  \<open>TA_OpenSessionEntryPoint\<close> accepts exactly the descriptors whose four
  parameter types decode to \<open>TEE_PARAM_TYPE_NONE\<close> with no bit set above the
  four nibbles; on any other descriptor the open is refused with
  \<open>TEE_ERROR_BAD_PARAMETERS\<close> and no session is added (the instance, loaded by
  the TEE core for the attempt, keeps its statics).
\<close>

theorem open_session_descriptor:
  assumes "sess \<notin> set (sessions inst)"
  shows "life_step env inst (OpenSession TA_HMAC_UUID pt sess) =
           (if map (TEE_PARAM_TYPE_GET pt) [0, 1, 2, 3] =
                 [TEE_PARAM_TYPE_NONE, TEE_PARAM_TYPE_NONE, TEE_PARAM_TYPE_NONE, TEE_PARAM_TYPE_NONE] \<and>
               drop_bit 16 pt = 0
            then Some (TEE_SUCCESS, [], (snd (ta_load inst))\<lparr>sessions := sess # sessions inst\<rparr>)
            else Some (TEE_ERROR_BAD_PARAMETERS, [], snd (ta_load inst)))"
proof -
  have d: "(pt = TEE_PARAM_TYPES TEE_PARAM_TYPE_NONE TEE_PARAM_TYPE_NONE TEE_PARAM_TYPE_NONE
                   TEE_PARAM_TYPE_NONE) =
           (map (TEE_PARAM_TYPE_GET pt) [0, 1, 2, 3] =
              [TEE_PARAM_TYPE_NONE, TEE_PARAM_TYPE_NONE, TEE_PARAM_TYPE_NONE, TEE_PARAM_TYPE_NONE] \<and>
            drop_bit 16 pt = 0)"
    by (rule param_types_decode) (simp_all add: param_type_defs)
  show ?thesis
    unfolding d [symmetric]
    using assms by (simp add: ta_load_cases TA_OpenSessionEntryPoint_def)
qed

theorem open_session_descriptor_witness:
  "1 \<notin> set (sessions instance_init) \<and>
   life_step \<lparr>alloc_operation_res = \<lambda>_. 0, alloc_transient_res = \<lambda>_. 0, populate_res = \<lambda>_. 0,
            set_key_res = 0, hmac_fn = \<lambda>k m. replicate 20 7\<rparr> instance_init (OpenSession TA_HMAC_UUID 5 1) =
     Some (TEE_ERROR_BAD_PARAMETERS, [], \<lparr>loaded = True, sessions = [], statics = ta_init\<rparr>)"
  using open_session_descriptor [of 1 instance_init "\<lparr>alloc_operation_res = \<lambda>_. 0, alloc_transient_res = \<lambda>_. 0, populate_res = \<lambda>_. 0,
            set_key_res = 0, hmac_fn = \<lambda>k m. replicate 20 7\<rparr>" 5]
  by (simp add: instance_init_def ta_load_cases TEE_PARAM_TYPE_GET_def param_type_defs)

text \<open>
  C32. Liveness of verification: from every state the lifecycle can reach,
  whatever other clients left in the slots and whichever sessions are open,
  any client can obtain a correct verdict on any key, message and expected
  output of acceptable sizes: some finite run ends in a \<open>GET_HMAC\<close> invocation
  that succeeds and whose verdict is 0 exactly when the expected output is a
  prefix of the HMAC of the message under the key, 1 otherwise, with the slots
  holding that key, message and expected output. (The run: a new session
  registers the three values, then asks for the verdict.)
\<close>

theorem life_can_verify:
  assumes "life_reachable env inst" "crypto_wf env"
    "MIN_KEY_SIZE \<le> length k" "length k \<le> MAX_KEY_SIZE" "crypto_succeeds env (of_nat (length k)) k"
    "length (m::byte list) \<le> MAX_MESSAGE_SIZE" "length t \<le> SHA1_HASH_SIZE"
    "length (mac0::byte list) = 20"
  shows "\<exists>sid evs p outs inst'.
           life_run env inst (evs @ [Invoke sid TA_HMAC_CMD_GET_HMAC exp_value_output p mac0]) =
             Some (outs, inst') \<and>
           abs_of (statics inst') = \<lparr>a_key = k, a_msg = m, a_out = t\<rparr> \<and>
           fst (last outs) = TEE_SUCCESS \<and>
           value_a (snd (last outs) ! 0) = (if take (length t) (hmac_fn env k m) = t then 0 else 1)"
proof -
  define buf :: "byte list \<Rightarrow> tee_param list" where
    "buf b = replicate 4 \<lparr>memref_buffer = b, memref_size = of_nat (length b), value_a = 0, value_b = 0\<rparr>"
    for b
  define sid where "sid = Suc (sum_list (sessions inst))"
  have lens: "length k \<le> 64" "length m \<le> 64" "length t \<le> 20" "10 \<le> length k"
    using assms(3,4,6,7) by (simp_all add: size_defs)
  have ok: "\<And>b. length b \<le> 64 \<Longrightarrow> invocation_ok mac0 (buf b)"
    using assms(8) by (simp add: buf_def invocation_ok_buf)
  have fresh: "sid \<notin> set (sessions inst)"
    using member_le_sum_list [of _ "sessions inst"] by (fastforce simp: sid_def)
  obtain inst1 where o: "life_step env inst (OpenSession TA_HMAC_UUID 0 sid) = Some (TEE_SUCCESS, [], inst1)"
    and s1: "sid \<in> set (sessions inst1)" and i1: "instance_inv inst1"
    using life_step_open_fresh [OF life_reachable_inv [OF assms(1)] fresh] by blast
  obtain r1 p1 t1 where e1: "life_step env inst1 (Invoke sid 0 5 (buf k) mac0) = Some (r1, p1, inst1\<lparr>statics := t1\<rparr>)"
    and a1: "abs_of t1 = (abs_of (statics inst1))\<lparr>a_key := k\<rparr>" and i2: "instance_inv (inst1\<lparr>statics := t1\<rparr>)"
    using life_step_invoke [OF i1 s1 ok [OF lens(1)] assms(2), of 0 5] abs_accept_buf [OF lens(1)]
    by (fastforce simp: abs_invoke_def cmd_defs buf_def size_defs)
  obtain r2 p2 t2 where e2: "life_step env (inst1\<lparr>statics := t1\<rparr>) (Invoke sid 1 5 (buf m) mac0) =
                               Some (r2, p2, inst1\<lparr>statics := t2\<rparr>)"
    and a2: "abs_of t2 = (abs_of (statics inst1))\<lparr>a_key := k, a_msg := m\<rparr>"
    and i3: "instance_inv (inst1\<lparr>statics := t2\<rparr>)"
    using life_step_invoke [OF i2 _ ok [OF lens(2)] assms(2), of sid 1 5] s1 a1 abs_accept_buf [OF lens(2)]
    by (fastforce simp: abs_invoke_def cmd_defs buf_def size_defs)
  obtain r3 p3 t3 where e3: "life_step env (inst1\<lparr>statics := t2\<rparr>) (Invoke sid 2 5 (buf t) mac0) =
                               Some (r3, p3, inst1\<lparr>statics := t3\<rparr>)"
    and a3: "abs_of t3 = \<lparr>a_key = k, a_msg = m, a_out = t\<rparr>"
    and i4: "instance_inv (inst1\<lparr>statics := t3\<rparr>)"
    using life_step_invoke [OF i3 _ ok [of t] assms(2), of sid 2 5] s1 a2 lens(3)
      abs_accept_buf [of t 20]
    by (fastforce simp: abs_invoke_def cmd_defs buf_def size_defs)
  have get: "abs_get env 2 \<lparr>a_key = k, a_msg = m, a_out = t\<rparr> =
              Verdict (take (length t) (hmac_fn env k m) = t)"
  proof -
    have "find (\<lambda>r. r \<noteq> TEE_SUCCESS) (service_results env (of_nat (length k)) k) = None"
      using assms(5) by (simp add: find_service_results_None)
    with lens show ?thesis by (simp add: abs_get_def size_defs)
  qed
  obtain r4 p4 t4 where e4: "life_step env (inst1\<lparr>statics := t3\<rparr>) (Invoke sid 3 2 (buf []) mac0) =
                               Some (r4, p4, inst1\<lparr>statics := t4\<rparr>)"
    and v: "r4 = TEE_SUCCESS \<and>
              value_a (p4 ! 0) = (if take (length t) (hmac_fn env k m) = t then 0 else 1)"
    and a4: "abs_of t4 = \<lparr>a_key = k, a_msg = m, a_out = t\<rparr>"
    using life_step_invoke [OF i4 _ ok [of "[]"] assms(2), of sid 3 2] s1 a3 get
    by (fastforce simp: abs_invoke_def cmd_defs reply_matches_def)
  have run: "life_run env inst
          ([OpenSession TA_HMAC_UUID 0 sid, Invoke sid 0 5 (buf k) mac0, Invoke sid 1 5 (buf m) mac0,
            Invoke sid 2 5 (buf t) mac0] @ [Invoke sid TA_HMAC_CMD_GET_HMAC exp_value_output (buf []) mac0]) =
        Some ([(TEE_SUCCESS, []), (r1, p1), (r2, p2), (r3, p3), (r4, p4)], inst1\<lparr>statics := t4\<rparr>)"
    using o e1 e2 e3 e4 by (simp add: cmd_defs)
  have a4': "abs_of (statics (inst1\<lparr>statics := t4\<rparr>)) = \<lparr>a_key = k, a_msg = m, a_out = t\<rparr>"
    using a4 by simp
  have v': "fst (last [(TEE_SUCCESS, []), (r1, p1), (r2, p2), (r3, p3), (r4, p4)]) = TEE_SUCCESS \<and>
            value_a (snd (last [(TEE_SUCCESS, []), (r1, p1), (r2, p2), (r3, p3), (r4, p4)]) ! 0) =
              (if take (length t) (hmac_fn env k m) = t then 0 else 1)"
    using v by simp
  show ?thesis using run a4' v' by blast
qed

theorem life_can_verify_witness:
  "life_reachable \<lparr>alloc_operation_res = \<lambda>_. 0, alloc_transient_res = \<lambda>_. 0, populate_res = \<lambda>_. 0,
            set_key_res = 0, hmac_fn = \<lambda>k m. replicate 20 7\<rparr> instance_init \<and> crypto_wf \<lparr>alloc_operation_res = \<lambda>_. 0, alloc_transient_res = \<lambda>_. 0, populate_res = \<lambda>_. 0,
            set_key_res = 0, hmac_fn = \<lambda>k m. replicate 20 7\<rparr> \<and>
   MIN_KEY_SIZE \<le> length (replicate 10 (1::byte)) \<and> length (replicate 10 (1::byte)) \<le> MAX_KEY_SIZE \<and>
   crypto_succeeds \<lparr>alloc_operation_res = \<lambda>_. 0, alloc_transient_res = \<lambda>_. 0, populate_res = \<lambda>_. 0,
            set_key_res = 0, hmac_fn = \<lambda>k m. replicate 20 7\<rparr> (of_nat (length (replicate 10 (1::byte)))) (replicate 10 1) \<and>
   length ([]::byte list) \<le> MAX_MESSAGE_SIZE \<and> length (replicate 20 (0::byte)) \<le> SHA1_HASH_SIZE \<and>
   length (replicate 20 (0::byte)) = 20 \<and>
   (\<exists>sid evs p outs inst'.
      life_run \<lparr>alloc_operation_res = \<lambda>_. 0, alloc_transient_res = \<lambda>_. 0, populate_res = \<lambda>_. 0,
            set_key_res = 0, hmac_fn = \<lambda>k m. replicate 20 7\<rparr> instance_init
        (evs @ [Invoke sid TA_HMAC_CMD_GET_HMAC exp_value_output p (replicate 20 0)]) = Some (outs, inst') \<and>
      abs_of (statics inst') = \<lparr>a_key = replicate 10 1, a_msg = [], a_out = replicate 20 0\<rparr> \<and>
      fst (last outs) = TEE_SUCCESS \<and> value_a (snd (last outs) ! 0) = 1)"
  using life_can_verify [of "\<lparr>alloc_operation_res = \<lambda>_. 0, alloc_transient_res = \<lambda>_. 0, populate_res = \<lambda>_. 0,
            set_key_res = 0, hmac_fn = \<lambda>k m. replicate 20 7\<rparr>" instance_init "replicate 10 1" "[]" "replicate 20 0" "replicate 20 0"]
  by (simp add: witness_simps life_reachable.init)

end
