(* ===== verification/TEE_Handles.thy ===== *)
theory TEE_Handles
  imports HMAC_Crypto
begin

text \<open>
  The handle discipline of \<open>hmac_sha1\<close> against the meaning the TEE core gives
  its handles. The TEE core keeps a heap of objects (operations and transient
  objects) indexed by handles; the GlobalPlatform Internal Core API panics
  the TA (\<open>TEE_Panic\<close>) on a handle that does not name a live object of the
  right type and on a call made in the wrong state of the object. The locals
  \<open>op_handle\<close> and \<open>key_handle\<close> of \<open>hmac_sha1\<close> (\<^verbatim>\<open>hmac_ta.c\<close>, lines
  54--55, both \<open>TEE_HANDLE_NULL\<close> at entry) are the \<open>hmac_locals\<close>. Each event
  of the trace \<open>hmac_sha1\<close> returns is one call of the API with those locals as
  arguments, so running the trace through \<open>api_step\<close> executes the calls of
  \<open>hmac_sha1\<close> against the heap. The TEE core is not code of this repository:
  the heap and the calls are modelled from the GlobalPlatform specification
  the spec refers to. A panic is the value \<open>Inl\<close>.
\<close>

datatype op_state = OpInitial | OpKeySet | OpActive

datatype tee_object =
    OperationObj op_state
  | TransientObj bool

record tee_heap =
  objects :: "nat \<rightharpoonup> tee_object"
  next_handle :: nat

record hmac_locals =
  op_handle :: "nat option"
  key_handle :: "nat option"

datatype tee_panic = PanicBadHandle | PanicBadState

type_synonym api_conf = "hmac_locals \<times> tee_heap"

definition hmac_locals_init :: hmac_locals where
  "hmac_locals_init = \<lparr>op_handle = None, key_handle = None\<rparr>"

text \<open>Every live handle was handed out before \<open>next_handle\<close>.\<close>

definition heap_wf :: "tee_heap \<Rightarrow> bool" where
  "heap_wf h \<longleftrightarrow> (\<forall>n \<in> dom (objects h). n < next_handle h)"

fun obj_kind :: "tee_object \<Rightarrow> handle_kind" where
  "obj_kind (OperationObj _) = OperationHandle"
| "obj_kind (TransientObj _) = KeyHandle"

definition local_handle :: "handle_kind \<Rightarrow> hmac_locals \<Rightarrow> nat option" where
  "local_handle k ls = (case k of OperationHandle \<Rightarrow> op_handle ls | KeyHandle \<Rightarrow> key_handle ls)"

text \<open>
  \<open>TEE_AllocateOperation\<close> and \<open>TEE_AllocateTransientObject\<close> on success: a
  fresh handle naming a new object (an operation without a key, an
  uninitialised transient object).
\<close>

definition tee_alloc :: "tee_object \<Rightarrow> tee_heap \<Rightarrow> nat \<times> tee_heap" where
  "tee_alloc obj h =
     (next_handle h, h\<lparr>objects := (objects h)(next_handle h \<mapsto> obj), next_handle := Suc (next_handle h)\<rparr>)"

text \<open>
  \<open>TEE_FreeOperation\<close> and \<open>TEE_FreeTransientObject\<close>: nothing on
  \<open>TEE_HANDLE_NULL\<close>, the object is released when the handle names a live object
  of the right type, a panic otherwise (a double free included).
\<close>

definition tee_free :: "handle_kind \<Rightarrow> nat option \<Rightarrow> tee_heap \<Rightarrow> tee_panic + tee_heap" where
  "tee_free k hnd h =
     (case hnd of
        None \<Rightarrow> Inr h
      | Some n \<Rightarrow> (case objects h n of
          Some obj \<Rightarrow> if obj_kind obj = k then Inr (h\<lparr>objects := (objects h)(n := None)\<rparr>)
                     else Inl PanicBadHandle
        | None \<Rightarrow> Inl PanicBadHandle))"

text \<open>A call on the operation \<open>op_handle\<close> names, moving it to a new state or panicking.\<close>

definition op_transition ::
  "(op_state \<Rightarrow> tee_panic + op_state) \<Rightarrow> api_conf \<Rightarrow> tee_panic + api_conf" where
  "op_transition f c =
     (case c of (ls, h) \<Rightarrow>
        (case op_handle ls of
           None \<Rightarrow> Inl PanicBadHandle
         | Some n \<Rightarrow> (case objects h n of
             Some (OperationObj st) \<Rightarrow>
               map_sum id (\<lambda>st'. (ls, h\<lparr>objects := (objects h)(n \<mapsto> OperationObj st')\<rparr>)) (f st)
           | _ \<Rightarrow> Inl PanicBadHandle)))"

text \<open>
  One API call per event: \<open>TEE_PopulateTransientObject(key_handle)\<close> panics
  on an initialised object; \<open>TEE_SetOperationKey(op_handle, key_handle)\<close>
  needs an initialised key and an operation not in the active state;
  \<open>TEE_MACInit\<close> needs a key, \<open>TEE_MACUpdate\<close> and \<open>TEE_MACComputeFinal\<close> an
  active operation, which the final step returns to its initial state with
  the key kept. \<open>FreedNull\<close> is the free call on \<open>TEE_HANDLE_NULL\<close>.
\<close>

fun api_step :: "tee_event \<Rightarrow> api_conf \<Rightarrow> tee_panic + api_conf" where
  "api_step (Allocated OperationHandle) (ls, h) =
     (case tee_alloc (OperationObj OpInitial) h of (n, h') \<Rightarrow> Inr (ls\<lparr>op_handle := Some n\<rparr>, h'))"
| "api_step (Allocated KeyHandle) (ls, h) =
     (case tee_alloc (TransientObj False) h of (n, h') \<Rightarrow> Inr (ls\<lparr>key_handle := Some n\<rparr>, h'))"
| "api_step (Freed k) (ls, h) = map_sum id (Pair ls) (tee_free k (local_handle k ls) h)"
| "api_step (FreedNull k) (ls, h) = map_sum id (Pair ls) (tee_free k None h)"
| "api_step KeyPopulated (ls, h) =
     (case key_handle ls of
        None \<Rightarrow> Inl PanicBadHandle
      | Some n \<Rightarrow> (case objects h n of
          Some (TransientObj False) \<Rightarrow> Inr (ls, h\<lparr>objects := (objects h)(n \<mapsto> TransientObj True)\<rparr>)
        | Some (TransientObj True) \<Rightarrow> Inl PanicBadState
        | _ \<Rightarrow> Inl PanicBadHandle))"
| "api_step KeySet (ls, h) =
     (case key_handle ls of
        None \<Rightarrow> Inl PanicBadHandle
      | Some n \<Rightarrow> (case objects h n of
          Some (TransientObj True) \<Rightarrow>
            op_transition (\<lambda>st. if st = OpActive then Inl PanicBadState else Inr OpKeySet) (ls, h)
        | Some (TransientObj False) \<Rightarrow> Inl PanicBadState
        | _ \<Rightarrow> Inl PanicBadHandle))"
| "api_step MacInit c =
     op_transition (\<lambda>st. if st = OpInitial then Inl PanicBadState else Inr OpActive) c"
| "api_step MacUpdate c =
     op_transition (\<lambda>st. if st = OpActive then Inr OpActive else Inl PanicBadState) c"
| "api_step MacFinal c =
     op_transition (\<lambda>st. if st = OpActive then Inr OpKeySet else Inl PanicBadState) c"

fun api_run :: "tee_event list \<Rightarrow> api_conf \<Rightarrow> tee_panic + api_conf" where
  "api_run [] c = Inr c"
| "api_run (e # evs) c = (case api_step e c of Inl p \<Rightarrow> Inl p | Inr c' \<Rightarrow> api_run evs c')"

section \<open>Lemmas\<close>

lemma heap_wf_live:
  "heap_wf h \<Longrightarrow> objects h n = Some obj \<Longrightarrow> n < next_handle h"
  by (auto simp: heap_wf_def)

lemma heap_wf_fresh:
  "heap_wf h \<Longrightarrow> next_handle h \<le> n \<Longrightarrow> objects h n = None"
  using heap_wf_live [of h n] by fastforce

lemma api_run_append:
  "api_run (xs @ ys) c = (case api_run xs c of Inl p \<Rightarrow> Inl p | Inr c' \<Rightarrow> api_run ys c')"
  by (induction xs arbitrary: c) (auto split: sum.splits)

lemmas api_defs = tee_alloc_def tee_free_def op_transition_def local_handle_def hmac_locals_init_def

section \<open>Properties of the handle discipline\<close>

text \<open>
  C39. \<open>hmac_sha1\<close> is safe against the TEE core's handle semantics: on every
  path (bad key length, NULL pointer, each service failing, success), the
  calls it makes, started from its \<open>TEE_HANDLE_NULL\<close> locals on any
  well-formed heap (other objects of the TA live in it), never panic, and the
  heap is left with exactly the objects it had: every object allocated is
  freed, and no other object is touched. Unlike the trace check of C6 this
  also orders the calls: the key is populated before it is set, the
  operation keyed before \<open>TEE_MACInit\<close>, initialised before update and final.
\<close>

theorem hmac_sha1_heap_balanced:
  assumes "heap_wf h"
  shows "\<exists>ls h'. api_run (snd (snd (snd (hmac_sha1 env key keylen inp inlen out outlen))))
                   (hmac_locals_init, h) = Inr (ls, h') \<and> objects h' = objects h \<and> heap_wf h'"
proof -
  have f0: "objects h (next_handle h) = None" "objects h (Suc (next_handle h)) = None"
    using heap_wf_fresh [OF assms] by simp_all
  note live = heap_wf_live [OF assms]
  show ?thesis
    using f0
    by (auto simp: hmac_sha1_def Let_def api_defs fun_eq_iff heap_wf_def
        dest: live split: option.splits prod.splits)
qed

theorem hmac_sha1_heap_balanced_witness:
  "heap_wf \<lparr>objects = [0 \<mapsto> TransientObj True], next_handle = 1\<rparr> \<and>
   (\<exists>ls h'. api_run (snd (snd (snd (hmac_sha1 \<lparr>alloc_operation_res = \<lambda>_. 0, alloc_transient_res = \<lambda>_. 0,
        populate_res = \<lambda>_. 0, set_key_res = 0, hmac_fn = \<lambda>k m. replicate 20 7\<rparr>
        (replicate 64 1) 16 (Some (replicate 10 2)) 10 (Some (replicate 20 0)) (Some 20)))))
      (hmac_locals_init, \<lparr>objects = [0 \<mapsto> TransientObj True], next_handle = 1\<rparr>) = Inr (ls, h') \<and>
     objects h' = [0 \<mapsto> TransientObj True] \<and> heap_wf h')"
  using hmac_sha1_heap_balanced [of "\<lparr>objects = [0 \<mapsto> TransientObj True], next_handle = 1\<rparr>"
      "\<lparr>alloc_operation_res = \<lambda>_. 0, alloc_transient_res = \<lambda>_. 0, populate_res = \<lambda>_. 0,
        set_key_res = 0, hmac_fn = \<lambda>k m. replicate 20 7\<rparr>" "replicate 64 1" 16
      "Some (replicate 10 2)" 10 "Some (replicate 20 0)" "Some 20"]
  by (simp add: heap_wf_def)

end
