(* ===== verification/HMAC_Secrecy.thy ===== *)
theory HMAC_Secrecy
  imports HMAC_Schedule
begin

text \<open>
  What a client learns about the stored key from the replies of the TA.
  Two states are key-indistinguishable when they hold the same message, the
  same expected output, keys of the same length that the TEE core treats
  alike (the same results of the four services of \<open>hmac_sha1\<close>), and keys
  giving the same tag on the stored message; they may differ in every key
  byte. The relation is written as a comparison of the visible parts of the
  two states, in the style of an 'equal except the secret' relation.
\<close>

definition key_indist :: "tee_crypto \<Rightarrow> ta_state \<Rightarrow> ta_state \<Rightarrow> bool" where
  "key_indist env s1 s2 \<longleftrightarrow>
     input s1 = input s2 \<and> input_len s1 = input_len s2 \<and>
     output_buf s1 = output_buf s2 \<and> output_len s1 = output_len s2 \<and> K_len s1 = K_len s2 \<and>
     service_results env (K_len s1) (K s1) = service_results env (K_len s2) (K s2) \<and>
     hmac_fn env (stored_key s1) (stored_message s1) = hmac_fn env (stored_key s2) (stored_message s2)"

section \<open>Lemmas\<close>

text \<open>\<open>hmac_sha1\<close> reads its key only through the services and the tag.\<close>

lemma hmac_sha1_key_indep:
  assumes "service_results env keylen k1 = service_results env keylen k2"
    "hmac_fn env (take (unat keylen) k1) (take (unat inlen) msg) =
     hmac_fn env (take (unat keylen) k2) (take (unat inlen) msg)"
  shows "hmac_sha1 env k1 keylen (Some msg) inlen out outlen =
         hmac_sha1 env k2 keylen (Some msg) inlen out outlen"
  using assms by (simp add: hmac_sha1_def service_results_def TEE_MACComputeFinal_def Let_def
      split: option.splits)

lemma get_hmac_key_indep:
  assumes "key_indist env s1 s2"
  shows "get_hmac env mac0 pt params s1 = get_hmac env mac0 pt params s2"
proof -
  have eq: "input s1 = input s2" "input_len s1 = input_len s2" "output_buf s1 = output_buf s2"
      "output_len s1 = output_len s2" "K_len s1 = K_len s2"
    using assms by (simp_all add: key_indist_def)
  have sr: "service_results env (K_len s1) (K s1) = service_results env (K_len s1) (K s2)"
    and tag: "hmac_fn env (take (unat (K_len s1)) (K s1)) (take (unat (input_len s1)) (input s1)) =
              hmac_fn env (take (unat (K_len s1)) (K s2)) (take (unat (input_len s1)) (input s1))"
    using assms by (simp_all add: key_indist_def stored_defs eq)
  have "hmac_sha1 env (K s1) (K_len s1) (Some (input s1)) (input_len s1) (Some mac0) (Some 20) =
        hmac_sha1 env (K s2) (K_len s1) (Some (input s1)) (input_len s1) (Some mac0) (Some 20)"
    by (rule hmac_sha1_key_indep [OF sr tag])
  then show ?thesis by (simp add: get_hmac_def size_defs eq)
qed

text \<open>
  Every command but \<open>REGISTER_MESSAGE\<close> keeps two states
  key-indistinguishable: a key registration gives both the same key (the
  \<open>memset\<close> clears the whole array), an output registration the same output,
  and \<open>GET_HMAC\<close> changes nothing.
\<close>

lemma key_indist_same_key:
  assumes "key_indist env s1 s2" "ta_inv s1" "ta_inv s2"
    "cmd_id \<noteq> TA_HMAC_CMD_REGISTER_MESSAGE"
  shows "key_indist env (fst (snd (snd (TA_InvokeCommandEntryPoint env mac0 sess cmd_id pt params s1))))
                        (fst (snd (snd (TA_InvokeCommandEntryPoint env mac0 sess cmd_id pt params s2))))"
proof -
  have L: "length (K s1) = 64" "length (K s2) = 64"
    using ta_inv_lengths(1) assms(2,3) by blast+
  show ?thesis
    using assms(1,4) L
    by (auto simp: TA_InvokeCommandEntryPoint_def register_shared_key_cases register_output_cases
        get_hmac_def cmd_defs key_indist_def stored_defs memset_def memcpy_def Let_def
        split: prod.splits)
qed

section \<open>Confidentiality of the key\<close>

text \<open>
  C38. Confidentiality along a schedule: over any serialised schedule of
  well-formed invocations from any sessions that registers no new message,
  two key-indistinguishable well-formed states give every client the same
  sequence of replies. Other clients' key registrations, output registrations
  and verdict requests reveal nothing more of the key than one \<open>GET_HMAC\<close>
  does. A new message is excluded: the tags of two keys may agree on one
  message and differ on another.
\<close>

theorem ta_run_key_confidential:
  assumes "key_indist env s1 s2" "ta_inv s1" "ta_inv s2" "schedule_ok ivs"
    "list_all (\<lambda>i. inv_cmd i \<noteq> TA_HMAC_CMD_REGISTER_MESSAGE) ivs"
  shows "fst (ta_run env ivs s1) = fst (ta_run env ivs s2)"
  using assms
proof (induction ivs arbitrary: s1 s2)
  case Nil
  then show ?case by simp
next
  case (Cons i ivs)
  obtain r1 p1 t1 tr1 where e1:
    "TA_InvokeCommandEntryPoint env (inv_mac i) (inv_sess i) (inv_cmd i) (inv_pt i) (inv_params i) s1
       = (r1, p1, t1, tr1)" by (rule prod_cases4)
  obtain r2 p2 t2 tr2 where e2:
    "TA_InvokeCommandEntryPoint env (inv_mac i) (inv_sess i) (inv_cmd i) (inv_pt i) (inv_params i) s2
       = (r2, p2, t2, tr2)" by (rule prod_cases4)
  have ok: "invocation_ok (inv_mac i) (inv_params i)" "schedule_ok ivs"
    using Cons.prems(4) by (simp_all add: schedule_ok_def)
  have reply: "(r1, p1) = (r2, p2)"
    using get_hmac_key_indep [OF Cons.prems(1), of "inv_mac i" "inv_pt i" "inv_params i"] e1 e2
    by (simp add: TA_InvokeCommandEntryPoint_def register_shared_key_def register_message_def
        register_output_def Let_def split: prod.splits if_splits)
  have ki: "key_indist env t1 t2"
    using key_indist_same_key [OF Cons.prems(1-3), of "inv_cmd i" "inv_mac i" "inv_sess i" "inv_pt i"
        "inv_params i"] Cons.prems(5) e1 e2 by simp
  have i1: "ta_inv t1" by (rule ta_step_inv [OF ta_step.invoke [OF ok(1) e1] Cons.prems(2)])
  have i2: "ta_inv t2" by (rule ta_step_inv [OF ta_step.invoke [OF ok(1) e2] Cons.prems(3)])
  have "fst (ta_run env ivs t1) = fst (ta_run env ivs t2)"
    using Cons.IH [OF ki i1 i2 ok(2)] Cons.prems(5) by simp
  then show ?case using e1 e2 reply by (simp add: prod.case_eq_if)
qed

theorem ta_run_key_confidential_witness:
  "key_indist \<lparr>alloc_operation_res = \<lambda>_. 0, alloc_transient_res = \<lambda>_. 0, populate_res = \<lambda>_. 0,
       set_key_res = 0, hmac_fn = \<lambda>k m. replicate 20 7\<rparr> (ta_init\<lparr>K := replicate 10 1 @ replicate 54 0, K_len := 10\<rparr>) (ta_init\<lparr>K := replicate 10 2 @ replicate 54 0, K_len := 10\<rparr>) \<and> ta_inv (ta_init\<lparr>K := replicate 10 1 @ replicate 54 0, K_len := 10\<rparr>) \<and> ta_inv (ta_init\<lparr>K := replicate 10 2 @ replicate 54 0, K_len := 10\<rparr>) \<and> schedule_ok [\<lparr>inv_sess = 1, inv_cmd = 2, inv_pt = 5, inv_params = replicate 4 \<lparr>memref_buffer = replicate 20 7, memref_size = 20, value_a = 0, value_b = 0\<rparr>, inv_mac = replicate 20 0\<rparr>,
     \<lparr>inv_sess = 2, inv_cmd = 3, inv_pt = 2, inv_params = replicate 4 \<lparr>memref_buffer = [], memref_size = 0, value_a = 0, value_b = 0\<rparr>, inv_mac = replicate 20 0\<rparr>] \<and>
   list_all (\<lambda>i. inv_cmd i \<noteq> TA_HMAC_CMD_REGISTER_MESSAGE) [\<lparr>inv_sess = 1, inv_cmd = 2, inv_pt = 5, inv_params = replicate 4 \<lparr>memref_buffer = replicate 20 7, memref_size = 20, value_a = 0, value_b = 0\<rparr>, inv_mac = replicate 20 0\<rparr>,
     \<lparr>inv_sess = 2, inv_cmd = 3, inv_pt = 2, inv_params = replicate 4 \<lparr>memref_buffer = [], memref_size = 0, value_a = 0, value_b = 0\<rparr>, inv_mac = replicate 20 0\<rparr>] \<and>
   fst (ta_run \<lparr>alloc_operation_res = \<lambda>_. 0, alloc_transient_res = \<lambda>_. 0, populate_res = \<lambda>_. 0,
       set_key_res = 0, hmac_fn = \<lambda>k m. replicate 20 7\<rparr> [\<lparr>inv_sess = 1, inv_cmd = 2, inv_pt = 5, inv_params = replicate 4 \<lparr>memref_buffer = replicate 20 7, memref_size = 20, value_a = 0, value_b = 0\<rparr>, inv_mac = replicate 20 0\<rparr>,
     \<lparr>inv_sess = 2, inv_cmd = 3, inv_pt = 2, inv_params = replicate 4 \<lparr>memref_buffer = [], memref_size = 0, value_a = 0, value_b = 0\<rparr>, inv_mac = replicate 20 0\<rparr>] (ta_init\<lparr>K := replicate 10 1 @ replicate 54 0, K_len := 10\<rparr>)) = fst (ta_run \<lparr>alloc_operation_res = \<lambda>_. 0, alloc_transient_res = \<lambda>_. 0, populate_res = \<lambda>_. 0,
       set_key_res = 0, hmac_fn = \<lambda>k m. replicate 20 7\<rparr> [\<lparr>inv_sess = 1, inv_cmd = 2, inv_pt = 5, inv_params = replicate 4 \<lparr>memref_buffer = replicate 20 7, memref_size = 20, value_a = 0, value_b = 0\<rparr>, inv_mac = replicate 20 0\<rparr>,
     \<lparr>inv_sess = 2, inv_cmd = 3, inv_pt = 2, inv_params = replicate 4 \<lparr>memref_buffer = [], memref_size = 0, value_a = 0, value_b = 0\<rparr>, inv_mac = replicate 20 0\<rparr>] (ta_init\<lparr>K := replicate 10 2 @ replicate 54 0, K_len := 10\<rparr>))"
  using ta_run_key_confidential [of "\<lparr>alloc_operation_res = \<lambda>_. 0, alloc_transient_res = \<lambda>_. 0, populate_res = \<lambda>_. 0,
       set_key_res = 0, hmac_fn = \<lambda>k m. replicate 20 7\<rparr>" "ta_init\<lparr>K := replicate 10 1 @ replicate 54 0, K_len := 10\<rparr>" "ta_init\<lparr>K := replicate 10 2 @ replicate 54 0, K_len := 10\<rparr>" "[\<lparr>inv_sess = 1, inv_cmd = 2, inv_pt = 5, inv_params = replicate 4 \<lparr>memref_buffer = replicate 20 7, memref_size = 20, value_a = 0, value_b = 0\<rparr>, inv_mac = replicate 20 0\<rparr>,
     \<lparr>inv_sess = 2, inv_cmd = 3, inv_pt = 2, inv_params = replicate 4 \<lparr>memref_buffer = [], memref_size = 0, value_a = 0, value_b = 0\<rparr>, inv_mac = replicate 20 0\<rparr>]"]
  by (simp add: key_indist_def service_results_def witness_simps schedule_ok_def invocation_ok_def
      memref_wf_def cmd_defs)

text \<open>
  C40. The replies of the TA do not reveal the key beyond its length, how the
  TEE core treats it, and the verdict its tag gives: for any command, two
  key-indistinguishable states give the client the same result code, the
  same parameters and the same sequence of TEE API calls. (The debug log is
  another matter: C35 shows that it prints the key.)
\<close>

theorem invoke_key_confidential:
  assumes "key_indist env s1 s2"
  shows "(case TA_InvokeCommandEntryPoint env mac0 sess cmd_id pt params s1 of (r, p, _, tr) \<Rightarrow> (r, p, tr)) =
         (case TA_InvokeCommandEntryPoint env mac0 sess cmd_id pt params s2 of (r, p, _, tr) \<Rightarrow> (r, p, tr))"
  using get_hmac_key_indep [OF assms, of mac0 pt params]
  by (simp add: TA_InvokeCommandEntryPoint_def register_shared_key_def register_message_def
      register_output_def Let_def split: prod.splits)

theorem invoke_key_confidential_witness:
  "key_indist \<lparr>alloc_operation_res = \<lambda>_. 0, alloc_transient_res = \<lambda>_. 0, populate_res = \<lambda>_. 0,
       set_key_res = 0, hmac_fn = \<lambda>k m. replicate 20 7\<rparr>
     (ta_init\<lparr>K := replicate 10 1 @ replicate 54 0, K_len := 10\<rparr>)
     (ta_init\<lparr>K := replicate 10 2 @ replicate 54 0, K_len := 10\<rparr>) \<and>
   (case TA_InvokeCommandEntryPoint \<lparr>alloc_operation_res = \<lambda>_. 0, alloc_transient_res = \<lambda>_. 0,
       populate_res = \<lambda>_. 0, set_key_res = 0, hmac_fn = \<lambda>k m. replicate 20 7\<rparr> (replicate 20 0) 1 3 2
       (replicate 4 \<lparr>memref_buffer = [], memref_size = 0, value_a = 0, value_b = 0\<rparr>)
       (ta_init\<lparr>K := replicate 10 1 @ replicate 54 0, K_len := 10\<rparr>) of (r, p, _, tr) \<Rightarrow> (r, p, tr)) =
   (case TA_InvokeCommandEntryPoint \<lparr>alloc_operation_res = \<lambda>_. 0, alloc_transient_res = \<lambda>_. 0,
       populate_res = \<lambda>_. 0, set_key_res = 0, hmac_fn = \<lambda>k m. replicate 20 7\<rparr> (replicate 20 0) 1 3 2
       (replicate 4 \<lparr>memref_buffer = [], memref_size = 0, value_a = 0, value_b = 0\<rparr>)
       (ta_init\<lparr>K := replicate 10 2 @ replicate 54 0, K_len := 10\<rparr>) of (r, p, _, tr) \<Rightarrow> (r, p, tr))"
  using invoke_key_confidential [of "\<lparr>alloc_operation_res = \<lambda>_. 0, alloc_transient_res = \<lambda>_. 0,
       populate_res = \<lambda>_. 0, set_key_res = 0, hmac_fn = \<lambda>k m. replicate 20 7\<rparr>"
     "ta_init\<lparr>K := replicate 10 1 @ replicate 54 0, K_len := 10\<rparr>"
     "ta_init\<lparr>K := replicate 10 2 @ replicate 54 0, K_len := 10\<rparr>" "replicate 20 0" 1 3 2
     "replicate 4 \<lparr>memref_buffer = [], memref_size = 0, value_a = 0, value_b = 0\<rparr>"]
  by (simp add: key_indist_def service_results_def witness_simps)
end
