(* ===== verification/Spec2Isabelle.thy ===== *)
theory Spec2Isabelle
  imports Host_Client HMAC_Schedule HMAC_Lifecycle HMAC_Log TEE_Handles HMAC_Secrecy
begin

text \<open>
  \<^bold>\<open>A verification development of the OP-TEE HMAC example.\<close>

  \<^bold>\<open>The program.\<close> \<^verbatim>\<open>src/hmac/ta/hmac_ta.c\<close> is a trusted application
  (TA) that keeps three global slots (a shared key \<open>K\<close>, a message \<open>input\<close>, an
  expected tag \<open>output\<close>, each a fixed array with a logical length) and answers
  four commands (ids in \<^verbatim>\<open>src/hmac/ta/hmac_ta.h\<close>): three register commands
  that copy a client buffer into a slot, and \<open>GET_HMAC\<close>, which computes
  HMAC-SHA1 of the message under the key through the TEE Internal Core API
  (\<open>hmac_sha1\<close>) and writes 0 (match) or 1 (mismatch) into an output value.
  \<open>TA_InvokeCommandEntryPoint\<close> dispatches on the command id; the session
  context is ignored, so all sessions share the slots.
  \<^verbatim>\<open>src/mac_sha1/host/main.c\<close> is the client that registers a key, a
  message and the expected tag of a known test vector, then asks for the verdict.

  \<^bold>\<open>The theories.\<close>
  \<^item> \<open>Prelude\<close>: \<open>byte\<close>/\<open>u32\<close>, the C primitives \<open>memset\<close>/\<open>memcpy\<close> on
    arrays as byte lists, the zero-padding predicate, list and word lemmas
    (loop measure on a \<open>u32\<close> counter, no-wrap of \<open>i + 1\<close>).
  \<^item> \<open>TEE_API\<close> (environment, not code of the repository): result codes,
    \<open>TEE_PARAM_TYPES\<close>/\<open>TEE_PARAM_TYPE_GET\<close> with their round trip,
    \<open>TEE_Param\<close> as a record, the crypto services as a record \<open>tee_crypto\<close> of
    the results they return (the interface the TA is proved against: every
    theorem quantifies over it), \<open>TEE_MACComputeFinal\<close>, and the trace events
    with the handle discipline \<open>handles_ok\<close>.
  \<^item> \<open>HMAC_State\<close>: the size constants and the statics as the record
    \<open>ta_state\<close>; the initial state \<open>ta_init\<close> (zeroed statics); the invariant
    \<open>ta_inv\<close> (array sizes, lengths within capacity, zero padding); the abstract
    view \<open>stored_key\<close>/\<open>stored_message\<close>/\<open>stored_output\<close>.
  \<^item> \<open>HMAC_Crypto\<close>: \<open>hmac_sha1\<close> with its early returns and its \<open>goto exit\<close>
    cleanup (\<open>hmac_exit\<close>), returning the result code, the output objects and
    the handle trace. Claims C6, C8, C14, C15, C20.
  \<^item> \<open>HMAC_Register\<close>: \<open>register_shared_key\<close>, \<open>register_message\<close>,
    \<open>register_output\<close>, each with its descriptor check, size check,
    \<open>memset\<close> and \<open>memcpy\<close>. Claims C2, C3, C13, C17, C19.
  \<^item> \<open>HMAC_Verdict\<close>: \<open>get_hmac\<close> and its comparison loop \<open>verdict_loop\<close>, a
    \<open>function\<close> on a \<open>u32\<close> counter terminating by the measure
    \<open>output_len - i\<close>; the uninitialised stack array \<open>mac\<close> is a parameter
    \<open>mac0\<close>; the same loop written as the C code has it, \<open>break\<close> included, as a
    \<open>while_option\<close> (\<open>verdict_while\<close>), proved to stop and to agree with
    \<open>verdict_loop\<close>. Claims C1, C5, C7, C11, C12, C16, C27.
  \<^item> \<open>HMAC_TA\<close>: command ids, the entry points, the dispatcher, the TA as the
    step relation \<open>ta_step\<close> with \<open>ta_reachable\<close>, and the invariant of all
    reachable states by rule induction. Claims C4, C9, C10, C18.
  \<^item> \<open>HMAC_Spec\<close>: the abstract service (three byte strings \<open>abs_store\<close>,
    one command \<open>abs_invoke\<close>, the observable reply \<open>reply_matches\<close>, the
    abstract machine \<open>abs_reachable\<close>), the reading \<open>abs_of\<close> of a TA state,
    and one lemma per handler relating it to its abstract command.
  \<^item> \<open>HMAC_Schedule\<close>: schedules of invocations from several sessions as
    they are serialised by the TEE core (\<open>ta_run\<close>, modelled from the spec),
    their abstract counterpart \<open>abs_run\<close>, and refinement under interleaving.
    Claim C26.
  \<^item> \<open>HMAC_Lifecycle\<close>: the TA's UUID, \<open>TA_CloseSessionEntryPoint\<close> and
    \<open>TA_DestroyEntryPoint\<close>, and the life of the TA instance as the TEE core
    manages it (modelled from the spec): loading with zero-filled statics,
    opening and closing sessions, invocations on open sessions, unloading
    (\<open>life_step\<close>, \<open>life_run\<close>, \<open>life_reachable\<close>). Claims C29 (invariant
    of every reachable instance), C30 (the slots outlive the session that
    filled them), C31 (a session opens only with a descriptor declaring no
    parameters), C32 (liveness: from every reachable state a run ends in a
    \<open>GET_HMAC\<close> giving the correct verdict on any key, message and expected
    output).
  \<^item> \<open>HMAC_Log\<close>: the \<open>DMSG\<close>/\<open>EMSG\<close> output of each handler as a list
    of log entries, with \<open>%s\<close> read as a C string (\<open>c_str\<close>). Claims C33
    (the message and expected output logs, reading past a full array), C35
    (the key is written to the debug log), C37 (the error log of
    \<open>GET_HMAC\<close> reports exactly the code the client receives).
  \<^item> \<open>Host_Client\<close>: \<^verbatim>\<open>main.c\<close> as \<open>host_io\<close> (context set-up,
    session, the printed lines, the four invocations with their early exits)
    and \<open>host_main\<close> (the same run without the output), its test vectors,
    and the client library calls it makes (modelled from the TEE Client API
    specification), run against \<open>TA_InvokeCommandEntryPoint\<close>. Claims C36
    (what the program prints, each \<open>%s\<close> past its vector).
  \<^item> \<open>TEE_Handles\<close>: the object heap of the TEE core (\<open>tee_heap\<close>,
    modelled from the GlobalPlatform specification) and the meaning of every
    API call \<open>hmac_sha1\<close> makes (\<open>api_step\<close>, a panic as \<open>Inl\<close>), run on
    its trace from its \<open>TEE_HANDLE_NULL\<close> locals \<open>hmac_locals_init\<close>
    (\<open>api_run\<close>). Claim C39 (no panic, and the heap is left as it was).
  \<^item> \<open>HMAC_Secrecy\<close>: key-indistinguishable states (\<open>key_indist\<close>: equal
    except the key bytes, alike for the TEE core and for the tag), kept by
    every command but \<open>REGISTER_MESSAGE\<close>. Claims C38 (the same replies along
    any schedule that registers no message) and C40 (the same replies, API
    calls included, for one invocation).
  \<^item> This theory: the properties that span components. C21 (the host
    program end to end), C22 (refinement of the abstract service by every
    invocation), C23 (simulation of the reachable states), C24 (no isolation
    between sessions), C25 (the dispatcher refuses exactly the descriptors
    that do not decode, through \<open>TEE_PARAM_TYPE_GET\<close>, to the expected
    parameter types), C28 (the
    result codes an invocation can return), C34 (the host program's error
    path).

  \<^bold>\<open>What is proved.\<close> Functional behaviour of every handler on every branch
  (success, wrong descriptor, oversize buffer, bad key length, each TEE
  service failing, short output buffer); validate-then-commit for the register
  commands; the verdict as "expected output is a prefix of the tag"; mismatch
  detection; the boundary case of an empty expected output; idempotence of
  \<open>GET_HMAC\<close>; that only one bit leaves the TA; equivalence of the early-exit
  loop with the constant-time comparison the spec asks for; release of every
  TEE handle on every path of \<open>hmac_sha1\<close>; that the allocators are asked
  for the key size in bits, without wrap-around, and for no other size; the reachable-state invariant that keeps every buffer access in
  bounds; that the TA refines an abstract three-slot service, invocation by
  invocation and over all reachable states; that the host program prints the
  verdict of the TEE's HMAC on its test vector from any well-formed state; that
  a key registered in one session is the key every other session's
  \<open>GET_HMAC\<close> uses; that the descriptor checks accept exactly the descriptors
  with the expected decoded types; the result codes a client can receive;
  that the literal comparison loop terminates; the invariant of the instance
  lifecycle, the lifetime of the slots (the instance, not the session), and
  that from every reachable state a client can still obtain a correct verdict;
  that a session opens only without parameters; that the host reports a failing service's error; that
  the key registration writes the key to the debug log, and the message and
  output registrations read past a full array; that the API calls of
  \<open>hmac_sha1\<close>, given their GlobalPlatform meaning, never panic and free
  exactly what they allocate; that the replies of the TA reveal nothing of
  the key beyond its length, the services' results and its tag. No
  fuel is used: the only loop of the TA is bounded by a \<open>u32\<close> length; it is
  modelled both by a terminating function and by \<open>while_option\<close>, whose result
  is proved to be \<open>Some\<close> for every input (C27).

  \<^bold>\<open>What the modelling showed.\<close> The register handler accepts keys shorter
  than the 10-byte minimum (C13), which then make \<open>GET_HMAC\<close> fail; in that
  case, and in the initial state, \<open>GET_HMAC\<close> compares the expected output
  against the uninitialised stack array and writes a verdict anyway (C12); a
  64-byte key without a zero byte leaves \<open>K\<close> unterminated for the
  \<open>DMSG("%s")\<close> that follows (C19), and that \<open>DMSG\<close> writes the secret key
  itself to the debug log (C35); the slots are shared by all sessions
  (C24), where the specification asks for isolation in a corrected design,
  and they survive the closing of a session (C30), where the spec says they
  are held for a session's lifetime. The header comment promises RFC 4226
  (HOTP) and \<open>DBC2_MODULO\<close> is defined, but no truncation is computed. In
  \<^verbatim>\<open>main.c\<close> the \<open>goto exit\<close> statements name a label that is not
  defined, and the arrays printed with \<open>%s\<close> have no terminating zero.

  \<^bold>\<open>Not modelled.\<close> How the TEE core formats and delivers the log
  (\<open>HMAC_Log\<close> models what each call prints, not the trace buffer); the
  unused constant \<open>DBC2_MODULO\<close>; the SHA-1 and HMAC computation
  inside the TEE core, which the TA only calls (an interface parameter
  \<open>hmac_fn\<close> with the 20-byte contract \<open>crypto_wf\<close>). An executable SHA-1
  reference was tried for evaluating the host's test vector in the kernel, but
  four compression rounds of 80 steps do not evaluate by \<open>simp\<close> or
  \<open>code_simp\<close> in practical time (minutes per compression block), so C21 is stated for every primitive
  and the vector itself (HMAC-SHA1 of "The quick brown fox jumps over the lazy
  dog" under "keykeykeyk") is not checked here. On the host side, the error
  origin reported by the client library and the layout of memory past the
  test vectors (what \<open>%s\<close> prints once it leaves an array) are not modelled;
  \<open>main\<close> never closes its session or finalises its context, so there is
  nothing to model there. The crypto services stay an interface: their
  implementation is in the TEE core, not in this repository.

  \<^bold>\<open>Where the development stops.\<close> Every function of
  \<^verbatim>\<open>hmac_ta.c\<close> and \<^verbatim>\<open>main.c\<close> is modelled. Two components stay
  partly modelled because their code is not in this repository: the TEE
  Internal Core API (the HMAC computation is the parameter \<open>hmac_fn\<close> and the
  services' success is an input, while the handle semantics of
  \<open>TEE_Handles\<close> is modelled) and the dispatch of the TEE core (serialised
  invocations and the instance lifecycle are modelled from the spec, its
  scheduler and memory management are not). Confidentiality is proved per
  invocation (C40) and along schedules that register no message (C38); once a
  new message is registered two keys may be told apart by their tags, so that
  case has no confidentiality statement.
\<close>

section \<open>Properties across components\<close>

text \<open>
  C21. End to end: from any well-formed TA state (the slots are shared and may
  hold anything another client left), the host program's three registrations
  succeed and its \<open>GET_HMAC\<close> prints 0 exactly when the TEE's HMAC of the test
  message under the test key equals the test tag, and 1 otherwise; the TA is
  left holding the three test vectors.
\<close>

theorem host_main_verdict:
  assumes "ta_inv s" "crypto_wf env" "crypto_succeeds env 10 mac_data_sha1_key1" "length mac0 = 20"
  shows "host_main env mac0 s =
           (PrintedHmac (if hmac_fn env mac_data_sha1_key1 mac_data_sha1_in1 = mac_data_sha1_out1
                         then 0 else 1),
            host_registered s)"
proof -
  let ?s = "host_registered s"
  have inv: "ta_inv ?s" by (rule host_registered_inv)
  have k: "key_len_ok (K_len ?s)" by (simp add: host_registered_stored key_len_ok_def size_defs)
  have c: "crypto_succeeds env (K_len ?s) (K ?s)"
    using assms(3) by (simp add: crypto_succeeds_def host_registered_stored)
  have t: "length (hmac_fn env mac_data_sha1_key1 mac_data_sha1_in1) = 20"
    using assms(2) by (simp add: crypto_wf_def)
  show ?thesis
    using get_hmac_success [OF inv assms(2) k c assms(4)] t
    by (simp add: host_main_registers [OF assms(1)] TEEC_InvokeCommand_def
        TA_InvokeCommandEntryPoint_def cmd_defs host_registered_stored tag_verdict_def
        TEEC_SUCCESS_def tee_result_defs)
qed

theorem host_main_verdict_witness:
  "ta_inv ta_init \<and> crypto_wf \<lparr>alloc_operation_res = \<lambda>_. 0, alloc_transient_res = \<lambda>_. 0, populate_res = \<lambda>_. 0,
            set_key_res = 0, hmac_fn = \<lambda>k m. mac_data_sha1_out1\<rparr> \<and>
   crypto_succeeds \<lparr>alloc_operation_res = \<lambda>_. 0, alloc_transient_res = \<lambda>_. 0, populate_res = \<lambda>_. 0,
            set_key_res = 0, hmac_fn = \<lambda>k m. mac_data_sha1_out1\<rparr> 10 mac_data_sha1_key1 \<and> length (replicate 20 (0::byte)) = 20 \<and>
   host_main \<lparr>alloc_operation_res = \<lambda>_. 0, alloc_transient_res = \<lambda>_. 0, populate_res = \<lambda>_. 0,
            set_key_res = 0, hmac_fn = \<lambda>k m. mac_data_sha1_out1\<rparr> (replicate 20 0) ta_init = (PrintedHmac 0, host_registered ta_init)"
  using host_main_verdict [of ta_init "\<lparr>alloc_operation_res = \<lambda>_. 0, alloc_transient_res = \<lambda>_. 0, populate_res = \<lambda>_. 0,
            set_key_res = 0, hmac_fn = \<lambda>k m. mac_data_sha1_out1\<rparr>" "replicate 20 0"]
  by (simp add: witness_simps)

text \<open>
  C22. Refinement: every invocation of the TA from a well-formed state
  implements the abstract service \<open>abs_invoke\<close> (three byte strings; register
  replaces one of them or is rejected; \<open>GET_HMAC\<close> reports whether the expected
  output is a prefix of the HMAC, or the first failing service's error, or
  rejects). The result code and the verdict the client reads are the abstract
  reply, the new state reads as the abstract successor store, and the state
  stays well-formed.
\<close>

theorem invoke_refines_spec:
  assumes "ta_inv s" "invocation_ok mac0 params" "crypto_wf env"
    "TA_InvokeCommandEntryPoint env mac0 sess cmd pt params s = (r, params', s', tr)"
  shows "reply_matches (fst (abs_invoke env cmd pt params (abs_of s))) r params' \<and>
         abs_of s' = snd (abs_invoke env cmd pt params (abs_of s)) \<and> ta_inv s'"
  using invoke_abs_reply [OF assms] invoke_abs_store [OF assms(1) _ assms(4)]
    ta_step_inv [OF ta_step.invoke [OF assms(2,4)] assms(1)] assms(2)
  by (simp add: invocation_ok_def)

theorem invoke_refines_spec_witness:
  "ta_inv ta_init \<and> invocation_ok (replicate 20 0) (replicate 4 \<lparr>memref_buffer = replicate 10 1, memref_size = 10, value_a = 0, value_b = 0\<rparr>) \<and> crypto_wf \<lparr>alloc_operation_res = \<lambda>_. 0, alloc_transient_res = \<lambda>_. 0, populate_res = \<lambda>_. 0,
            set_key_res = 0, hmac_fn = \<lambda>k m. replicate 20 7\<rparr> \<and>
   TA_InvokeCommandEntryPoint \<lparr>alloc_operation_res = \<lambda>_. 0, alloc_transient_res = \<lambda>_. 0, populate_res = \<lambda>_. 0,
            set_key_res = 0, hmac_fn = \<lambda>k m. replicate 20 7\<rparr> (replicate 20 0) 0 0 5 (replicate 4 \<lparr>memref_buffer = replicate 10 1, memref_size = 10, value_a = 0, value_b = 0\<rparr>) ta_init =
     (TEE_SUCCESS, (replicate 4 \<lparr>memref_buffer = replicate 10 1, memref_size = 10, value_a = 0, value_b = 0\<rparr>), ta_init\<lparr>K := replicate 10 1 @ replicate 54 0, K_len := 10\<rparr>, []) \<and>
   reply_matches Accepted TEE_SUCCESS (replicate 4 \<lparr>memref_buffer = replicate 10 1, memref_size = 10, value_a = 0, value_b = 0\<rparr>) \<and>
   abs_of (ta_init\<lparr>K := replicate 10 1 @ replicate 54 0, K_len := 10\<rparr>) =
     \<lparr>a_key = replicate 10 1, a_msg = [], a_out = []\<rparr>"
  using invoke_refines_spec [of ta_init "replicate 20 0" "(replicate 4 \<lparr>memref_buffer = replicate 10 1, memref_size = 10, value_a = 0, value_b = 0\<rparr>)" "\<lparr>alloc_operation_res = \<lambda>_. 0, alloc_transient_res = \<lambda>_. 0, populate_res = \<lambda>_. 0,
            set_key_res = 0, hmac_fn = \<lambda>k m. replicate 20 7\<rparr>" 0 0 5 TEE_SUCCESS "(replicate 4 \<lparr>memref_buffer = replicate 10 1, memref_size = 10, value_a = 0, value_b = 0\<rparr>)"
      "ta_init\<lparr>K := replicate 10 1 @ replicate 54 0, K_len := 10\<rparr>" "[]"]
  by (simp add: witness_simps invocation_ok_def memref_wf_def TA_InvokeCommandEntryPoint_def cmd_defs
      register_shared_key_cases memset_def memcpy_def abs_invoke_def abs_accept_def abs_of_def)

text \<open>
  C23. Simulation: every state the TA reaches from its zeroed statics, by any
  sequence of invocations from any sessions, reads as a store the abstract
  service reaches from three empty strings; no concrete behaviour leaves the
  abstract specification.
\<close>

theorem ta_reachable_refines: "ta_reachable s \<Longrightarrow> abs_reachable (abs_of s)"
proof (induction rule: ta_reachable.induct)
  case init
  show ?case by (simp add: abs_of_init abs_reachable.init)
next
  case (step s s')
  from step.hyps(2) show ?case
  proof (cases rule: ta_step.cases)
    case (invoke mac0 params env sess cmd pt r params' tr)
    have "abs_of s' = snd (abs_invoke env cmd pt params (abs_of s))"
      using invoke_abs_store ta_reachable_inv [OF step.hyps(1)] invoke
      by (auto simp: invocation_ok_def)
    with step.IH show ?thesis
      by (metis abs_reachable.step prod.collapse)
  qed
qed

theorem ta_reachable_refines_witness: "abs_reachable (abs_of ta_init)"
  using ta_reachable_refines [OF ta_reachable.init] .

text \<open>
  C24. No isolation between sessions: the slots are process-wide, so after a
  client in one session registers a key the primitive accepts, a
  \<open>GET_HMAC\<close> from any session (the same or another) computes its verdict
  with that key, against the message and expected output left by whoever
  registered them; the session identifiers play no part.
\<close>

theorem sessions_share_key:
  assumes "ta_inv s" "crypto_wf env" "memref_wf (pa ! 0)" "length mac0 = 20"
    "key_len_ok (memref_size (pa ! 0))"
    "crypto_succeeds env (memref_size (pa ! 0)) (memref_buffer (pa ! 0))"
    "TA_InvokeCommandEntryPoint env mac1 sessA TA_HMAC_CMD_REGISTER_SHARED_KEY exp_memref_input pa s
       = (ra, pa', s1, tra)"
  shows "TA_InvokeCommandEntryPoint env mac0 sessB TA_HMAC_CMD_GET_HMAC exp_value_output pb s1 =
           (TEE_SUCCESS,
            pb[0 := (pb ! 0)\<lparr>value_a :=
              tag_verdict (hmac_fn env (take (unat (memref_size (pa ! 0))) (memref_buffer (pa ! 0)))
                             (stored_message s))
                          (stored_output s)\<rparr>],
            s1, hmac_full_trace)"
proof -
  let ?n = "unat (memref_size (pa ! 0))"
  have n: "?n \<le> MAX_KEY_SIZE" "?n \<le> length (memref_buffer (pa ! 0))"
    using assms(3,5) by (simp_all add: key_len_ok_def memref_wf_def)
  have s1: "s1 = s\<lparr>K := take ?n (memref_buffer (pa ! 0)) @ replicate (64 - ?n) 0,
                   K_len := memref_size (pa ! 0)\<rparr>"
  proof -
    have "TA_InvokeCommandEntryPoint env mac1 sessA TA_HMAC_CMD_REGISTER_SHARED_KEY exp_memref_input pa s
          = (TEE_SUCCESS, pa, s\<lparr>K := take ?n (memref_buffer (pa ! 0)) @ replicate (64 - ?n) 0,
                                K_len := memref_size (pa ! 0)\<rparr>, [])"
      using register_key_state [OF assms(1,3) n(1)]
      by (simp add: TA_InvokeCommandEntryPoint_def cmd_defs del: exp_memref_input_val)
    with assms(7) show ?thesis by simp
  qed
  have inv: "ta_inv s1"
    using register_shared_key_inv [OF _ assms(1,3)] register_key_state [OF assms(1,3) n(1)] s1
    by blast
  have k: "stored_key s1 = take ?n (memref_buffer (pa ! 0))"
    using n(2) by (simp add: s1 stored_defs)
  have c: "crypto_succeeds env (K_len s1) (K s1)"
    using assms(6) n(2) by (simp add: s1 crypto_succeeds_def)
  have l: "key_len_ok (K_len s1)" using assms(5) by (simp add: s1)
  have m: "stored_message s1 = stored_message s" "stored_output s1 = stored_output s"
    by (simp_all add: s1 stored_defs)
  show ?thesis
    using get_hmac_success [OF inv assms(2) l c assms(4)] k m
    by (simp add: TA_InvokeCommandEntryPoint_def cmd_defs)
qed

theorem sessions_share_key_witness:
  "ta_inv ta_init \<and> crypto_wf \<lparr>alloc_operation_res = \<lambda>_. 0, alloc_transient_res = \<lambda>_. 0, populate_res = \<lambda>_. 0,
            set_key_res = 0, hmac_fn = \<lambda>k m. replicate 20 7\<rparr> \<and> memref_wf ((replicate 4 \<lparr>memref_buffer = replicate 10 1, memref_size = 10, value_a = 0, value_b = 0\<rparr>) ! 0) \<and>
   length (replicate 20 (0::byte)) = 20 \<and> key_len_ok 10 \<and>
   crypto_succeeds \<lparr>alloc_operation_res = \<lambda>_. 0, alloc_transient_res = \<lambda>_. 0, populate_res = \<lambda>_. 0,
            set_key_res = 0, hmac_fn = \<lambda>k m. replicate 20 7\<rparr> 10 (replicate 10 1) \<and>
   TA_InvokeCommandEntryPoint \<lparr>alloc_operation_res = \<lambda>_. 0, alloc_transient_res = \<lambda>_. 0, populate_res = \<lambda>_. 0,
            set_key_res = 0, hmac_fn = \<lambda>k m. replicate 20 7\<rparr> (replicate 20 0) 1 TA_HMAC_CMD_REGISTER_SHARED_KEY exp_memref_input
     (replicate 4 \<lparr>memref_buffer = replicate 10 1, memref_size = 10, value_a = 0, value_b = 0\<rparr>) ta_init = (TEE_SUCCESS, (replicate 4 \<lparr>memref_buffer = replicate 10 1, memref_size = 10, value_a = 0, value_b = 0\<rparr>), (ta_init\<lparr>K := replicate 10 1 @ replicate 54 0, K_len := 10\<rparr>), []) \<and>
   TA_InvokeCommandEntryPoint \<lparr>alloc_operation_res = \<lambda>_. 0, alloc_transient_res = \<lambda>_. 0, populate_res = \<lambda>_. 0,
            set_key_res = 0, hmac_fn = \<lambda>k m. replicate 20 7\<rparr> (replicate 20 0) 2 TA_HMAC_CMD_GET_HMAC exp_value_output
     (replicate 4 \<lparr>memref_buffer = replicate 10 1, memref_size = 10, value_a = 0, value_b = 0\<rparr>) (ta_init\<lparr>K := replicate 10 1 @ replicate 54 0, K_len := 10\<rparr>) =
     (TEE_SUCCESS, (replicate 4 \<lparr>memref_buffer = replicate 10 1, memref_size = 10, value_a = 0, value_b = 0\<rparr>)[0 := ((replicate 4 \<lparr>memref_buffer = replicate 10 1, memref_size = 10, value_a = 0, value_b = 0\<rparr>) ! 0)\<lparr>value_a := 0\<rparr>], (ta_init\<lparr>K := replicate 10 1 @ replicate 54 0, K_len := 10\<rparr>), hmac_full_trace)"
  using sessions_share_key [of ta_init "\<lparr>alloc_operation_res = \<lambda>_. 0, alloc_transient_res = \<lambda>_. 0, populate_res = \<lambda>_. 0,
            set_key_res = 0, hmac_fn = \<lambda>k m. replicate 20 7\<rparr>" "(replicate 4 \<lparr>memref_buffer = replicate 10 1, memref_size = 10, value_a = 0, value_b = 0\<rparr>)" "replicate 20 0" "replicate 20 0" 1
      TEE_SUCCESS "(replicate 4 \<lparr>memref_buffer = replicate 10 1, memref_size = 10, value_a = 0, value_b = 0\<rparr>)" "(ta_init\<lparr>K := replicate 10 1 @ replicate 54 0, K_len := 10\<rparr>)" "[]" 2 "(replicate 4 \<lparr>memref_buffer = replicate 10 1, memref_size = 10, value_a = 0, value_b = 0\<rparr>)"]
  by (simp add: witness_simps memref_wf_def TA_InvokeCommandEntryPoint_def cmd_defs
      register_shared_key_cases memset_def memcpy_def tag_verdict_def)




text \<open>
  C28. The result codes of the TA: whatever the command, the descriptor, the
  parameters and the state, an invocation returns \<open>TEE_SUCCESS\<close>,
  \<open>TEE_ERROR_BAD_PARAMETERS\<close>, or the result of one of the four TEE services
  \<open>hmac_sha1\<close> calls for the stored key. In particular
  \<open>TEE_ERROR_SHORT_BUFFER\<close> never reaches the client: \<open>get_hmac\<close> always
  passes a 20-byte \<open>mac_len\<close>.
\<close>

theorem invoke_result_codes:
  assumes "TA_InvokeCommandEntryPoint env mac0 sess cmd pt params s = (r, params', s', tr)"
  shows "r = TEE_SUCCESS \<or> r = TEE_ERROR_BAD_PARAMETERS \<or>
         r \<in> set (service_results env (K_len s) (K s))"
proof -
  have get: "fst (get_hmac env mac0 pt params s) = TEE_SUCCESS \<or>
             fst (get_hmac env mac0 pt params s) = TEE_ERROR_BAD_PARAMETERS \<or>
             fst (get_hmac env mac0 pt params s) \<in> set (service_results env (K_len s) (K s))"
    by (auto simp: get_hmac_code hmac_sha1_code TEE_MACComputeFinal_def find_Some_iff
        split: option.splits)
  from invoke_cases [OF assms] get show ?thesis
    by (auto simp: register_shared_key_cases register_message_cases register_output_cases
        split: if_splits)
qed

theorem invoke_result_codes_witness:
  "fst (TA_InvokeCommandEntryPoint
          \<lparr>alloc_operation_res = \<lambda>_. 0, alloc_transient_res = \<lambda>_. 0xFFFF000C, populate_res = \<lambda>_. 0,
           set_key_res = 0, hmac_fn = \<lambda>k m. replicate 20 7\<rparr> (replicate 20 0) 0 3 2
          (replicate 4 \<lparr>memref_buffer = [], memref_size = 0, value_a = 0, value_b = 0\<rparr>)
          (ta_init\<lparr>K := replicate 10 1 @ replicate 54 0, K_len := 10\<rparr>)) = 0xFFFF000C \<and>
   (0xFFFF000C::u32) \<in> set (service_results
          \<lparr>alloc_operation_res = \<lambda>_. 0, alloc_transient_res = \<lambda>_. 0xFFFF000C, populate_res = \<lambda>_. 0,
           set_key_res = 0, hmac_fn = \<lambda>k m. replicate 20 7\<rparr> 10 (replicate 10 1 @ replicate 54 0))"
  using invoke_result_codes [of "\<lparr>alloc_operation_res = \<lambda>_. 0, alloc_transient_res = \<lambda>_. 0xFFFF000C, populate_res = \<lambda>_. 0,
        set_key_res = 0, hmac_fn = \<lambda>k m. replicate 20 7\<rparr>" "replicate 20 0" 0 3 2 "replicate 4 \<lparr>memref_buffer = [], memref_size = 0, value_a = 0, value_b = 0\<rparr>" "ta_init\<lparr>K := replicate 10 1 @ replicate 54 0, K_len := 10\<rparr>"
      "fst (TA_InvokeCommandEntryPoint \<lparr>alloc_operation_res = \<lambda>_. 0, alloc_transient_res = \<lambda>_. 0xFFFF000C, populate_res = \<lambda>_. 0,
        set_key_res = 0, hmac_fn = \<lambda>k m. replicate 20 7\<rparr> (replicate 20 0) 0 3 2 (replicate 4 \<lparr>memref_buffer = [], memref_size = 0, value_a = 0, value_b = 0\<rparr>) (ta_init\<lparr>K := replicate 10 1 @ replicate 54 0, K_len := 10\<rparr>))" "fst (snd (TA_InvokeCommandEntryPoint \<lparr>alloc_operation_res = \<lambda>_. 0, alloc_transient_res = \<lambda>_. 0xFFFF000C, populate_res = \<lambda>_. 0,
        set_key_res = 0, hmac_fn = \<lambda>k m. replicate 20 7\<rparr> (replicate 20 0) 0 3 2 (replicate 4 \<lparr>memref_buffer = [], memref_size = 0, value_a = 0, value_b = 0\<rparr>) (ta_init\<lparr>K := replicate 10 1 @ replicate 54 0, K_len := 10\<rparr>)))" "fst (snd (snd (TA_InvokeCommandEntryPoint \<lparr>alloc_operation_res = \<lambda>_. 0, alloc_transient_res = \<lambda>_. 0xFFFF000C, populate_res = \<lambda>_. 0,
        set_key_res = 0, hmac_fn = \<lambda>k m. replicate 20 7\<rparr> (replicate 20 0) 0 3 2 (replicate 4 \<lparr>memref_buffer = [], memref_size = 0, value_a = 0, value_b = 0\<rparr>) (ta_init\<lparr>K := replicate 10 1 @ replicate 54 0, K_len := 10\<rparr>))))" "snd (snd (snd (TA_InvokeCommandEntryPoint \<lparr>alloc_operation_res = \<lambda>_. 0, alloc_transient_res = \<lambda>_. 0xFFFF000C, populate_res = \<lambda>_. 0,
        set_key_res = 0, hmac_fn = \<lambda>k m. replicate 20 7\<rparr> (replicate 20 0) 0 3 2 (replicate 4 \<lparr>memref_buffer = [], memref_size = 0, value_a = 0, value_b = 0\<rparr>) (ta_init\<lparr>K := replicate 10 1 @ replicate 54 0, K_len := 10\<rparr>))))"]
  by (simp add: TA_InvokeCommandEntryPoint_def cmd_defs get_hmac_code hmac_sha1_code prod.case_eq_if
      service_results_def key_len_ok_def size_defs tee_result_defs)

text \<open>
  C34. The host program's error path: from any well-formed TA state, when one
  of the TEE services \<open>hmac_sha1\<close> calls for the test key fails, the three
  registrations still succeed, \<open>GET_HMAC\<close> fails with exactly that service's
  error, and \<^verbatim>\<open>main\<close> reports it (\<open>InvokeFailed\<close>) instead of a verdict.
\<close>

theorem host_main_service_error:
  assumes "ta_inv s" "length mac0 = 20"
    "find (\<lambda>r. r \<noteq> TEE_SUCCESS) (service_results env 10 mac_data_sha1_key1) = Some e"
  shows "host_main env mac0 s = (InvokeFailed e, host_registered s)"
proof -
  have e: "e \<noteq> TEE_SUCCESS" using assms(3) by (auto simp: find_Some_iff)
  have sr: "service_results env (K_len (host_registered s)) (K (host_registered s)) =
            service_results env 10 mac_data_sha1_key1"
    by (simp add: service_results_def host_registered_stored)
  have "fst (get_hmac env mac0 2
          [set_tmpref teec_param_zero mac_data_sha1_out1, teec_param_zero, teec_param_zero,
           teec_param_zero] (host_registered s)) = e"
    using assms(3) sr
    by (simp add: get_hmac_code hmac_sha1_code host_registered_stored key_len_ok_def size_defs)
  with e show ?thesis
    by (simp add: host_main_registers [OF assms(1)] TEEC_InvokeCommand_def
        TA_InvokeCommandEntryPoint_def cmd_defs TEEC_SUCCESS_def tee_result_defs prod.case_eq_if)
qed

theorem host_main_service_error_witness:
  "ta_inv ta_init \<and> length (replicate 20 (0::byte)) = 20 \<and>
   find (\<lambda>r. r \<noteq> TEE_SUCCESS) (service_results \<lparr>alloc_operation_res = \<lambda>_. 0, alloc_transient_res = \<lambda>_. 0xFFFF000C, populate_res = \<lambda>_. 0,
            set_key_res = 0, hmac_fn = \<lambda>k m. mac_data_sha1_out1\<rparr> 10 mac_data_sha1_key1) = Some 0xFFFF000C \<and>
   host_main \<lparr>alloc_operation_res = \<lambda>_. 0, alloc_transient_res = \<lambda>_. 0xFFFF000C, populate_res = \<lambda>_. 0,
            set_key_res = 0, hmac_fn = \<lambda>k m. mac_data_sha1_out1\<rparr> (replicate 20 0) ta_init = (InvokeFailed 0xFFFF000C, host_registered ta_init)"
  using host_main_service_error [of ta_init "replicate 20 0" "\<lparr>alloc_operation_res = \<lambda>_. 0, alloc_transient_res = \<lambda>_. 0xFFFF000C, populate_res = \<lambda>_. 0,
            set_key_res = 0, hmac_fn = \<lambda>k m. mac_data_sha1_out1\<rparr>" "0xFFFF000C"]
  by (simp add: witness_simps service_results_def)

end
